theory Spec2Isabelle
  imports Complex_Main "HOL-Library.Word" "HOL-Library.Signed_Division" "HOL-Library.Log_Nat"
begin

section \<open>Machine integers\<close>

text \<open>
  Go's \<^verbatim>\<open>int64\<close> is a 64-bit two's complement word: \<open>+\<close>, \<open>-\<close> and \<open>*\<close> wrap around.
  Go's \<^verbatim>\<open>/\<close> and \<^verbatim>\<open>%\<close> truncate towards zero, which is \<open>sdiv\<close> and \<open>smod\<close> on the signed
  values; the quotient wraps (\<^verbatim>\<open>MinInt64 / -1 = MinInt64\<close>).  A zero divisor is a run-time
  panic in Go; the callers below guard it.
\<close>

type_synonym int64 = "64 word"

definition quo64 :: "int64 \<Rightarrow> int64 \<Rightarrow> int64" where
  "quo64 a b = word_of_int (sint a sdiv sint b)"

definition rem64 :: "int64 \<Rightarrow> int64 \<Rightarrow> int64" where
  "rem64 a b = word_of_int (sint a smod sint b)"

section \<open>Julian dates (astrocalc.go, lines 8 to 92)\<close>

record JulianDate =
  julianDayNumber :: int64
  time :: int64

text \<open>
  \<^verbatim>\<open>integerDivide\<close>: truncated quotient and remainder, moved to the floor when the
  remainder is negative.  The division by zero panics, which is the result \<open>None\<close>.
\<close>

definition integerDivide :: "int64 \<Rightarrow> int64 \<Rightarrow> (int64 \<times> int64) option" where
  "integerDivide a b =
     (if b = 0 then None
      else let q = quo64 a b; r = rem64 a b
           in if r <s 0 then Some (q - 1, r + b) else Some (q, r))"

definition daySec :: int64 where "daySec = 86400"
definition halfDaySec :: int64 where "halfDaySec = 43200"
definition halfDayNano :: int64 where "halfDayNano = 43200000000000"
definition j1970 :: int64 where "j1970 = 2440588"
definition j2000 :: int64 where "j2000 = 2451545"

definition removeHalfDay :: "JulianDate \<Rightarrow> JulianDate" where
  "removeHalfDay j =
     (if time j <s halfDayNano
      then j\<lparr>time := time j + halfDayNano, julianDayNumber := julianDayNumber j - 1\<rparr>
      else j\<lparr>time := time j - halfDayNano\<rparr>)"

text \<open>
  An instant of Go's \<^verbatim>\<open>time.Time\<close>, as the two readings the program takes of it:
  \<^verbatim>\<open>t.Unix()\<close>, the seconds since the Unix epoch, and \<^verbatim>\<open>t.Nanosecond()\<close>, which Go keeps
  in \<open>[0, 999999999]\<close>.  The location and the monotonic clock reading are not part of
  the instant.
\<close>

record instant =
  Unix :: int64
  Nanosecond :: int64

definition valid_instant :: "instant \<Rightarrow> bool" where
  "valid_instant t \<longleftrightarrow> 0 \<le>s Nanosecond t \<and> Nanosecond t <s 1000000000"

text \<open>
  \<^verbatim>\<open>time.Unix(sec, nsec)\<close> of Go's standard library: a nanosecond count outside
  \<open>[0, 999999999]\<close> is carried into the seconds.
\<close>

definition time_Unix :: "int64 \<Rightarrow> int64 \<Rightarrow> instant" where
  "time_Unix sec nsec =
     (if nsec <s 0 \<or> 1000000000 \<le>s nsec
      then let n = quo64 nsec 1000000000;
               sec1 = sec + n;
               nsec1 = nsec - n * 1000000000
           in if nsec1 <s 0
              then \<lparr>Unix = sec1 - 1, Nanosecond = nsec1 + 1000000000\<rparr>
              else \<lparr>Unix = sec1, Nanosecond = nsec1\<rparr>
      else \<lparr>Unix = sec, Nanosecond = nsec\<rparr>)"

definition NewJulian :: "instant \<Rightarrow> JulianDate option" where
  "NewJulian t =
     (case integerDivide (Unix t) daySec of
        None \<Rightarrow> None
      | Some (d1970, secs) \<Rightarrow>
          Some (removeHalfDay \<lparr>julianDayNumber = d1970 + j1970,
                               time = secs * 1000000000 + Nanosecond t\<rparr>))"

definition toDays :: "instant \<Rightarrow> JulianDate option" where
  "toDays t =
     (case NewJulian t of
        None \<Rightarrow> None
      | Some jdn \<Rightarrow> Some (jdn\<lparr>julianDayNumber := julianDayNumber jdn - j2000\<rparr>))"

definition Time :: "JulianDate \<Rightarrow> instant" where
  "Time j = time_Unix ((julianDayNumber j - j1970) * daySec + halfDaySec) (time j)"

definition DayTime :: "JulianDate \<Rightarrow> int64 \<times> int64" where
  "DayTime j = (julianDayNumber j, time j)"

definition JulianFromDayTime :: "int64 \<Rightarrow> int64 \<Rightarrow> JulianDate" where
  "JulianFromDayTime n t = \<lparr>julianDayNumber = n, time = t\<rparr>"

section \<open>Binary floating point (Go's \<^verbatim>\<open>float64\<close>)\<close>

text \<open>
  Go's \<^verbatim>\<open>float64\<close> is the set of IEEE 754 binary64 numbers.  A finite number is held
  as its sign (\<open>True\<close> for negative) and its magnitude, an exact rational; so both zeros
  exist.  Each arithmetic operation is the exact rational operation followed by one
  rounding to the nearest representable number, ties to the even significand, one
  operation at a time (no fused multiply-add, as the Go compiler does on amd64).
\<close>

datatype float64 = Finite bool rat | Infinity bool | NaN

text \<open>The binary exponent of a positive rational: \<open>2 ^ expo m \<le> m < 2 ^ (expo m + 1)\<close>.\<close>

definition expo :: "rat \<Rightarrow> int" where
  "expo m = (case quotient_of m of (p, q) \<Rightarrow>
               let e0 = bitlen p - bitlen q in if 2 powi e0 \<le> m then e0 else e0 - 1)"

text \<open>Rounding to the nearest integer, ties to even.\<close>

definition rne :: "rat \<Rightarrow> int" where
  "rne k = (let f = \<lfloor>k\<rfloor>; d = k - of_int f
            in if d < 1/2 then f else if 1/2 < d then f + 1 else if even f then f else f + 1)"

text \<open>
  The spacing of the binary64 numbers around \<open>m\<close>: 53 significant bits, and the
  subnormal spacing \<open>2 ^ - 1074\<close> below \<open>2 ^ - 1022\<close>.
\<close>

definition quantum :: "rat \<Rightarrow> rat" where
  "quantum m = 2 powi (max (expo m - 52) (- 1074))"

definition round_mag :: "rat \<Rightarrow> rat" where
  "round_mag m = (if m = 0 then 0 else of_int (rne (m / quantum m)) * quantum m)"

text \<open>Rounding a sign and a magnitude; a rounded magnitude of \<open>2 ^ 1024\<close> overflows.\<close>

definition fl :: "bool \<Rightarrow> rat \<Rightarrow> float64" where
  "fl s m = (let r = round_mag m in if 2 ^ 1024 \<le> r then Infinity s else Finite s r)"

text \<open>The \<^verbatim>\<open>float64\<close> value of a constant expression of the source.\<close>

definition f64 :: "rat \<Rightarrow> float64" where
  "f64 x = fl (x < 0) \<bar>x\<bar>"

definition sval :: "bool \<Rightarrow> rat \<Rightarrow> rat" where
  "sval s m = (if s then - m else m)"

definition is_float64 :: "float64 \<Rightarrow> bool" where
  "is_float64 x = (case x of Finite s m \<Rightarrow> 0 \<le> m \<and> m < 2 ^ 1024 \<and> round_mag m = m | _ \<Rightarrow> True)"

text \<open>
  The magnitudes with a significand of at most 53 bits and an exponent in the range of
  the format; the proofs about rounding go through this description.
\<close>

definition representable :: "rat \<Rightarrow> bool" where
  "representable c \<longleftrightarrow> (\<exists>N k. c = of_int N * 2 powi k \<and> 0 \<le> N \<and> N \<le> 2 ^ 53 \<and> - 1074 \<le> k)"

fun fneg :: "float64 \<Rightarrow> float64" where
  "fneg (Finite s m) = Finite (\<not> s) m"
| "fneg (Infinity s) = Infinity (\<not> s)"
| "fneg NaN = NaN"

fun fadd :: "float64 \<Rightarrow> float64 \<Rightarrow> float64" where
  "fadd NaN b = NaN"
| "fadd a NaN = NaN"
| "fadd (Infinity s) (Infinity t) = (if s = t then Infinity s else NaN)"
| "fadd (Infinity s) (Finite t n) = Infinity s"
| "fadd (Finite s m) (Infinity t) = Infinity t"
| "fadd (Finite s m) (Finite t n) =
     (let v = sval s m + sval t n
      in if v = 0 then Finite (s \<and> t) 0 else fl (v < 0) \<bar>v\<bar>)"

definition fsub :: "float64 \<Rightarrow> float64 \<Rightarrow> float64" where
  "fsub a b = fadd a (fneg b)"

fun fmul :: "float64 \<Rightarrow> float64 \<Rightarrow> float64" where
  "fmul NaN b = NaN"
| "fmul a NaN = NaN"
| "fmul (Infinity s) (Infinity t) = Infinity (s \<noteq> t)"
| "fmul (Infinity s) (Finite t n) = (if n = 0 then NaN else Infinity (s \<noteq> t))"
| "fmul (Finite s m) (Infinity t) = (if m = 0 then NaN else Infinity (s \<noteq> t))"
| "fmul (Finite s m) (Finite t n) = fl (s \<noteq> t) (m * n)"

fun fdiv :: "float64 \<Rightarrow> float64 \<Rightarrow> float64" where
  "fdiv NaN b = NaN"
| "fdiv a NaN = NaN"
| "fdiv (Infinity s) (Infinity t) = NaN"
| "fdiv (Infinity s) (Finite t n) = Infinity (s \<noteq> t)"
| "fdiv (Finite s m) (Infinity t) = Finite (s \<noteq> t) 0"
| "fdiv (Finite s m) (Finite t n) =
     (if n = 0 then (if m = 0 then NaN else Infinity (s \<noteq> t))
      else fl (s \<noteq> t) (m / n))"

text \<open>Go's \<^verbatim>\<open><\<close> and \<^verbatim>\<open>>=\<close>: false when an operand is not a number; the zeros are equal.\<close>

fun flt :: "float64 \<Rightarrow> float64 \<Rightarrow> bool" where
  "flt NaN b = False"
| "flt a NaN = False"
| "flt (Infinity s) (Infinity t) = (s \<and> \<not> t)"
| "flt (Infinity s) (Finite t n) = s"
| "flt (Finite s m) (Infinity t) = (\<not> t)"
| "flt (Finite s m) (Finite t n) = (sval s m < sval t n)"

definition fge :: "float64 \<Rightarrow> float64 \<Rightarrow> bool" where
  "fge a b = (a \<noteq> NaN \<and> b \<noteq> NaN \<and> \<not> flt a b)"

definition fle :: "float64 \<Rightarrow> float64 \<Rightarrow> bool" where
  "fle a b = fge b a"

text \<open>The conversion \<^verbatim>\<open>float64(i)\<close> of an \<^verbatim>\<open>int64\<close> rounds to nearest.\<close>

definition float64_of_int64 :: "int64 \<Rightarrow> float64" where
  "float64_of_int64 w = f64 (of_int (sint w))"

text \<open>
  \<^verbatim>\<open>math.Modf\<close>, \<^verbatim>\<open>math.Floor\<close> and \<^verbatim>\<open>math.Ceil\<close> are exact; both parts of
  \<^verbatim>\<open>Modf\<close> carry the sign of the argument.
\<close>

fun Modf :: "float64 \<Rightarrow> float64 \<times> float64" where
  "Modf (Finite s m) = (Finite s (of_int \<lfloor>m\<rfloor>), Finite s (m - of_int \<lfloor>m\<rfloor>))"
| "Modf (Infinity s) = (Infinity s, NaN)"
| "Modf NaN = (NaN, NaN)"

fun Floor :: "float64 \<Rightarrow> float64" where
  "Floor (Finite s m) = (if s then Finite True (of_int \<lceil>m\<rceil>) else Finite False (of_int \<lfloor>m\<rfloor>))"
| "Floor x = x"

fun Ceil :: "float64 \<Rightarrow> float64" where
  "Ceil (Finite s m) = (if s then Finite True (of_int \<lfloor>m\<rfloor>) else Finite False (of_int \<lceil>m\<rceil>))"
| "Ceil x = x"

section \<open>The platform: package \<^verbatim>\<open>math\<close> and the conversion to \<^verbatim>\<open>int64\<close>\<close>

text \<open>
  The elementary functions of Go's package \<^verbatim>\<open>math\<close> are not part of the repository
  and their results differ between platforms in the last bits, so they are a parameter
  of the model.  The wrappers below add what the documentation of the package fixes: the
  special cases at \<open>NaN\<close>, at the infinities, at the zeros and outside the domain.  The
  value of a conversion \<^verbatim>\<open>int64(x)\<close> that the type cannot represent is implementation
  dependent in Go; it is the parameter \<open>conv_impl\<close>.
\<close>

record platform =
  sin_impl :: "float64 \<Rightarrow> float64"
  cos_impl :: "float64 \<Rightarrow> float64"
  tan_impl :: "float64 \<Rightarrow> float64"
  asin_impl :: "float64 \<Rightarrow> float64"
  acos_impl :: "float64 \<Rightarrow> float64"
  atan2_impl :: "float64 \<Rightarrow> float64 \<Rightarrow> float64"
  pow_impl :: "float64 \<Rightarrow> float64 \<Rightarrow> float64"
  conv_impl :: "float64 \<Rightarrow> int64"

fun math_Sin :: "platform \<Rightarrow> float64 \<Rightarrow> float64" where
  "math_Sin P (Finite s m) = (if m = 0 then Finite s m else sin_impl P (Finite s m))"
| "math_Sin P x = NaN"

fun math_Cos :: "platform \<Rightarrow> float64 \<Rightarrow> float64" where
  "math_Cos P (Finite s m) = cos_impl P (Finite s m)"
| "math_Cos P x = NaN"

fun math_Tan :: "platform \<Rightarrow> float64 \<Rightarrow> float64" where
  "math_Tan P (Finite s m) = (if m = 0 then Finite s m else tan_impl P (Finite s m))"
| "math_Tan P x = NaN"

fun math_Asin :: "platform \<Rightarrow> float64 \<Rightarrow> float64" where
  "math_Asin P (Finite s m) =
     (if m = 0 then Finite s m else if 1 < \<bar>m\<bar> then NaN else asin_impl P (Finite s m))"
| "math_Asin P x = NaN"

fun math_Acos :: "platform \<Rightarrow> float64 \<Rightarrow> float64" where
  "math_Acos P (Finite s m) = (if 1 < \<bar>m\<bar> then NaN else acos_impl P (Finite s m))"
| "math_Acos P x = NaN"

definition math_Atan2 :: "platform \<Rightarrow> float64 \<Rightarrow> float64 \<Rightarrow> float64" where
  "math_Atan2 P y x = (if y = NaN \<or> x = NaN then NaN else atan2_impl P y x)"

fun math_Pow :: "platform \<Rightarrow> float64 \<Rightarrow> float64 \<Rightarrow> float64" where
  "math_Pow P x (Finite s m) = (if m = 0 then f64 1 else pow_impl P x (Finite s m))"
| "math_Pow P x y = pow_impl P x y"

text \<open>\<^verbatim>\<open>int64(x)\<close>: truncation towards zero where the result is an \<^verbatim>\<open>int64\<close>.\<close>

fun int64_of_float64 :: "platform \<Rightarrow> float64 \<Rightarrow> int64" where
  "int64_of_float64 P (Finite s m) =
     (let k = (if s then - \<lfloor>m\<rfloor> else \<lfloor>m\<rfloor>)
      in if - (2 ^ 63) \<le> k \<and> k < 2 ^ 63 then word_of_int k else conv_impl P (Finite s m))"
| "int64_of_float64 P x = conv_impl P x"

definition JulianFromFloat :: "platform \<Rightarrow> float64 \<Rightarrow> JulianDate" where
  "JulianFromFloat P j =
     (case Modf j of (ipart, fpart) \<Rightarrow>
        \<lparr>julianDayNumber = int64_of_float64 P ipart,
         time = int64_of_float64 P (fmul (fmul fpart (f64 86400)) (f64 1000000000))\<rparr>)"

section \<open>General calculations for position (astrocalc.go, lines 94 to 125)\<close>

text \<open>
  The constants of the source are constant expressions of Go: they are evaluated exactly
  and rounded once, where they meet a \<^verbatim>\<open>float64\<close>.  \<open>Pi_lit\<close> is the literal \<^verbatim>\<open>math.Pi\<close>.
\<close>

definition Pi_lit :: rat where
  "Pi_lit = 314159265358979323846264338327950288419716939937510582097494459 / 10 ^ 62"

definition math_Pi :: float64 where "math_Pi = f64 Pi_lit"
definition twoPi :: float64 where "twoPi = f64 (2 * Pi_lit)"
definition rad :: float64 where "rad = f64 (Pi_lit / 180)"
definition obliquity :: float64 where "obliquity = f64 (Pi_lit / 180 * (234397 / 10000))"
definition stCoef0Nano :: int64 where "stCoef0Nano = 280160000000"
definition stCoef1Nano :: int64 where "stCoef1Nano = 360985623500"

definition rightAscension :: "platform \<Rightarrow> float64 \<Rightarrow> float64 \<Rightarrow> float64" where
  "rightAscension P l b =
     math_Atan2 P
       (fsub (fmul (math_Sin P l) (math_Cos P obliquity))
             (fmul (math_Tan P b) (math_Sin P obliquity)))
       (math_Cos P l)"

definition declination :: "platform \<Rightarrow> float64 \<Rightarrow> float64 \<Rightarrow> float64" where
  "declination P l b =
     math_Asin P
       (fadd (fmul (math_Sin P b) (math_Cos P obliquity))
             (fmul (fmul (math_Cos P b) (math_Sin P obliquity)) (math_Sin P l)))"

definition azimuth :: "platform \<Rightarrow> float64 \<Rightarrow> float64 \<Rightarrow> float64 \<Rightarrow> float64" where
  "azimuth P H phi dec =
     math_Atan2 P (math_Sin P H)
       (fsub (fmul (math_Cos P H) (math_Sin P phi)) (fmul (math_Tan P dec) (math_Cos P phi)))"

definition altitude :: "platform \<Rightarrow> float64 \<Rightarrow> float64 \<Rightarrow> float64 \<Rightarrow> float64" where
  "altitude P H phi dec =
     math_Asin P
       (fadd (fmul (math_Sin P phi) (math_Sin P dec))
             (fmul (fmul (math_Cos P phi) (math_Cos P dec)) (math_Cos P H)))"

text \<open>
  \<^verbatim>\<open>siderealTime\<close>: the angle of the whole days is reduced in \<^verbatim>\<open>int64\<close> with Go's \<^verbatim>\<open>%\<close>,
  the angle of the time of day and the longitude are added in \<^verbatim>\<open>float64\<close>, and \<open>2\<pi>\<close> is
  added once when the sum is negative.
\<close>

definition siderealTime_i :: "JulianDate \<Rightarrow> int64" where
  "siderealTime_i d = rem64 (stCoef0Nano + julianDayNumber d * stCoef1Nano) 360000000000"

definition siderealTime :: "JulianDate \<Rightarrow> float64 \<Rightarrow> float64" where
  "siderealTime d lw =
     (let i = siderealTime_i d;
          st = fsub (fmul rad
                 (fadd (fdiv (float64_of_int64 i) (f64 1000000000))
                       (fmul (fdiv (float64_of_int64 (time d)) (f64 86400))
                             (fdiv (float64_of_int64 stCoef1Nano) (f64 (10 ^ 18)))))) lw
      in if flt st (f64 0) then fadd st twoPi else st)"

section \<open>General sun calculations (astrocalc.go, lines 127 to 202)\<close>

definition maCoef0Nano :: int64 where "maCoef0Nano = 357529100000"
definition maCoef1Nano :: int64 where "maCoef1Nano = 985600280"

definition solarMeanAnomaly_i :: "JulianDate \<Rightarrow> int64" where
  "solarMeanAnomaly_i d = rem64 (maCoef0Nano + julianDayNumber d * maCoef1Nano) 360000000000"

definition solarMeanAnomaly :: "JulianDate \<Rightarrow> float64" where
  "solarMeanAnomaly d =
     (let i = solarMeanAnomaly_i d;
          ma = fmul rad
                 (fadd (fdiv (float64_of_int64 i) (f64 1000000000))
                       (fmul (fdiv (float64_of_int64 (time d)) (f64 86400))
                             (fdiv (float64_of_int64 maCoef1Nano) (f64 (10 ^ 18)))))
      in if flt ma (f64 0) then fadd ma twoPi else ma)"

definition eclipticLongitude :: "platform \<Rightarrow> float64 \<Rightarrow> float64" where
  "eclipticLongitude P m =
     (let c = fmul rad
                (fadd (fadd (fmul (f64 (19148 / 10000)) (math_Sin P m))
                            (fmul (f64 (2 / 100)) (math_Sin P (fmul (f64 2) m))))
                      (fmul (f64 (3 / 10000)) (math_Sin P (fmul (f64 3) m))));
          p = f64 (Pi_lit / 180 * (1029372 / 10000))
      in fadd (fadd (fadd m c) p) math_Pi)"

definition sunCoords :: "platform \<Rightarrow> JulianDate \<Rightarrow> float64 \<times> float64" where
  "sunCoords P d =
     (let m = solarMeanAnomaly d;
          l = eclipticLongitude P m
      in (declination P l (f64 0), rightAscension P l (f64 0)))"

record sunTime =
  angle :: float64
  riseName :: string
  setName :: string

text \<open>
  The struct \<^verbatim>\<open>SunCalc\<close> has one field, the slice \<^verbatim>\<open>times\<close>.  A slice is the address of
  a backing array, a length and a capacity; copying the struct copies these three and
  not the array, so a calculator and its copy share the array.  The arrays live in a
  heap: \<open>arrays H a\<close> is the array at the address \<open>a\<close> (its length is the capacity of
  the slices on it), and the addresses below \<open>fresh H\<close> are allocated.  The elements of a
  slice are the first \<open>len\<close> elements of its array.
\<close>

record slice =
  base :: nat
  len :: nat
  cap :: nat

record heap =
  arrays :: "nat \<Rightarrow> sunTime list"
  fresh :: nat

record SunCalc =
  sc_times :: slice

definition elems :: "heap \<Rightarrow> slice \<Rightarrow> sunTime list" where
  "elems H sl = take (len sl) (arrays H (base sl))"

text \<open>A composite literal \<^verbatim>\<open>[]sunTime{...}\<close> allocates an array that its elements fill.\<close>

definition slice_lit :: "heap \<Rightarrow> sunTime list \<Rightarrow> slice \<times> heap" where
  "slice_lit H xs =
     (\<lparr>base = fresh H, len = length xs, cap = length xs\<rparr>,
      H\<lparr>arrays := (arrays H)(fresh H := xs), fresh := fresh H + 1\<rparr>)"

text \<open>
  \<^verbatim>\<open>append(sl, x)\<close>.  With capacity left the element is written into the array of the
  slice, at the index \<open>len\<close>, and the result is a slice on the same array.  Without, a
  new array is allocated, the elements are copied and the rest of the array is zero.
  The language leaves the new capacity to the runtime and promises only that it is
  sufficient: \<open>g\<close> is the runtime's choice, from the old capacity and the length needed.
\<close>

definition zero_sunTime :: sunTime where
  "zero_sunTime = \<lparr>angle = Finite False 0, riseName = [], setName = []\<rparr>"

definition append_slice :: "(nat \<Rightarrow> nat \<Rightarrow> nat) \<Rightarrow> heap \<Rightarrow> slice \<Rightarrow> sunTime \<Rightarrow> slice \<times> heap" where
  "append_slice g H sl x =
     (if len sl < cap sl
      then (sl\<lparr>len := len sl + 1\<rparr>,
            H\<lparr>arrays := (arrays H)(base sl := (arrays H (base sl))[len sl := x])\<rparr>)
      else let n = max (len sl + 1) (g (cap sl) (len sl + 1))
           in (\<lparr>base = fresh H, len = len sl + 1, cap = n\<rparr>,
               H\<lparr>arrays := (arrays H)
                    (fresh H := elems H sl @ x # replicate (n - (len sl + 1)) zero_sunTime),
                 fresh := fresh H + 1\<rparr>))"

text \<open>The elements of the literal in \<^verbatim>\<open>NewSunCalc\<close> (its local \<^verbatim>\<open>times\<close>).\<close>

definition NewSunCalc_times :: "sunTime list" where
  "NewSunCalc_times =
     [\<lparr>angle = f64 (- 833 / 1000), riseName = ''sunrise'', setName = ''sunset''\<rparr>,
      \<lparr>angle = f64 (- 3 / 10), riseName = ''sunriseEnd'', setName = ''sunsetStart''\<rparr>,
      \<lparr>angle = f64 (- 6), riseName = ''dawn'', setName = ''dusk''\<rparr>,
      \<lparr>angle = f64 (- 12), riseName = ''nauticalDawn'', setName = ''nauticalDusk''\<rparr>,
      \<lparr>angle = f64 (- 18), riseName = ''nightEnd'', setName = ''night''\<rparr>,
      \<lparr>angle = f64 6, riseName = ''goldenHourEnd'', setName = ''goldenHour''\<rparr>]"

definition NewSunCalc :: "heap \<Rightarrow> SunCalc \<times> heap" where
  "NewSunCalc H = (case slice_lit H NewSunCalc_times of (sl, H') \<Rightarrow> (\<lparr>sc_times = sl\<rparr>, H'))"

text \<open>
  The methods of \<^verbatim>\<open>*SunCalc\<close> take the calculator by pointer.  Each is modelled as a
  function of the heap and of the calculator that returns, beside its results, the
  calculator and the heap as the call leaves them; \<open>None\<close> is a panic.
\<close>

definition GetPosition ::
  "platform \<Rightarrow> heap \<Rightarrow> SunCalc \<Rightarrow> instant \<Rightarrow> float64 \<Rightarrow> float64
     \<Rightarrow> ((float64 \<times> float64) \<times> SunCalc \<times> heap) option" where
  "GetPosition P H s date lat lng =
     (case toDays date of
        None \<Rightarrow> None
      | Some d \<Rightarrow>
          let lw = fmul rad (fneg lng);
              phi = fmul rad lat;
              (dec, ra) = sunCoords P d;
              h = fsub (siderealTime d lw) ra
          in Some ((azimuth P h phi dec, altitude P h phi dec), s, H))"

definition AddTime ::
  "(nat \<Rightarrow> nat \<Rightarrow> nat) \<Rightarrow> heap \<Rightarrow> SunCalc \<Rightarrow> float64 \<Rightarrow> string \<Rightarrow> string \<Rightarrow> SunCalc \<times> heap" where
  "AddTime g H s a rn sn =
     (case append_slice g H (sc_times s) \<lparr>angle = a, riseName = rn, setName = sn\<rparr> of
        (sl, H') \<Rightarrow> (s\<lparr>sc_times := sl\<rparr>, H'))"

section \<open>Calculations for sun times (astrocalc.go, lines 204 to 275)\<close>

definition j0 :: float64 where "j0 = f64 (9 / 10000)"

definition round_go :: "platform \<Rightarrow> float64 \<Rightarrow> float64 \<Rightarrow> int64 \<Rightarrow> float64" where
  "round_go P val roundOn places =
     (let pow = math_Pow P (f64 10) (float64_of_int64 places);
          digit = fmul pow val;
          dv = snd (Modf digit);
          rnd = (if fge dv roundOn then Ceil digit else Floor digit)
      in fdiv rnd pow)"

definition julianCycle :: "platform \<Rightarrow> JulianDate \<Rightarrow> float64 \<Rightarrow> float64" where
  "julianCycle P d lw =
     round_go P
       (fsub (fsub (fadd (float64_of_int64 (julianDayNumber d))
                         (fdiv (float64_of_int64 (time d)) (f64 86400000000000)))
                   j0)
             (fdiv lw twoPi))
       (f64 (1 / 2)) 0"

definition approxTransit :: "float64 \<Rightarrow> float64 \<Rightarrow> float64 \<Rightarrow> float64" where
  "approxTransit Ht lw n = fadd (fadd j0 (fdiv (fadd Ht lw) twoPi)) n"

definition solarTransitJ :: "platform \<Rightarrow> float64 \<Rightarrow> float64 \<Rightarrow> float64 \<Rightarrow> float64" where
  "solarTransitJ P ds M L =
     fsub (fadd (fadd (f64 2451545) ds) (fmul (f64 (53 / 10000)) (math_Sin P M)))
          (fmul (f64 (69 / 10000)) (math_Sin P (fmul (f64 2) L)))"

definition hourAngle_arg :: "platform \<Rightarrow> float64 \<Rightarrow> float64 \<Rightarrow> float64 \<Rightarrow> float64" where
  "hourAngle_arg P h phi d =
     fdiv (fsub (math_Sin P h) (fmul (math_Sin P phi) (math_Sin P d)))
          (fmul (math_Cos P phi) (math_Cos P d))"

definition hourAngle :: "platform \<Rightarrow> float64 \<Rightarrow> float64 \<Rightarrow> float64 \<Rightarrow> float64" where
  "hourAngle P h phi d = math_Acos P (hourAngle_arg P h phi d)"

definition getSetJ ::
  "platform \<Rightarrow> float64 \<Rightarrow> float64 \<Rightarrow> float64 \<Rightarrow> float64 \<Rightarrow> float64 \<Rightarrow> float64 \<Rightarrow> float64 \<Rightarrow> float64" where
  "getSetJ P h lw phi dec n m l =
     (let w = hourAngle P h phi dec;
          a = approxTransit w lw n
      in solarTransitJ P a m l)"

text \<open>
  \<^verbatim>\<open>GetTimes\<close>, in three parts: the values it computes before the loop (\<open>solarDay\<close>),
  the body of the loop over the configured definitions (\<open>emitTime\<close>), and the function
  itself.  The result is Go's \<^verbatim>\<open>map[string]time.Time\<close>; an assignment to a key that is
  present replaces the entry.
\<close>

record solarDay =
  sd_lw :: float64
  sd_phi :: float64
  sd_n :: float64
  sd_m :: float64
  sd_l :: float64
  sd_dec :: float64
  sd_jNoon :: float64

definition solarDayOf :: "platform \<Rightarrow> JulianDate \<Rightarrow> float64 \<Rightarrow> float64 \<Rightarrow> solarDay" where
  "solarDayOf P d lat lng =
     (let lw = fmul rad (fneg lng);
          phi = fmul rad lat;
          n = julianCycle P d lw;
          ds = approxTransit (f64 0) lw n;
          m = solarMeanAnomaly (JulianFromFloat P ds);
          l = eclipticLongitude P m;
          dec = declination P l (f64 0);
          jNoon = solarTransitJ P ds m l
      in \<lparr>sd_lw = lw, sd_phi = phi, sd_n = n, sd_m = m, sd_l = l, sd_dec = dec, sd_jNoon = jNoon\<rparr>)"

definition jSetOf :: "platform \<Rightarrow> solarDay \<Rightarrow> sunTime \<Rightarrow> float64" where
  "jSetOf P c t =
     getSetJ P (fmul (angle t) rad) (sd_lw c) (sd_phi c) (sd_dec c) (sd_n c) (sd_m c) (sd_l c)"

definition jRiseOf :: "platform \<Rightarrow> solarDay \<Rightarrow> sunTime \<Rightarrow> float64" where
  "jRiseOf P c t = fsub (sd_jNoon c) (fsub (jSetOf P c t) (sd_jNoon c))"

definition emitTime ::
  "platform \<Rightarrow> solarDay \<Rightarrow> (string \<rightharpoonup> instant) \<Rightarrow> sunTime \<Rightarrow> (string \<rightharpoonup> instant)" where
  "emitTime P c result t =
     (let jSet = jSetOf P c t;
          jRise = jRiseOf P c t;
          result1 = (if riseName t \<noteq> [] then result(riseName t \<mapsto> Time (JulianFromFloat P jRise))
                     else result)
      in if setName t \<noteq> [] then result1(setName t \<mapsto> Time (JulianFromFloat P jSet))
         else result1)"

definition GetTimes ::
  "platform \<Rightarrow> heap \<Rightarrow> SunCalc \<Rightarrow> instant \<Rightarrow> float64 \<Rightarrow> float64
     \<Rightarrow> ((string \<rightharpoonup> instant) \<times> SunCalc \<times> heap) option" where
  "GetTimes P H s date lat lng =
     (case toDays date of
        None \<Rightarrow> None
      | Some d \<Rightarrow>
          let c = solarDayOf P d lat lng;
              result = Map.empty
                (''solarNoon'' \<mapsto> Time (JulianFromFloat P (sd_jNoon c)),
                 ''nadir'' \<mapsto> Time (JulianFromFloat P (fsub (sd_jNoon c) (f64 (1 / 2)))))
          in Some (foldl (emitTime P c) result (elems H (sc_times s)), s, H))"

section \<open>Moon calculations (astrocalc.go, lines 277 to 346)\<close>

definition moonCoords :: "platform \<Rightarrow> JulianDate \<Rightarrow> float64 \<times> float64 \<times> float64" where
  "moonCoords P jd =
     (let d = fadd (float64_of_int64 (julianDayNumber jd))
                   (fdiv (float64_of_int64 (time jd)) (f64 86400000000000));
          L = fmul rad (fadd (f64 (218316 / 1000)) (fmul (f64 (13176396 / 1000000)) d));
          M = fmul rad (fadd (f64 (134963 / 1000)) (fmul (f64 (13064993 / 1000000)) d));
          F = fmul rad (fadd (f64 (93272 / 1000)) (fmul (f64 (13229350 / 1000000)) d));
          l = fadd L (fmul (f64 (Pi_lit / 180 * (6289 / 1000))) (math_Sin P M));
          b = fmul (f64 (Pi_lit / 180 * (5128 / 1000))) (math_Sin P F);
          dt = fsub (f64 385001) (fmul (f64 20905) (math_Cos P M))
      in (declination P l b, rightAscension P l b, dt))"

definition GetMoonPosition ::
  "platform \<Rightarrow> instant \<Rightarrow> float64 \<Rightarrow> float64 \<Rightarrow> (float64 \<times> float64 \<times> float64) option" where
  "GetMoonPosition P date lat lng =
     (case toDays date of
        None \<Rightarrow> None
      | Some d \<Rightarrow>
          let lw = fmul rad (fneg lng);
              phi = fmul rad lat;
              (dec, ra, distance) = moonCoords P d;
              H = fsub (siderealTime d lw) ra;
              h = altitude P H phi dec;
              h' = fadd h
                     (fdiv (f64 (Pi_lit / 180 * (17 / 1000)))
                           (math_Tan P
                              (fadd h (fdiv (f64 (Pi_lit / 180 * (1026 / 100)))
                                            (fadd h (f64 (Pi_lit / 180 * (510 / 100))))))))
          in Some (azimuth P H phi dec, h', distance))"

definition sdist :: float64 where "sdist = f64 149598000"

text \<open>The locals \<^verbatim>\<open>phi\<close>, \<^verbatim>\<open>inc\<close> and \<^verbatim>\<open>angle\<close> of \<^verbatim>\<open>GetMoonIllumination\<close>.\<close>

definition moonAngles :: "platform \<Rightarrow> JulianDate \<Rightarrow> float64 \<times> float64 \<times> float64" where
  "moonAngles P d =
     (let (sDec, sRa) = sunCoords P d;
          (mDec, mRa, mDist) = moonCoords P d;
          phi = math_Acos P
                  (fadd (fmul (math_Sin P sDec) (math_Sin P mDec))
                        (fmul (fmul (math_Cos P sDec) (math_Cos P mDec)) (math_Cos P (fsub sRa mRa))));
          inc = math_Atan2 P (fmul sdist (math_Sin P phi))
                  (fsub mDist (fmul sdist (math_Cos P phi)));
          ang = math_Atan2 P (fmul (math_Cos P sDec) (math_Sin P (fsub sRa mRa)))
                    (fsub (fmul (math_Sin P sDec) (math_Cos P mDec))
                          (fmul (fmul (math_Cos P sDec) (math_Sin P mDec)) (math_Cos P (fsub sRa mRa))))
      in (phi, inc, ang))"

definition GetMoonIllumination ::
  "platform \<Rightarrow> instant \<Rightarrow> (float64 \<times> float64 \<times> float64) option" where
  "GetMoonIllumination P date =
     (case toDays date of
        None \<Rightarrow> None
      | Some d \<Rightarrow>
          let (phi, inc, ang) = moonAngles P d;
              fraction = fdiv (fadd (f64 1) (math_Cos P inc)) (f64 2);
              c = (if flt ang (f64 0) then f64 (- 1) else f64 1);
              phase = fadd (f64 (1 / 2)) (fdiv (fmul (fmul (f64 (1 / 2)) inc) c) math_Pi)
          in Some (fraction, phase, ang))"

section \<open>Predicates of the specification\<close>

text \<open>The range the specification gives the time of day: \<open>[0, 86400 * 10^9)\<close> nanoseconds.\<close>

definition timeOfDay_in_range :: "JulianDate \<Rightarrow> bool" where
  "timeOfDay_in_range j \<longleftrightarrow> 0 \<le>s time j \<and> time j <s 86400000000000"

text \<open>An angle normalised into \<open>[0, 2\<pi>)\<close>, with \<^verbatim>\<open>2 * math.Pi\<close> for \<open>2\<pi>\<close>.\<close>

definition angle_normalized :: "float64 \<Rightarrow> bool" where
  "angle_normalized x \<longleftrightarrow> fle (f64 0) x \<and> flt x twoPi"

text \<open>
  The names a list of definitions writes into the result of \<^verbatim>\<open>GetTimes\<close>: the
  rise and set names that are not empty.
\<close>

definition written :: "sunTime list \<Rightarrow> string set" where
  "written ts = {k. k \<noteq> [] \<and> (\<exists>t\<in>set ts. k = riseName t \<or> k = setName t)}"

text \<open>An argument of \<^verbatim>\<open>math.Acos\<close> outside \<open>[-1, 1]\<close>.\<close>

definition acos_out_of_domain :: "float64 \<Rightarrow> bool" where
  "acos_out_of_domain x \<longleftrightarrow> flt x (f64 (- 1)) \<or> flt (f64 1) x"

text \<open>
  The phase as the specification words it: \<open>0.5 + 0.5 * inc * sign(angle) / \<pi>\<close>, where
  the sign is \<open>-1\<close> for a negative angle and \<open>+1\<close> otherwise.
\<close>

definition sign_spec :: "float64 \<Rightarrow> float64" where
  "sign_spec a = (if flt a (f64 0) then f64 (- 1) else f64 1)"

definition phase_spec :: "float64 \<Rightarrow> float64 \<Rightarrow> float64" where
  "phase_spec inc a = fadd (f64 (1 / 2)) (fdiv (fmul (fmul (f64 (1 / 2)) inc) (sign_spec a)) math_Pi)"

text \<open>The argument of \<^verbatim>\<open>math.Acos\<close> in \<^verbatim>\<open>hourAngle\<close>, for one configured definition.\<close>

definition threshold_arg :: "platform \<Rightarrow> solarDay \<Rightarrow> sunTime \<Rightarrow> float64" where
  "threshold_arg P c t = hourAngle_arg P (fmul (angle t) rad) (sd_phi c) (sd_dec c)"

text \<open>
  The range the specification gives the altitude, \<open>[-\<pi>/2, \<pi>/2]\<close>, with \<^verbatim>\<open>math.Pi\<close> for
  \<open>\<pi>\<close>.
\<close>

definition halfPi :: float64 where "halfPi = f64 (Pi_lit / 2)"

definition altitude_in_range :: "float64 \<Rightarrow> bool" where
  "altitude_in_range x \<longleftrightarrow> fle (fneg halfPi) x \<and> fle x halfPi"

text \<open>
  Two locals of \<^verbatim>\<open>GetMoonPosition\<close>: the altitude \<^verbatim>\<open>h\<close> before the correction for
  refraction, and the argument \<^verbatim>\<open>h+rad*10.26/(h+rad*5.10)\<close> of \<^verbatim>\<open>math.Tan\<close> in the
  correction.
\<close>

definition moonAltitude :: "platform \<Rightarrow> JulianDate \<Rightarrow> float64 \<Rightarrow> float64 \<Rightarrow> float64" where
  "moonAltitude P d lat lng =
     (let lw = fmul rad (fneg lng);
          phi = fmul rad lat;
          (dec, ra, distance) = moonCoords P d;
          H = fsub (siderealTime d lw) ra
      in altitude P H phi dec)"

definition refractionArg :: "float64 \<Rightarrow> float64" where
  "refractionArg h =
     fadd h (fdiv (f64 (Pi_lit / 180 * (1026 / 100))) (fadd h (f64 (Pi_lit / 180 * (510 / 100)))))"

text \<open>
  A slice of a heap as the program makes them: its array is allocated, the capacity is
  the length of the array, and the length is at most the capacity.  (The nil slice of a
  zero \<^verbatim>\<open>SunCalc\<close> behaves as a slice of capacity \<open>0\<close>.)
\<close>

definition wf_slice :: "heap \<Rightarrow> slice \<Rightarrow> bool" where
  "wf_slice H sl \<longleftrightarrow> base sl < fresh H \<and> len sl \<le> cap sl \<and> cap sl = length (arrays H (base sl))"

text \<open>
  For the concrete runs: the empty heap, the calculator that \<^verbatim>\<open>NewSunCalc\<close> returns in
  it and the heap it leaves; and a runtime that doubles the capacity (with the \<^verbatim>\<open>gc\<close>
  runtime the capacity \<open>6\<close> of a new calculator becomes \<open>12\<close> at the first \<^verbatim>\<open>AddTime\<close>).
\<close>

definition heap0 :: heap where
  "heap0 = \<lparr>arrays = (\<lambda>a. []), fresh = 0\<rparr>"

definition calc0 :: SunCalc where
  "calc0 = fst (NewSunCalc heap0)"

definition heap1 :: heap where
  "heap1 = snd (NewSunCalc heap0)"

definition double_cap :: "nat \<Rightarrow> nat \<Rightarrow> nat" where
  "double_cap old needed = 2 * old"

text \<open>
  A platform for the concrete runs: every elementary function is constant (sine \<open>sn\<close>,
  cosine \<open>cs\<close>, arc cosine \<open>ac\<close>, the others \<open>0\<close>), and a conversion that cannot be
  represented gives \<open>0\<close>.  The special cases of the wrappers stay in force.
\<close>

definition const_platform :: "float64 \<Rightarrow> float64 \<Rightarrow> float64 \<Rightarrow> platform" where
  "const_platform sn cs ac =
     \<lparr>sin_impl = (\<lambda>x. sn), cos_impl = (\<lambda>x. cs), tan_impl = (\<lambda>x. Finite False 0),
      asin_impl = (\<lambda>x. Finite False 0), acos_impl = (\<lambda>x. ac),
      atan2_impl = (\<lambda>y x. Finite False 0), pow_impl = (\<lambda>x y. Finite False 1),
      conv_impl = (\<lambda>x. 0)\<rparr>"

text \<open>
  A platform for the run of the moon altitude: sine \<open>0\<close> and cosine \<open>1\<close> as above, and
  for the arc sine and the tangent the constants \<open>h\<close> and \<open>t\<close>.
\<close>

definition refraction_platform :: "float64 \<Rightarrow> float64 \<Rightarrow> platform" where
  "refraction_platform h t =
     (const_platform (Finite False 0) (Finite False 1) (Finite False 0))
       \<lparr>tan_impl := (\<lambda>x. t), asin_impl := (\<lambda>x. h)\<rparr>"

section \<open>Rounding: the exponent, and rounding at a given number\<close>

lemma two_powi_pos: "0 < (2::rat) powi k"
  by (simp add: zero_less_power_int)

lemma two_powi_nat: "0 \<le> k \<Longrightarrow> (2::rat) powi k = 2 ^ nat k"
  by (simp add: power_int_def)

lemma expo_bounds:
  assumes "0 < m"
  shows "2 powi (expo m) \<le> m \<and> m < 2 powi (expo m + 1)"
proof -
  obtain p q where pq: "quotient_of m = (p, q)" by (cases "quotient_of m")
  have q: "0 < q" using quotient_of_denom_pos[OF pq] .
  have m: "m = of_int p / of_int q" using quotient_of_div[OF pq] .
  have p: "0 < p" using assms q m by (simp add: zero_less_divide_iff)
  define bp where "bp = bitlen p"
  define bq where "bq = bitlen q"
  have bp1: "1 \<le> bp" using p by (simp add: bp_def bitlen_alt_def)
  have bq1: "1 \<le> bq" using q by (simp add: bq_def bitlen_alt_def)
  have "2 ^ nat (bp - 1) \<le> p" "p < 2 ^ nat bp" "2 ^ nat (bq - 1) \<le> q" "q < 2 ^ nat bq"
    using bitlen_bounds[OF p] bitlen_bounds[OF q] by (simp_all add: bp_def bq_def)
  then have "(of_int (2 ^ nat (bp - 1)) :: rat) \<le> of_int p" "(of_int p :: rat) < of_int (2 ^ nat bp)"
    "(of_int (2 ^ nat (bq - 1)) :: rat) \<le> of_int q" "(of_int q :: rat) < of_int (2 ^ nat bq)"
    by (simp_all only: of_int_le_iff of_int_less_iff)
  then have A: "(2::rat) powi (bp - 1) \<le> of_int p" and B: "of_int p < (2::rat) powi bp"
    and C: "(2::rat) powi (bq - 1) \<le> of_int q" and D: "of_int q < (2::rat) powi bq"
    using bp1 bq1 by (simp_all add: two_powi_nat)
  have qpos: "(0::rat) < of_int q" using q by simp
  have ppos: "(0::rat) < of_int p" using p by simp
  have up: "m < 2 powi (bp - bq + 1)"
  proof -
    have "m < 2 powi bp / 2 powi (bq - 1)"
      unfolding m using B C ppos two_powi_pos[of "bq - 1"]
      by (intro frac_less) simp_all
    also have "\<dots> = 2 powi (bp - (bq - 1))"
      by (simp add: power_int_diff)
    finally show ?thesis by (simp add: algebra_simps)
  qed
  have lo: "2 powi (bp - bq - 1) < m"
  proof -
    have "2 powi (bp - 1) / 2 powi bq < m"
      unfolding m using A D qpos two_powi_pos[of "bp - 1"]
      by (intro frac_less2) simp_all
    moreover have "(2::rat) powi (bp - 1) / 2 powi bq = 2 powi (bp - 1 - bq)"
      by (simp add: power_int_diff)
    ultimately show ?thesis by (simp add: algebra_simps)
  qed
  have e: "expo m = (if 2 powi (bp - bq) \<le> m then bp - bq else bp - bq - 1)"
    by (simp add: expo_def pq bp_def bq_def Let_def)
  show ?thesis
  proof (cases "2 powi (bp - bq) \<le> m")
    case True
    with up e show ?thesis by simp
  next
    case False
    then have em: "expo m = bp - bq - 1" using e by simp
    have em1: "expo m + 1 = bp - bq" by (simp add: em)
    show ?thesis unfolding em1 unfolding em using lo False by (simp add: not_le less_imp_le)
  qed
qed

lemma two_powi_mono: "a \<le> b \<Longrightarrow> (2::rat) powi a \<le> 2 powi b"
  by (rule power_int_increasing) simp_all

lemma expo_unique:
  assumes "0 < m" "2 powi e \<le> m" "m < 2 powi (e + 1)"
  shows "expo m = e"
proof (rule ccontr)
  assume ne: "expo m \<noteq> e"
  note b = expo_bounds[OF assms(1)]
  show False
  proof (cases "expo m < e")
    case True
    then have "(2::rat) powi (expo m + 1) \<le> 2 powi e" by (intro two_powi_mono) simp
    with b assms(2) show False by linarith
  next
    case False
    with ne have "e + 1 \<le> expo m" by simp
    then have "(2::rat) powi (e + 1) \<le> 2 powi (expo m)" by (intro two_powi_mono)
    with b assms(3) show False by linarith
  qed
qed

lemma rne_eqI:
  assumes "\<bar>k - of_int n\<bar> < 1/2 \<or> (\<bar>k - of_int n\<bar> = 1/2 \<and> even n)"
  shows "rne k = n"
proof -
  define f where "f = \<lfloor>k\<rfloor>"
  have f: "of_int f \<le> k" "k < of_int f + 1" by (simp_all add: f_def) linarith
  have r: "rne k = (if k - of_int f < 1/2 then f else if 1/2 < k - of_int f then f + 1
                    else if even f then f else f + 1)"
    by (simp add: rne_def f_def Let_def)
  from assms show ?thesis
  proof
    assume a: "\<bar>k - of_int n\<bar> < 1/2"
    show ?thesis
    proof (cases "k - of_int f < 1/2")
      case True
      have "(of_int n :: rat) < of_int f + 1" "(of_int f :: rat) < of_int n + 1" using a f True by linarith+
      then have "n < f + 1" "f < n + 1" by (metis of_int_less_iff of_int_add of_int_1)+
      with True r show ?thesis by simp
    next
      case False
      have "(of_int n :: rat) > of_int f" "(of_int n :: rat) < of_int f + 2" using a f False by linarith+
      then have "n > f" "n < f + 2" by (metis of_int_less_iff of_int_add of_int_numeral)+
      then have n: "n = f + 1" by simp
      then have "k - of_int f \<noteq> 1/2" using a by auto
      with False n r show ?thesis by auto
    qed
  next
    assume a: "\<bar>k - of_int n\<bar> = 1/2 \<and> even n"
    then have "k = of_int n + 1/2 \<or> k = of_int n - 1/2" by (auto simp: abs_if split: if_splits)
    then show ?thesis
    proof
      assume k: "k = of_int n + 1/2"
      then have "f = n" unfolding f_def by (simp add: floor_unique)
      with k a r show ?thesis by simp
    next
      assume k: "k = of_int n - 1/2"
      then have "f = n - 1" unfolding f_def by (intro floor_unique) simp_all
      with k a r show ?thesis by simp
    qed
  qed
qed

lemma fl_eqI:
  assumes "0 < m" "2 powi e \<le> m" "m < 2 powi (e + 1)"
    and "\<bar>m / 2 powi (max (e - 52) (- 1074)) - of_int n\<bar> < 1/2
         \<or> (\<bar>m / 2 powi (max (e - 52) (- 1074)) - of_int n\<bar> = 1/2 \<and> even n)"
    and "of_int n * 2 powi (max (e - 52) (- 1074)) = r" "r < 2 ^ 1024"
  shows "fl s m = Finite s r"
proof -
  have e: "expo m = e" using assms(1-3) by (rule expo_unique)
  have "rne (m / quantum m) = n"
    unfolding quantum_def e using assms(4) by (rule rne_eqI)
  then have "round_mag m = r"
    using assms(1,5) by (simp add: round_mag_def quantum_def e)
  with assms(6) show ?thesis by (simp add: fl_def)
qed

lemma fl_exact:
  assumes "0 < m" "2 powi e \<le> m" "m < 2 powi (e + 1)"
    and "m / 2 powi (max (e - 52) (- 1074)) = of_int n" "m < 2 ^ 1024"
  shows "fl s m = Finite s m"
proof (rule fl_eqI[OF assms(1-3)])
  show "\<bar>m / 2 powi max (e - 52) (- 1074) - of_int n\<bar> < 1 / 2 \<or>
    \<bar>m / 2 powi max (e - 52) (- 1074) - of_int n\<bar> = 1 / 2 \<and> even n"
    using assms(4) by simp
  show "of_int n * 2 powi max (e - 52) (- 1074) = m"
    using assms(4)[symmetric] two_powi_pos[of "max (e - 52) (- 1074)"] by simp
  show "m < 2 ^ 1024" by fact
qed

lemma fl_zero: "fl s 0 = Finite s 0"
  by (simp add: fl_def round_mag_def)

section \<open>Integer arithmetic of the conversions\<close>

lemma sint_wi: "- (2^63) \<le> k \<Longrightarrow> k < 2^63 \<Longrightarrow> sint (word_of_int k :: int64) = k"
  by (simp add: sint_sbintrunc' signed_take_bit_int_eq_self)

lemma smod_floor:
  fixes k l :: int
  assumes "0 < l"
  shows "k smod l < 0 \<Longrightarrow> k sdiv l - 1 = k div l \<and> k smod l + l = k mod l"
    and "\<not> k smod l < 0 \<Longrightarrow> k sdiv l = k div l \<and> k smod l = k mod l"
    and "- l < k smod l \<and> k smod l < l"
proof -
  have m: "0 \<le> k mod l" "k mod l < l"
    using assms by (rule pos_mod_sign, rule pos_mod_bound)
  define c :: int where "c = of_bool (l \<noteq> 0 \<and> sgn k \<noteq> sgn l \<and> \<not> l dvd k)"
  have c01: "c = 0 \<or> c = 1" by (auto simp: c_def)
  have c1: "k mod l \<noteq> 0" if "c = 1"
    using that by (auto simp: c_def dvd_eq_mod_eq_0 split: if_splits)
  have d: "k sdiv l = k div l + c"
    using assms by (simp add: c_def signed_divide_int_eq_divide_int)
  have r: "k smod l = k mod l - l * c"
    using assms by (simp add: c_def signed_modulo_int_eq_modulo_int)
  show "k smod l < 0 \<Longrightarrow> k sdiv l - 1 = k div l \<and> k smod l + l = k mod l"
    using c01 m d r by auto
  show "\<not> k smod l < 0 \<Longrightarrow> k sdiv l = k div l \<and> k smod l = k mod l"
    using c01 m d r by auto
  from c01 show "- l < k smod l \<and> k smod l < l"
  proof
    assume "c = 0"
    with r have "k smod l = k mod l" by simp
    with m assms show ?thesis by linarith
  next
    assume "c = 1"
    with r have "k smod l = k mod l - l" by simp
    with c1[OF \<open>c = 1\<close>] m assms show ?thesis by linarith
  qed
qed

lemma integerDivide_daySec:
  "integerDivide a daySec = Some (word_of_int (sint a div 86400), word_of_int (sint a mod 86400))"
proof -
  let ?s = "sint a"
  have b: "- 86400 < ?s smod 86400" "?s smod 86400 < 86400"
    using smod_floor(3)[of 86400 ?s] by simp_all
  then have sr: "sint (word_of_int (?s smod 86400) :: int64) = ?s smod 86400"
    by (intro sint_wi) simp_all
  show ?thesis
  proof (cases "?s smod 86400 < 0")
    case True
    with smod_floor(1)[of 86400 ?s]
    have "?s sdiv 86400 - 1 = ?s div 86400" "?s smod 86400 + 86400 = ?s mod 86400"
      by simp_all
    then have "word_of_int (?s sdiv 86400) - 1 = (word_of_int (?s div 86400) :: int64)"
      "word_of_int (?s smod 86400) + 86400 = (word_of_int (?s mod 86400) :: int64)"
      by (metis word_of_int_1 wi_hom_sub, metis word_of_int_numeral wi_hom_add)
    with True sr show ?thesis
      by (simp add: integerDivide_def daySec_def quo64_def rem64_def word_sless_alt Let_def)
  next
    case False
    with smod_floor(2)[of 86400 ?s]
    have "?s sdiv 86400 = ?s div 86400" "?s smod 86400 = ?s mod 86400"
      by simp_all
    with False sr show ?thesis
      by (simp add: integerDivide_def daySec_def quo64_def rem64_def word_sless_alt Let_def)
  qed
qed

lemma time_Unix_nonneg:
  assumes "0 \<le> T" "T < 2^63"
  shows "time_Unix (word_of_int S) (word_of_int T) =
           \<lparr>Unix = word_of_int (S + T div 1000000000),
              Nanosecond = word_of_int (T mod 1000000000)\<rparr>"
proof -
  have sT: "sint (word_of_int T :: int64) = T"
    using assms by (intro sint_wi) simp_all
  show ?thesis
  proof (cases "T < 1000000000")
    case True
    with assms sT show ?thesis
      by (simp add: time_Unix_def word_sless_alt word_sle_eq)
  next
    case False
    have q: "T sdiv 1000000000 = T div 1000000000"
      using assms False by (simp add: signed_divide_int_def sgn_if)
    have m: "T - T div 1000000000 * 1000000000 = T mod 1000000000"
      by (simp add: minus_div_mult_eq_mod)
    have n1: "word_of_int T - word_of_int (T div 1000000000) * 1000000000
                = (word_of_int (T mod 1000000000) :: int64)"
      unfolding m[symmetric] by (simp add: wi_hom_syms)
    have "0 \<le> T mod 1000000000" "T mod 1000000000 < 1000000000"
      by simp_all
    then have sm: "sint (word_of_int (T mod 1000000000) :: int64) = T mod 1000000000"
      by (intro sint_wi) simp_all
    from False sT q n1 sm show ?thesis
      by (simp add: time_Unix_def word_sless_alt word_sle_eq quo64_def Let_def wi_hom_syms)
  qed
qed

text \<open>
  What \<^verbatim>\<open>NewJulian\<close> computes, on the integers: with \<open>s\<close> the Unix seconds and \<open>n\<close> the
  nanoseconds, the nanosecond of the civil day is \<open>T0 = (s mod 86400) * 10^9 + n\<close>, and the
  Julian date is the day \<open>s div 86400 + 2440588\<close>, shifted by half a day.
\<close>

lemma NewJulian_int:
  assumes "valid_instant t"
  defines "T0 \<equiv> (sint (Unix t) mod 86400) * 1000000000 + sint (Nanosecond t)"
  shows "0 \<le> T0" and "T0 < 86400000000000"
    and "NewJulian t = Some
           (if T0 < 43200000000000
            then \<lparr>julianDayNumber = word_of_int (sint (Unix t) div 86400) + j1970 - 1,
                   time = word_of_int (T0 + 43200000000000)\<rparr>
            else \<lparr>julianDayNumber = word_of_int (sint (Unix t) div 86400) + j1970,
                   time = word_of_int (T0 - 43200000000000)\<rparr>)"
proof -
  define n where "n = sint (Nanosecond t)"
  define r where "r = sint (Unix t) mod 86400"
  have n: "0 \<le> n" "n < 1000000000"
    using assms(1) by (simp_all add: n_def valid_instant_def word_sle_eq word_sless_alt)
  have r: "0 \<le> r" "r < 86400" by (simp_all add: r_def)
  have T0_eq: "T0 = r * 1000000000 + n" by (simp add: T0_def r_def n_def)
  show T0: "0 \<le> T0" "T0 < 86400000000000"
    using n r by (simp_all add: T0_eq)
  have wn: "Nanosecond t = word_of_int n" by (simp add: n_def)
  have t0: "word_of_int r * 1000000000 + Nanosecond t = (word_of_int T0 :: int64)"
    by (simp add: T0_eq wn wi_hom_syms)
  have sT0: "sint (word_of_int T0 :: int64) = T0"
    using T0 by (intro sint_wi) simp_all
  have "NewJulian t = Some (removeHalfDay
          \<lparr>julianDayNumber = word_of_int (sint (Unix t) div 86400) + j1970, time = word_of_int T0\<rparr>)"
    by (simp add: NewJulian_def integerDivide_daySec r_def[symmetric] t0)
  then show "NewJulian t = Some
           (if T0 < 43200000000000
            then \<lparr>julianDayNumber = word_of_int (sint (Unix t) div 86400) + j1970 - 1,
                   time = word_of_int (T0 + 43200000000000)\<rparr>
            else \<lparr>julianDayNumber = word_of_int (sint (Unix t) div 86400) + j1970,
                   time = word_of_int (T0 - 43200000000000)\<rparr>)"
    using sT0 by (simp add: removeHalfDay_def halfDayNano_def word_sless_alt wi_hom_syms)
qed

lemma NewJulian_total: "\<exists>j. NewJulian t = Some j"
  by (simp add: NewJulian_def integerDivide_daySec)

lemma toDays_total: "\<exists>d. toDays t = Some d"
  using NewJulian_total[of t] by (auto simp: toDays_def)

section \<open>Not-a-number through the arithmetic\<close>

lemma fadd_NaN [simp]: "fadd a NaN = NaN"
  by (cases a) simp_all

lemma fmul_NaN [simp]: "fmul a NaN = NaN"
  by (cases a) simp_all

lemma fdiv_NaN [simp]: "fdiv a NaN = NaN"
  by (cases a) simp_all

lemma fsub_NaN [simp]: "fsub a NaN = NaN" "fsub NaN b = NaN"
  by (simp_all add: fsub_def)

lemma fl_one: "fl s 1 = Finite s 1"
  by (rule fl_eqI[where e = 0 and n = 4503599627370496]) (simp_all add: power_int_minus divide_simps)

lemma f64_0: "f64 0 = Finite False 0"
  by (simp add: f64_def fl_zero)

lemma f64_1: "f64 1 = Finite False 1" "f64 (- 1) = Finite True 1"
  by (simp_all add: f64_def fl_one)

lemma math_Acos_out_of_domain:
  assumes "acos_out_of_domain x"
  shows "math_Acos P x = NaN"
proof (cases x)
  case (Finite s m)
  with assms have "1 < \<bar>m\<bar>"
    by (auto simp: acos_out_of_domain_def f64_1 sval_def split: if_splits)
  with Finite show ?thesis by simp
qed simp_all

lemma getSetJ_out_of_domain:
  assumes "acos_out_of_domain (hourAngle_arg P h phi dec)"
  shows "getSetJ P h lw phi dec n m l = NaN"
  using math_Acos_out_of_domain[OF assms]
  by (simp add: getSetJ_def hourAngle_def approxTransit_def solarTransitJ_def Let_def)

section \<open>The loop of \<^verbatim>\<open>GetTimes\<close>\<close>

lemma written_Cons: "written (t # ts) = written [t] \<union> written ts"
  by (auto simp: written_def)

lemma dom_emitTime: "dom (emitTime P c res t) = dom res \<union> written [t]"
  by (auto simp: emitTime_def written_def Let_def split: if_splits)

lemma dom_foldl_emitTime: "dom (foldl (emitTime P c) res ts) = dom res \<union> written ts"
proof (induction ts arbitrary: res)
  case Nil
  show ?case by (simp add: written_def)
next
  case (Cons t ts)
  show ?case
    by (simp add: Cons.IH dom_emitTime written_Cons[of t ts] Un_assoc)
qed

lemma emitTime_other:
  "riseName t \<noteq> k \<Longrightarrow> setName t \<noteq> k \<Longrightarrow> emitTime P c res t k = res k"
  by (simp add: emitTime_def Let_def)

lemma foldl_emitTime_other:
  "\<forall>t\<in>set ts. riseName t \<noteq> k \<and> setName t \<noteq> k \<Longrightarrow> foldl (emitTime P c) res ts k = res k"
  by (induction ts arbitrary: res) (simp_all add: emitTime_other)

lemma not_written:
  "k \<noteq> [] \<Longrightarrow> k \<notin> written ts \<Longrightarrow> \<forall>t\<in>set ts. riseName t \<noteq> k \<and> setName t \<noteq> k"
  by (auto simp: written_def)

lemma emitTime_set:
  "setName t \<noteq> [] \<Longrightarrow>
     emitTime P c res t (setName t) = Some (Time (JulianFromFloat P (jSetOf P c t)))"
  by (simp add: emitTime_def Let_def)

lemma emitTime_rise:
  "riseName t \<noteq> [] \<Longrightarrow> setName t \<noteq> riseName t \<Longrightarrow>
     emitTime P c res t (riseName t) = Some (Time (JulianFromFloat P (jRiseOf P c t)))"
  by (simp add: emitTime_def Let_def)

lemma foldl_emitTime_last:
  assumes "\<forall>u\<in>set ys. riseName u \<noteq> k \<and> setName u \<noteq> k"
  shows "foldl (emitTime P c) res (xs @ t # ys) k = emitTime P c (foldl (emitTime P c) res xs) t k"
  by (simp add: foldl_emitTime_other[OF assms])

lemma GetTimes_eq:
  "toDays date = Some d \<Longrightarrow>
   GetTimes P H s date lat lng =
     Some (foldl (emitTime P (solarDayOf P d lat lng))
             (Map.empty
                (''solarNoon'' \<mapsto> Time (JulianFromFloat P (sd_jNoon (solarDayOf P d lat lng))),
                 ''nadir'' \<mapsto> Time (JulianFromFloat P
                                  (fsub (sd_jNoon (solarDayOf P d lat lng)) (f64 (1 / 2))))))
             (elems H (sc_times s)), s, H)"
  by (simp add: GetTimes_def Let_def)

section \<open>Slices in the heap\<close>

lemma elems_slice_lit:
  "slice_lit H xs = (sl, H') \<Longrightarrow> elems H' sl = xs \<and> wf_slice H' sl"
  by (auto simp: slice_lit_def elems_def wf_slice_def)

lemma calc0_times: "elems heap1 (sc_times calc0) = NewSunCalc_times"
  by (simp add: calc0_def heap1_def NewSunCalc_def slice_lit_def elems_def)

lemma calc0_wf: "wf_slice heap1 (sc_times calc0)"
  by (simp add: calc0_def heap1_def NewSunCalc_def slice_lit_def wf_slice_def)

text \<open>What \<^verbatim>\<open>append\<close> does to the slice it is given.\<close>

lemma append_slice_elems:
  assumes "wf_slice H sl" "append_slice g H sl x = (sl', H')"
  shows "elems H' sl' = elems H sl @ [x]" and "wf_slice H' sl'"
proof -
  show "elems H' sl' = elems H sl @ [x]"
  proof (cases "len sl < cap sl")
    case True
    then have l: "len sl < length (arrays H (base sl))" using assms(1) by (simp add: wf_slice_def)
    from True assms(2) have "elems H' sl' = take (Suc (len sl)) ((arrays H (base sl))[len sl := x])"
      by (auto simp: append_slice_def elems_def)
    also have "\<dots> = take (len sl) (arrays H (base sl)) @ [x]"
      using l by (simp add: take_Suc_conv_app_nth)
    finally show ?thesis by (simp add: elems_def)
  next
    case False
    have "length (elems H sl) = len sl" using assms(1) by (simp add: elems_def wf_slice_def)
    with False assms(2) show ?thesis
      by (auto simp: append_slice_def Let_def elems_def[of _ "\<lparr>base = _, len = _, cap = _\<rparr>"])
  qed
  show "wf_slice H' sl'"
  proof (cases "len sl < cap sl")
    case True
    with assms show ?thesis by (auto simp: append_slice_def wf_slice_def)
  next
    case False
    have "length (elems H sl) = len sl" using assms(1) by (simp add: elems_def wf_slice_def)
    with False assms(2) show ?thesis
      by (auto simp: append_slice_def Let_def wf_slice_def)
  qed
qed

text \<open>
  What \<^verbatim>\<open>append\<close> does to another slice of the heap: nothing, unless the two are on the
  same array, the element is written in place, and the other slice is long enough to
  hold the index written.
\<close>

lemma append_slice_other:
  assumes "wf_slice H sl" "wf_slice H sl2" "append_slice g H sl x = (sl', H')"
  shows "elems H' sl2 =
           (if base sl2 = base sl \<and> len sl < cap sl \<and> len sl < len sl2
            then (elems H sl2)[len sl := x] else elems H sl2)"
    and "wf_slice H' sl2"
proof -
  show "elems H' sl2 =
           (if base sl2 = base sl \<and> len sl < cap sl \<and> len sl < len sl2
            then (elems H sl2)[len sl := x] else elems H sl2)"
  proof (cases "len sl < cap sl")
    case True
    with assms(3) have H': "arrays H' = (arrays H)(base sl := (arrays H (base sl))[len sl := x])"
      by (auto simp: append_slice_def)
    show ?thesis
    proof (cases "base sl2 = base sl")
      case same: True
      show ?thesis
      proof (cases "len sl < len sl2")
        case True
        with same \<open>len sl < cap sl\<close> show ?thesis
          by (simp add: elems_def H' take_update_swap)
      next
        case False
        with same show ?thesis
          by (simp add: elems_def H')
      qed
    next
      case False
      then show ?thesis by (simp add: elems_def H')
    qed
  next
    case False
    with assms(3) have H': "arrays H' =
        (arrays H)(fresh H := elems H sl @ x #
           replicate (max (len sl + 1) (g (cap sl) (len sl + 1)) - (len sl + 1)) zero_sunTime)"
      by (auto simp: append_slice_def Let_def)
    from assms(2) have "base sl2 \<noteq> fresh H" by (simp add: wf_slice_def)
    with False show ?thesis by (simp add: elems_def H')
  qed
  show "wf_slice H' sl2"
  proof (cases "len sl < cap sl")
    case True
    with assms show ?thesis by (auto simp: append_slice_def wf_slice_def)
  next
    case False
    with assms show ?thesis by (auto simp: append_slice_def Let_def wf_slice_def)
  qed
qed

text \<open>The same for \<^verbatim>\<open>AddTime\<close>, which assigns the result of \<^verbatim>\<open>append\<close> to the field.\<close>

lemma AddTime_elems:
  assumes "wf_slice H (sc_times s)" "AddTime g H s a rn sn = (s', H')"
  shows "elems H' (sc_times s') = elems H (sc_times s) @ [\<lparr>angle = a, riseName = rn, setName = sn\<rparr>]"
    and "wf_slice H' (sc_times s')"
proof -
  obtain sl where a: "append_slice g H (sc_times s) \<lparr>angle = a, riseName = rn, setName = sn\<rparr> = (sl, H')"
    and s': "s' = s\<lparr>sc_times := sl\<rparr>"
    using assms(2) by (auto simp: AddTime_def split: prod.splits)
  from append_slice_elems[OF assms(1) a]
  show "elems H' (sc_times s') = elems H (sc_times s) @ [\<lparr>angle = a, riseName = rn, setName = sn\<rparr>]"
    and "wf_slice H' (sc_times s')"
    by (simp_all add: s')
qed

lemma AddTime_other:
  assumes "wf_slice H (sc_times s)" "wf_slice H (sc_times s2)" "AddTime g H s a rn sn = (s', H')"
  shows "elems H' (sc_times s2) =
           (if base (sc_times s2) = base (sc_times s) \<and> len (sc_times s) < cap (sc_times s)
               \<and> len (sc_times s) < len (sc_times s2)
            then (elems H (sc_times s2))[len (sc_times s) := \<lparr>angle = a, riseName = rn, setName = sn\<rparr>]
            else elems H (sc_times s2))"
    and "wf_slice H' (sc_times s2)"
proof -
  obtain sl where a: "append_slice g H (sc_times s) \<lparr>angle = a, riseName = rn, setName = sn\<rparr> = (sl, H')"
    using assms(3) by (auto simp: AddTime_def split: prod.splits)
  from append_slice_other[OF assms(1,2) a]
  show "elems H' (sc_times s2) =
           (if base (sc_times s2) = base (sc_times s) \<and> len (sc_times s) < cap (sc_times s)
               \<and> len (sc_times s) < len (sc_times s2)
            then (elems H (sc_times s2))[len (sc_times s) := \<lparr>angle = a, riseName = rn, setName = sn\<rparr>]
            else elems H (sc_times s2))"
    and "wf_slice H' (sc_times s2)"
    by simp_all
qed

section \<open>Evaluations\<close>

text \<open>
  The roundings met by the concrete runs below, each with its binary exponent and its
  rounded significand, checked by the arithmetic of the rationals.
\<close>

lemma floor_rat_numeral: "\<lfloor>numeral a / numeral b :: rat\<rfloor> = numeral a div numeral b"
  by (metis floor_divide_of_int_eq of_int_numeral)

lemma floor_rat_one_numeral: "\<lfloor>1 / numeral b :: rat\<rfloor> = 1 div numeral b"
  by (metis floor_divide_of_int_eq of_int_numeral of_int_1)

lemma ceiling_rat_numeral: "\<lceil>numeral a / numeral b :: rat\<rceil> = - (- numeral a div numeral b)"
proof -
  have "\<lceil>numeral a / numeral b :: rat\<rceil> = - \<lfloor>of_int (- numeral a) / of_int (numeral b) :: rat\<rfloor>"
    by (simp add: ceiling_def)
  also have "\<dots> = - (- numeral a div numeral b)"
    by (simp only: floor_divide_of_int_eq)
  finally show ?thesis .
qed

lemma rnd_c1: "fl False (314159265358979323846264338327950288419716939937510582097494459 / 18000000000000000000000000000000000000000000000000000000000000000) = Finite False (5030569068109113 / 288230376151711744)"
  by (rule fl_eqI[where e = "- 6" and n = 5030569068109113]) (simp_all add: power_int_minus divide_simps)

lemma rnd_c2: "fl False (314159265358979323846264338327950288419716939937510582097494459 / 50000000000000000000000000000000000000000000000000000000000000) = Finite False (884279719003555 / 140737488355328)"
  by (rule fl_eqI[where e = "2" and n = 7074237752028440]) (simp_all add: power_int_minus divide_simps)

lemma rnd_c3: "fl False (314159265358979323846264338327950288419716939937510582097494459 / 100000000000000000000000000000000000000000000000000000000000000) = Finite False (884279719003555 / 281474976710656)"
  by (rule fl_eqI[where e = "1" and n = 7074237752028440]) (simp_all add: power_int_minus divide_simps)

lemma rnd_c4: "fl False (9 / 10000) = Finite False (4150517416584649 / 4611686018427387904)"
  by (rule fl_eqI[where e = "- 11" and n = 8301034833169298]) (simp_all add: power_int_minus divide_simps)

lemma rad_val: "rad = Finite False (5030569068109113 / 288230376151711744)"
  by (simp add: rad_def f64_def Pi_lit_def rnd_c1 rnd_c2 rnd_c3 rnd_c4)

lemma twoPi_val: "twoPi = Finite False (884279719003555 / 140737488355328)"
  by (simp add: twoPi_def f64_def Pi_lit_def rnd_c1 rnd_c2 rnd_c3 rnd_c4)

lemma math_Pi_val: "math_Pi = Finite False (884279719003555 / 281474976710656)"
  by (simp add: math_Pi_def f64_def Pi_lit_def rnd_c1 rnd_c2 rnd_c3 rnd_c4)

lemma j0_val: "j0 = Finite False (4150517416584649 / 4611686018427387904)"
  by (simp add: j0_def f64_def rnd_c1 rnd_c2 rnd_c3 rnd_c4)

lemma rnd_m1: "fl False 359500300560 = Finite False 359500300560"
  by (rule fl_eqI[where e = "38" and n = 5890052924375040]) (simp_all add: power_int_minus divide_simps)

lemma rnd_m2: "fl False 1000000000 = Finite False 1000000000"
  by (rule fl_eqI[where e = "29" and n = 8388608000000000]) (simp_all add: power_int_minus divide_simps)

lemma rnd_m3: "fl False (4493753757 / 12500000) = Finite False (3162198085237495 / 8796093022208)"
  by (rule fl_eqI[where e = "8" and n = 6324396170474990]) (simp_all add: power_int_minus divide_simps)

lemma rnd_m4: "fl False 46385646796800 = Finite False 46385646796800"
  by (rule fl_eqI[where e = "45" and n = 5937362789990400]) (simp_all add: power_int_minus divide_simps)

lemma rnd_m5: "fl False 86400 = Finite False 86400"
  by (rule fl_eqI[where e = "16" and n = 5937362789990400]) (simp_all add: power_int_minus divide_simps)

lemma rnd_m6: "fl False 536870912 = Finite False 536870912"
  by (rule fl_eqI[where e = "29" and n = 4503599627370496]) (simp_all add: power_int_minus divide_simps)

lemma rnd_m7: "fl False 985600280 = Finite False 985600280"
  by (rule fl_eqI[where e = "29" and n = 8267814393610240]) (simp_all add: power_int_minus divide_simps)

lemma rnd_m8: "fl False 1000000000000000000 = Finite False 1000000000000000000"
  by (rule fl_eqI[where e = "59" and n = 7812500000000000]) (simp_all add: power_int_minus divide_simps)

lemma rnd_m9: "fl False (24640007 / 25000000000000000) = Finite False (74469851644463 / 75557863725914323419136)"
  by (rule fl_eqI[where e = "- 30" and n = 4766070505245632]) (simp_all add: power_int_minus divide_simps)

lemma rnd_m10: "fl False (74469851644463 / 140737488355328) = Finite False (74469851644463 / 140737488355328)"
  by (rule fl_eqI[where e = "- 1" and n = 4766070505245632]) (simp_all add: power_int_minus divide_simps)

lemma rnd_m11: "fl False (50669639215444383 / 140737488355328) = Finite False (1583426225482637 / 4398046511104)"
  by (rule fl_eqI[where e = "8" and n = 6333704901930548]) (simp_all add: power_int_minus divide_simps)

lemma rnd_m12: "fl False (7965534991545719449013402970981 / 1267650600228229401496703205376) = Finite False (884352035107141 / 140737488355328)"
  by (rule fl_eqI[where e = "2" and n = 7074816280857128]) (simp_all add: power_int_minus divide_simps)

lemma solarMeanAnomaly_val:
  "solarMeanAnomaly \<lparr>julianDayNumber = 2, time = 46385646796800\<rparr> = Finite False (884352035107141 / 140737488355328)"
  by (simp add: solarMeanAnomaly_def solarMeanAnomaly_i_def maCoef0Nano_def maCoef1Nano_def
        rem64_def signed_modulo_int_def float64_of_int64_def f64_def rad_val twoPi_val
        Let_def sval_def fl_zero
        rnd_c1 rnd_m1 rnd_m2 rnd_m3 rnd_m4 rnd_m5 rnd_m6 rnd_m7 rnd_m8 rnd_m9 rnd_m10
        rnd_m11 rnd_m12)

lemma rnd_s1: "fl False 280160000000 = Finite False 280160000000"
  by (rule fl_eqI[where e = "38" and n = 4590141440000000]) (simp_all add: power_int_minus divide_simps)

lemma rnd_s2: "fl False (7004 / 25) = Finite False (4928626842203587 / 17592186044416)"
  by (rule fl_eqI[where e = "8" and n = 4928626842203587]) (simp_all add: power_int_minus divide_simps)

lemma rnd_s3: "fl False 360985623500 = Finite False 360985623500"
  by (rule fl_eqI[where e = "38" and n = 5914388455424000]) (simp_all add: power_int_minus divide_simps)

lemma rnd_s4: "fl False (721971247 / 2000000000000000) = Finite False (1704706409214201 / 4722366482869645213696)"
  by (rule fl_eqI[where e = "- 22" and n = 6818825636856804]) (simp_all add: power_int_minus divide_simps)

lemma rnd_s5: "fl False (1704706409214201 / 8796093022208) = Finite False (1704706409214201 / 8796093022208)"
  by (rule fl_eqI[where e = "7" and n = 6818825636856804]) (simp_all add: power_int_minus divide_simps)

lemma rnd_s6: "fl False (8338039660631989 / 17592186044416) = Finite False (8338039660631989 / 17592186044416)"
  by (rule fl_eqI[where e = "8" and n = 8338039660631989]) (simp_all add: power_int_minus divide_simps)

lemma rnd_s7: "fl False (41945084405442289716206790215757 / 5070602400912917605986812821504) = Finite False (2328419923838381 / 281474976710656)"
  by (rule fl_eqI[where e = "3" and n = 4656839847676762]) (simp_all add: power_int_minus divide_simps)

lemma rnd_s8: "fl False (2328419923838381 / 281474976710656) = Finite False (2328419923838381 / 281474976710656)"
  by (rule fl_eqI[where e = "3" and n = 4656839847676762]) (simp_all add: power_int_minus divide_simps)

lemma siderealTime_val:
  "siderealTime \<lparr>julianDayNumber = 0, time = 46385646796800\<rparr> (f64 0) = Finite False (2328419923838381 / 281474976710656)"
  by (simp add: siderealTime_def siderealTime_i_def stCoef0Nano_def stCoef1Nano_def fsub_def
        rem64_def signed_modulo_int_def float64_of_int64_def f64_def rad_val twoPi_val
        Let_def sval_def fl_zero
        rnd_c1 rnd_s1 rnd_m2 rnd_s2 rnd_m4 rnd_m5 rnd_m6 rnd_s3 rnd_m8 rnd_s4 rnd_s5 rnd_s6
        rnd_s7 rnd_s8)

lemma rnd_w1: "fl True 188258585000 = Finite True 188258585000"
  by (rule fl_eqI[where e = "37" and n = 6168857313280000]) (simp_all add: power_int_minus divide_simps)

lemma rnd_w2: "fl True (37651717 / 200000) = Finite True (6623760103557007 / 35184372088832)"
  by (rule fl_eqI[where e = "7" and n = 6623760103557007]) (simp_all add: power_int_minus divide_simps)

lemma rnd_w3: "fl True (6623760103557007 / 35184372088832) = Finite True (6623760103557007 / 35184372088832)"
  by (rule fl_eqI[where e = "7" and n = 6623760103557007]) (simp_all add: power_int_minus divide_simps)

lemma rnd_w4: "fl True (33321282691529094525038891704791 / 10141204801825835211973625643008) = Finite True (3699405525417931 / 1125899906842624)"
  by (rule fl_eqI[where e = "1" and n = 7398811050835862]) (simp_all add: power_int_minus divide_simps)

lemma rnd_w5: "fl True (7236524401432151 / 1125899906842624) = Finite True (7236524401432151 / 1125899906842624)"
  by (rule fl_eqI[where e = "2" and n = 7236524401432151]) (simp_all add: power_int_minus divide_simps)

lemma rnd_w6: "fl True (162286649403711 / 1125899906842624) = Finite True (162286649403711 / 1125899906842624)"
  by (rule fl_eqI[where e = "- 3" and n = 5193172780918752]) (simp_all add: power_int_minus divide_simps)

lemma siderealTime_west_val:
  "siderealTime \<lparr>julianDayNumber = - 110, time = 0\<rparr> math_Pi = Finite True (162286649403711 / 1125899906842624)"
  by (simp add: siderealTime_def siderealTime_i_def stCoef0Nano_def stCoef1Nano_def fsub_def
        rem64_def signed_modulo_int_def float64_of_int64_def f64_def rad_val twoPi_val math_Pi_val
        Let_def sval_def fl_zero
        rnd_c1 rnd_w1 rnd_m2 rnd_w2 rnd_m5 rnd_s3 rnd_m8 rnd_s4 rnd_w3 rnd_w4 rnd_w5 rnd_c2
        rnd_w6)

lemma rnd_j1: "fl True (1 / 2) = Finite True (1 / 2)"
  by (rule fl_eqI[where e = "- 1" and n = 4503599627370496]) (simp_all add: power_int_minus divide_simps)

lemma rnd_j2: "fl True 43200 = Finite True 43200"
  by (rule fl_eqI[where e = "15" and n = 5937362789990400]) (simp_all add: power_int_minus divide_simps)

lemma rnd_j3: "fl True 43200000000000 = Finite True 43200000000000"
  by (rule fl_eqI[where e = "45" and n = 5529600000000000]) (simp_all add: power_int_minus divide_simps)

lemma JulianFromFloat_val:
  "JulianFromFloat P (f64 (- (1 / 2))) = \<lparr>julianDayNumber = 0, time = - 43200000000000\<rparr>"
  by (simp add: JulianFromFloat_def f64_def fl_zero floor_rat_numeral floor_rat_one_numeral Let_def
        rnd_j1 rnd_m5 rnd_j2 rnd_m2 rnd_j3)

lemma rnd_n1: "fl True 3 = Finite True 3"
  by (rule fl_eqI[where e = "1" and n = 6755399441055744]) (simp_all add: power_int_minus divide_simps)

lemma rnd_n2: "fl False 86400000000000 = Finite False 86400000000000"
  by (rule fl_eqI[where e = "46" and n = 5529600000000000]) (simp_all add: power_int_minus divide_simps)

lemma rnd_n3: "fl True (13839208572698748361 / 4611686018427387904) = Finite True (6757426060888061 / 2251799813685248)"
  by (rule fl_eqI[where e = "1" and n = 6757426060888061]) (simp_all add: power_int_minus divide_simps)

lemma rnd_n4: "fl True (6757426060888061 / 2251799813685248) = Finite True (6757426060888061 / 2251799813685248)"
  by (rule fl_eqI[where e = "1" and n = 6757426060888061]) (simp_all add: power_int_minus divide_simps)

lemma rnd_n5: "fl False (1 / 2) = Finite False (1 / 2)"
  by (rule fl_eqI[where e = "- 1" and n = 4503599627370496]) (simp_all add: power_int_minus divide_simps)

lemma rnd_n6: "fl False 10 = Finite False 10"
  by (rule fl_eqI[where e = "3" and n = 5629499534213120]) (simp_all add: power_int_minus divide_simps)

lemma rnd_n7: "fl False 1 = Finite False 1"
  by (rule fl_eqI[where e = "0" and n = 4503599627370496]) (simp_all add: power_int_minus divide_simps)

lemma rnd_n8: "fl True 4 = Finite True 4"
  by (rule fl_eqI[where e = "2" and n = 4503599627370496]) (simp_all add: power_int_minus divide_simps)

lemma julianCycle_val:
  "julianCycle P \<lparr>julianDayNumber = - 3, time = 0\<rparr> (f64 0) = Finite True 4"
  by (simp add: julianCycle_def round_go_def float64_of_int64_def f64_def fsub_def fge_def
        j0_val twoPi_val Let_def sval_def fl_zero floor_rat_numeral ceiling_rat_numeral
        rnd_n1 rnd_n2 rnd_c4 rnd_n3 rnd_c2 rnd_n4 rnd_n5 rnd_n6 rnd_n7 rnd_n8)

lemma rnd_r1: "fl True (9 / 4) = Finite True (9 / 4)"
  by (rule fl_eqI[where e = "1" and n = 5066549580791808]) (simp_all add: power_int_minus divide_simps)

lemma round_go_val:
  "round_go P (Finite True (9 / 4)) (f64 (1 / 2)) 0 = Finite True 3"
  by (simp add: round_go_def float64_of_int64_def f64_def fge_def
        Let_def sval_def fl_zero floor_rat_numeral ceiling_rat_numeral
        rnd_n5 rnd_n6 rnd_n7 rnd_r1 rnd_n1)

section \<open>Claims about the Julian date conversions\<close>

text \<open>
  Claim C1.  For every instant whose sub-second part is a nanosecond count in
  \<open>[0, 10^9)\<close>, \<^verbatim>\<open>NewJulian\<close> returns a Julian date (the division does not panic) and
  \<^verbatim>\<open>Time\<close> of it is the instant itself: same Unix seconds, same nanoseconds.  The
  arithmetic is that of \<^verbatim>\<open>int64\<close>, so the statement covers the instants at both ends of
  the range, where the intermediate products wrap around.
\<close>

theorem C1_roundtrip:
  assumes "valid_instant t"
  shows "\<exists>j. NewJulian t = Some j \<and> Time j = t"
proof -
  define s where "s = sint (Unix t)"
  define n where "n = sint (Nanosecond t)"
  define q where "q = s div 86400"
  define r where "r = s mod 86400"
  define T0 where "T0 = r * 1000000000 + n"
  have n: "0 \<le> n" "n < 1000000000"
    using assms by (simp_all add: n_def valid_instant_def word_sle_eq word_sless_alt)
  have dvm: "(a * 1000000000 + n) div 1000000000 = a \<and> (a * 1000000000 + n) mod 1000000000 = n"
    for a using n by simp
  have s: "q * 86400 + r = s" by (simp add: q_def r_def)
  have wn: "Nanosecond t = word_of_int n" by (simp add: n_def)
  have ws: "Unix t = word_of_int s" by (simp add: s_def)
  have T0: "0 \<le> T0" "T0 < 86400000000000"
    and NJ: "NewJulian t = Some
           (if T0 < 43200000000000
            then \<lparr>julianDayNumber = word_of_int q + j1970 - 1,
                   time = word_of_int (T0 + 43200000000000)\<rparr>
            else \<lparr>julianDayNumber = word_of_int q + j1970,
                   time = word_of_int (T0 - 43200000000000)\<rparr>)"
    using NewJulian_int[OF assms] by (simp_all add: T0_def r_def s_def q_def n_def)
  show ?thesis
  proof (cases "T0 < 43200000000000")
    case True
    define T where "T = T0 + 43200000000000"
    have T: "0 \<le> T" "T < 2^63" using T0 by (simp_all add: T_def)
    have "T = (r + 43200) * 1000000000 + n" by (simp add: T_def T0_def algebra_simps)
    then have dv: "T div 1000000000 = r + 43200" "T mod 1000000000 = n"
      using dvm[of "r + 43200"] by (simp_all only:)
    have "Time \<lparr>julianDayNumber = word_of_int q + j1970 - 1, time = word_of_int T\<rparr>
            = time_Unix (word_of_int ((q - 1) * 86400 + 43200)) (word_of_int T)"
      by (simp add: Time_def j1970_def daySec_def halfDaySec_def wi_hom_syms)
    also have "\<dots> = \<lparr>Unix = word_of_int ((q - 1) * 86400 + 43200 + (r + 43200)),
                       Nanosecond = word_of_int n\<rparr>"
      using time_Unix_nonneg[OF T, of "(q - 1) * 86400 + 43200"] by (simp only: dv)
    also have "(q - 1) * 86400 + 43200 + (r + 43200) = s"
      using s by (simp add: algebra_simps)
    finally show ?thesis using NJ True by (simp add: ws[symmetric] wn[symmetric] T_def)
  next
    case False
    define T where "T = T0 - 43200000000000"
    have T: "0 \<le> T" "T < 2^63" using T0 False by (simp_all add: T_def)
    have "T = (r - 43200) * 1000000000 + n" by (simp add: T_def T0_def algebra_simps)
    then have dv: "T div 1000000000 = r - 43200" "T mod 1000000000 = n"
      using dvm[of "r - 43200"] by (simp_all only:)
    have "Time \<lparr>julianDayNumber = word_of_int q + j1970, time = word_of_int T\<rparr>
            = time_Unix (word_of_int (q * 86400 + 43200)) (word_of_int T)"
      by (simp add: Time_def j1970_def daySec_def halfDaySec_def wi_hom_syms)
    also have "\<dots> = \<lparr>Unix = word_of_int (q * 86400 + 43200 + (r - 43200)),
                       Nanosecond = word_of_int n\<rparr>"
      using time_Unix_nonneg[OF T, of "q * 86400 + 43200"] by (simp only: dv)
    also have "q * 86400 + 43200 + (r - 43200) = s"
      using s by (simp add: algebra_simps)
    finally show ?thesis using NJ False by (simp add: ws[symmetric] wn[symmetric] T_def)
  qed
qed

text \<open>
  The round trip at the instant of the repository's second test, 2014-07-29T19:03:25Z,
  and at the last nanosecond an \<^verbatim>\<open>int64\<close> of seconds can hold.
\<close>

theorem C1_roundtrip_witness:
  "valid_instant \<lparr>Unix = 1406660605, Nanosecond = 0\<rparr>
   \<and> NewJulian \<lparr>Unix = 1406660605, Nanosecond = 0\<rparr>
       = Some \<lparr>julianDayNumber = 2456868, time = 25405000000000\<rparr>
   \<and> Time \<lparr>julianDayNumber = 2456868, time = 25405000000000\<rparr>
       = \<lparr>Unix = 1406660605, Nanosecond = 0\<rparr>"
proof -
  have v: "valid_instant \<lparr>Unix = 1406660605, Nanosecond = 0\<rparr>"
    by (simp add: valid_instant_def word_sle_eq word_sless_alt)
  have nj: "NewJulian \<lparr>Unix = 1406660605, Nanosecond = 0\<rparr>
              = Some \<lparr>julianDayNumber = 2456868, time = 25405000000000\<rparr>"
    by (simp add: NewJulian_def integerDivide_daySec removeHalfDay_def halfDayNano_def j1970_def
          word_sless_alt)
  from C1_roundtrip[OF v] nj v show ?thesis by auto
qed

text \<open>
  Claim C9.  \<^verbatim>\<open>JulianFromDayTime\<close> stores its two arguments as they are, for every pair
  of \<^verbatim>\<open>int64\<close> values, and \<^verbatim>\<open>DayTime\<close> reads them back: no normalisation, clamping or
  validation of the time of day takes place.
\<close>

theorem C9_daytime_roundtrip: "DayTime (JulianFromDayTime n t) = (n, t)"
  by (simp add: DayTime_def JulianFromDayTime_def)

section \<open>Rounding is monotone\<close>

text \<open>
  Rounding to nearest maps a magnitude to a representable one, leaves a representable
  magnitude alone, and is monotone.  With these facts a bound on an exact value becomes
  a bound on the rounded one, for every argument and not only for a computed one.
\<close>

lemma rne_of_int: "rne (of_int n) = n"
  by (rule rne_eqI) simp

lemma rne_floor_bounds: "\<lfloor>k\<rfloor> \<le> rne k \<and> rne k \<le> \<lfloor>k\<rfloor> + 1"
  by (simp add: rne_def Let_def)

lemma rne_mono:
  assumes "a \<le> b"
  shows "rne a \<le> rne b"
proof (cases "\<lfloor>a\<rfloor> = \<lfloor>b\<rfloor>")
  case True
  have "a - of_int \<lfloor>b\<rfloor> \<le> b - of_int \<lfloor>b\<rfloor>" using assms by simp
  then show ?thesis
    by (auto simp: rne_def Let_def True)
next
  case False
  with assms have "\<lfloor>a\<rfloor> < \<lfloor>b\<rfloor>" using floor_mono[OF assms] by simp
  then have "rne a \<le> \<lfloor>b\<rfloor>" using rne_floor_bounds[of a] by linarith
  also have "\<dots> \<le> rne b" using rne_floor_bounds[of b] by simp
  finally show ?thesis .
qed

lemma rne_le_int: "k \<le> of_int n \<Longrightarrow> rne k \<le> n"
  using rne_mono[of k "of_int n"] by (simp add: rne_of_int)

lemma rne_ge_int: "of_int n \<le> k \<Longrightarrow> n \<le> rne k"
  using rne_mono[of "of_int n" k] by (simp add: rne_of_int)

lemma quantum_pos: "0 < quantum m"
  by (simp add: quantum_def two_powi_pos)

lemma round_mag_nonneg: "0 \<le> m \<Longrightarrow> 0 \<le> round_mag m"
proof -
  assume "0 \<le> m"
  then have "0 \<le> m / quantum m" using quantum_pos[of m] by simp
  then have "0 \<le> rne (m / quantum m)" using rne_ge_int[of 0] by simp
  then show ?thesis using quantum_pos[of m] by (simp add: round_mag_def)
qed

lemma two_powi_add: "(2::rat) powi (a + b) = 2 powi a * 2 powi b"
  by (simp add: power_int_add)

lemma two_powi_diff: "(2::rat) powi (a - b) = 2 powi a / 2 powi b"
  by (simp add: power_int_diff)

lemma two_powi_int: "0 \<le> k \<Longrightarrow> (2::rat) powi k = of_int (2 ^ nat k)"
  by (simp add: power_int_def)

text \<open>The scaled significand is below \<open>2 ^ 53\<close>; for a normal number it is at least \<open>2 ^ 52\<close>.\<close>

lemma scaled_upper:
  assumes "0 < m"
  shows "m / quantum m < 2 ^ 53"
proof -
  define e where "e = expo m"
  have "m < 2 powi (e + 1)" using expo_bounds[OF assms] by (simp add: e_def)
  also have "\<dots> \<le> 2 powi (max (e - 52) (- 1074) + 53)"
    by (intro two_powi_mono) simp
  also have "\<dots> = quantum m * 2 ^ 53"
    by (simp add: quantum_def e_def two_powi_add)
  finally show ?thesis using quantum_pos[of m] by (simp add: pos_divide_less_eq mult.commute)
qed

lemma scaled_lower:
  assumes "0 < m" "- 1022 \<le> expo m"
  shows "2 ^ 52 \<le> m / quantum m"
proof -
  define e where "e = expo m"
  have "max (e - 52) (- 1074) = e - 52" using assms(2) by (simp add: e_def)
  then have q: "quantum m = 2 powi (e - 52)" by (simp add: quantum_def e_def)
  have "quantum m * 2 ^ 52 = 2 powi e"
    unfolding q using two_powi_add[of "e - 52" 52] by simp
  also have "\<dots> \<le> m" using expo_bounds[OF assms(1)] by (simp add: e_def)
  finally show ?thesis using quantum_pos[of m] by (simp add: pos_le_divide_eq mult.commute)
qed

lemma round_mag_representable:
  assumes "0 \<le> m"
  shows "representable (round_mag m)"
proof (cases "m = 0")
  case True
  then show ?thesis
    by (auto simp: representable_def round_mag_def intro!: exI[of _ 0])
next
  case False
  with assms have m: "0 < m" by simp
  let ?n = "rne (m / quantum m)"
  have "0 \<le> m / quantum m" using m quantum_pos[of m] by simp
  then have 1: "0 \<le> ?n" using rne_ge_int[of 0] by simp
  have "m / quantum m \<le> of_int (2 ^ 53)" using scaled_upper[OF m] by simp
  then have 2: "?n \<le> 2 ^ 53" by (rule rne_le_int)
  show ?thesis
    unfolding representable_def
    by (rule exI[of _ ?n], rule exI[of _ "max (expo m - 52) (- 1074)"])
       (use False 1 2 in \<open>simp add: round_mag_def quantum_def\<close>)
qed

lemma round_mag_le:
  assumes "0 \<le> m" "m \<le> c" "representable c"
  shows "round_mag m \<le> c"
proof (cases "m = 0")
  case True
  with assms show ?thesis by (simp add: round_mag_def)
next
  case False
  with assms have m: "0 < m" by simp
  from assms(3) obtain N k where c: "c = of_int N * 2 powi k" and N: "0 \<le> N" "N \<le> 2 ^ 53"
    and k: "- 1074 \<le> k" unfolding representable_def by blast
  define e where "e = expo m"
  define j where "j = max (e - 52) (- 1074)"
  have q: "quantum m = 2 powi j" by (simp add: quantum_def j_def e_def)
  have rm: "round_mag m = of_int (rne (m / 2 powi j)) * 2 powi j"
    using False by (simp add: round_mag_def q)
  show ?thesis
  proof (cases "j \<le> k")
    case True
    have "c / 2 powi j = of_int N * 2 powi (k - j)"
      by (simp add: c two_powi_diff)
    also have "\<dots> = of_int (N * 2 ^ nat (k - j))"
      using True by (simp add: two_powi_int)
    finally have ci: "c / 2 powi j = of_int (N * 2 ^ nat (k - j))" .
    have "m / 2 powi j \<le> c / 2 powi j"
      using assms(2) two_powi_pos[of j] by (simp add: divide_right_mono)
    then have "rne (m / 2 powi j) \<le> N * 2 ^ nat (k - j)"
      unfolding ci by (rule rne_le_int)
    then have "(of_int (rne (m / 2 powi j)) :: rat) \<le> of_int (N * 2 ^ nat (k - j))"
      by (simp only: of_int_le_iff)
    then have "of_int (rne (m / 2 powi j)) * 2 powi j \<le> c / 2 powi j * 2 powi j"
      unfolding ci using two_powi_pos[of j] by (intro mult_right_mono) simp_all
    then show ?thesis using two_powi_pos[of j] by (simp add: rm)
  next
    case False
    with k have j: "j = e - 52" "k + 1 \<le> j" by (simp_all add: j_def max_def split: if_splits)
    have "c \<le> 2 ^ 53 * 2 powi k"
      unfolding c using N two_powi_pos[of k] by (intro mult_right_mono) simp_all
    also have "\<dots> = 2 powi (k + 53)" using two_powi_add[of k 53] by simp
    also have "\<dots> \<le> 2 powi e" using j by (intro two_powi_mono) simp
    also have "\<dots> \<le> m" using expo_bounds[OF m] by (simp add: e_def)
    finally have "c \<le> m" .
    with assms(2) have mc: "m = c" by simp
    have me: "m = 2 powi e"
      using \<open>c \<le> 2 ^ 53 * 2 powi k\<close> \<open>2 ^ 53 * 2 powi k = 2 powi (k + 53)\<close>
        \<open>2 powi (k + 53) \<le> 2 powi e\<close> \<open>2 powi e \<le> m\<close> mc by linarith
    have "m / 2 powi j = 2 powi (e - j)" by (simp add: me two_powi_diff)
    also have "\<dots> = of_int (2 ^ 52)" using j by (simp add: two_powi_int)
    finally have "rne (m / 2 powi j) = 2 ^ 52" by (simp only: rne_of_int)
    then have "round_mag m = 2 ^ 52 * 2 powi j" by (simp add: rm)
    also have "\<dots> = 2 powi (j + 52)" using two_powi_add[of j 52] by simp
    also have "\<dots> = m" using j by (simp add: me)
    finally show ?thesis using mc by simp
  qed
qed

lemma round_mag_ge:
  assumes "0 \<le> c" "c \<le> m" "representable c"
  shows "c \<le> round_mag m"
proof (cases "m = 0")
  case True
  with assms show ?thesis by (simp add: round_mag_def)
next
  case False
  with assms have m: "0 < m" by simp
  from assms(3) obtain N k where c: "c = of_int N * 2 powi k" and N: "0 \<le> N" "N \<le> 2 ^ 53"
    and k: "- 1074 \<le> k" unfolding representable_def by blast
  define e where "e = expo m"
  define j where "j = max (e - 52) (- 1074)"
  have q: "quantum m = 2 powi j" by (simp add: quantum_def j_def e_def)
  have rm: "round_mag m = of_int (rne (m / 2 powi j)) * 2 powi j"
    using False by (simp add: round_mag_def q)
  show ?thesis
  proof (cases "j \<le> k")
    case True
    have "c / 2 powi j = of_int N * 2 powi (k - j)"
      by (simp add: c two_powi_diff)
    also have "\<dots> = of_int (N * 2 ^ nat (k - j))"
      using True by (simp add: two_powi_int)
    finally have ci: "c / 2 powi j = of_int (N * 2 ^ nat (k - j))" .
    have "c / 2 powi j \<le> m / 2 powi j"
      using assms(2) two_powi_pos[of j] by (simp add: divide_right_mono)
    then have "N * 2 ^ nat (k - j) \<le> rne (m / 2 powi j)"
      unfolding ci by (rule rne_ge_int)
    then have "(of_int (N * 2 ^ nat (k - j)) :: rat) \<le> of_int (rne (m / 2 powi j))"
      by (simp only: of_int_le_iff)
    then have "c / 2 powi j * 2 powi j \<le> of_int (rne (m / 2 powi j)) * 2 powi j"
      unfolding ci using two_powi_pos[of j] by (intro mult_right_mono) simp_all
    then show ?thesis using two_powi_pos[of j] by (simp add: rm)
  next
    case False
    with k have j: "j = e - 52" "k + 1 \<le> j" "- 1022 \<le> e"
      by (simp_all add: j_def max_def split: if_splits)
    have "c \<le> 2 ^ 53 * 2 powi k"
      unfolding c using N two_powi_pos[of k] by (intro mult_right_mono) simp_all
    also have "\<dots> = 2 powi (k + 53)" using two_powi_add[of k 53] by simp
    also have "\<dots> \<le> 2 powi (j + 52)" using j by (intro two_powi_mono) simp
    finally have c2: "c \<le> 2 powi (j + 52)" .
    have "of_int (2 ^ 52) \<le> m / 2 powi j"
      using scaled_lower[OF m] j(3) by (simp add: q e_def)
    then have "2 ^ 52 \<le> rne (m / 2 powi j)" by (rule rne_ge_int)
    then have "(of_int (2 ^ 52) :: rat) \<le> of_int (rne (m / 2 powi j))"
      by (simp only: of_int_le_iff)
    then have "2 ^ 52 * 2 powi j \<le> round_mag m"
      unfolding rm using two_powi_pos[of j] by (intro mult_right_mono) simp_all
    moreover have "(2::rat) ^ 52 * 2 powi j = 2 powi (j + 52)" using two_powi_add[of j 52] by simp
    ultimately show ?thesis using c2 by linarith
  qed
qed

lemma round_mag_id: "0 \<le> c \<Longrightarrow> representable c \<Longrightarrow> round_mag c = c"
  using round_mag_le[of c c] round_mag_ge[of c c] by simp

lemma expo_mono:
  assumes "0 < a" "a \<le> b"
  shows "expo a \<le> expo b"
proof (rule ccontr)
  assume "\<not> expo a \<le> expo b"
  then have "expo b + 1 \<le> expo a" by simp
  then have "(2::rat) powi (expo b + 1) \<le> 2 powi (expo a)" by (rule two_powi_mono)
  moreover have "b < 2 powi (expo b + 1)" using expo_bounds[of b] assms by simp
  moreover have "2 powi (expo a) \<le> a" using expo_bounds[OF assms(1)] by simp
  ultimately show False using assms(2) by linarith
qed

lemma representable_two_powi: "- 1074 \<le> k \<Longrightarrow> representable (2 powi k)"
  unfolding representable_def by (rule exI[of _ 1], rule exI[of _ k]) simp

lemma round_mag_mono:
  assumes "0 \<le> a" "a \<le> b"
  shows "round_mag a \<le> round_mag b"
proof (cases "a = 0")
  case True
  then show ?thesis using round_mag_nonneg[of b] assms by (simp add: round_mag_def)
next
  case False
  with assms have a: "0 < a" and b: "0 < b" by simp_all
  have le: "expo a \<le> expo b" using expo_mono[OF a assms(2)] .
  show ?thesis
  proof (cases "expo a = expo b")
    case True
    then have q: "quantum a = quantum b" by (simp add: quantum_def)
    have "a / quantum b \<le> b / quantum b"
      using assms(2) quantum_pos[of b] by (simp add: divide_right_mono)
    then have "rne (a / quantum b) \<le> rne (b / quantum b)" by (rule rne_mono)
    then have "(of_int (rne (a / quantum b)) :: rat) \<le> of_int (rne (b / quantum b))"
      by (simp only: of_int_le_iff)
    then have "of_int (rne (a / quantum b)) * quantum b \<le> of_int (rne (b / quantum b)) * quantum b"
      using quantum_pos[of b] by (intro mult_right_mono) simp_all
    then show ?thesis using a b by (simp add: round_mag_def q)
  next
    case False
    with le have lt: "expo a + 1 \<le> expo b" by simp
    show ?thesis
    proof (cases "- 1074 \<le> expo a + 1")
      case True
      let ?c = "(2::rat) powi (expo a + 1)"
      have r: "representable ?c" using True by (rule representable_two_powi)
      have "a \<le> ?c" using expo_bounds[OF a] by simp
      then have 1: "round_mag a \<le> ?c" using round_mag_le[OF assms(1) _ r] by simp
      have "?c \<le> 2 powi (expo b)" using lt by (rule two_powi_mono)
      also have "\<dots> \<le> b" using expo_bounds[OF b] by simp
      finally have "?c \<le> round_mag b"
        using round_mag_ge[OF _ _ r] two_powi_pos[of "expo a + 1"] by simp
      with 1 show ?thesis by linarith
    next
      case False
      then have e: "expo a + 1 \<le> - 1075" by simp
      then have q: "quantum a = 2 powi (- 1074)" by (simp add: quantum_def max_def)
      have "a < 2 powi (expo a + 1)" using expo_bounds[OF a] by simp
      also have "\<dots> \<le> 2 powi (- 1075)" using e by (rule two_powi_mono)
      also have "\<dots> = 2 powi (- 1074) / 2" using two_powi_diff[of "- 1074" 1] by simp
      finally have "a / quantum a < 1 / 2"
        unfolding q using two_powi_pos[of "- 1074"] by (simp add: pos_divide_less_eq)
      moreover have "0 \<le> a / quantum a" using a quantum_pos[of a] by simp
      ultimately have "\<bar>a / quantum a - of_int 0\<bar> < 1 / 2" by (simp only: of_int_0 diff_zero abs_of_nonneg)
      then have "rne (a / quantum a) = 0" by (intro rne_eqI disjI1)
      then have "round_mag a = 0" by (simp add: round_mag_def)
      then show ?thesis using round_mag_nonneg[of b] b by simp
    qed
  qed
qed

section \<open>The time of day of \<^verbatim>\<open>JulianFromFloat\<close>\<close>

lemma is_float64_representable: "is_float64 (Finite s m) \<Longrightarrow> 0 \<le> m \<and> representable m"
  using round_mag_representable[of m] by (auto simp: is_float64_def)

lemma fl_Finite: "round_mag m < 2 ^ 1024 \<Longrightarrow> fl s m = Finite s (round_mag m)"
  by (simp add: fl_def)

lemma round_mag_eqI:
  assumes "0 < m" "2 powi e \<le> m" "m < 2 powi (e + 1)"
    and "\<bar>m / 2 powi (max (e - 52) (- 1074)) - of_int n\<bar> < 1/2
         \<or> (\<bar>m / 2 powi (max (e - 52) (- 1074)) - of_int n\<bar> = 1/2 \<and> even n)"
    and "of_int n * 2 powi (max (e - 52) (- 1074)) = r"
  shows "round_mag m = r"
proof -
  have e: "expo m = e" using assms(1-3) by (rule expo_unique)
  have "rne (m / quantum m) = n"
    unfolding quantum_def e using assms(4) by (rule rne_eqI)
  then show ?thesis
    using assms(1,5) by (simp add: round_mag_def quantum_def e)
qed

lemma frac_bound:
  assumes "representable m" "0 \<le> m"
  shows "m - of_int \<lfloor>m\<rfloor> \<le> 1 - 1 / 2 ^ 53"
proof -
  from assms(1) obtain N k where m: "m = of_int N * 2 powi k" and N: "0 \<le> N" "N \<le> 2 ^ 53"
    and k: "- 1074 \<le> k" unfolding representable_def by blast
  show ?thesis
  proof (cases "0 \<le> k")
    case True
    then have "m = of_int (N * 2 ^ nat k)" by (simp add: m two_powi_int)
    then have "m - of_int \<lfloor>m\<rfloor> = 0" by simp
    then show ?thesis by simp
  next
    case False
    define D :: int where "D = 2 ^ nat (- k)"
    have D: "0 < D" by (simp add: D_def)
    have pk: "(2::rat) powi k = 1 / of_int D"
      using False by (simp add: D_def power_int_def inverse_eq_divide power_one_over)
    have mD: "m * of_int D = of_int N" using D by (simp add: m pk)
    define F where "F = N - \<lfloor>m\<rfloor> * D"
    have fr: "(m - of_int \<lfloor>m\<rfloor>) * of_int D = of_int F"
      by (simp add: F_def algebra_simps mD)
    have "m - of_int \<lfloor>m\<rfloor> < 1" by linarith
    then have "(m - of_int \<lfloor>m\<rfloor>) * of_int D < 1 * of_int D"
      using D by (intro mult_strict_right_mono) simp_all
    then have "(of_int F :: rat) < of_int D" by (simp add: fr)
    then have "F \<le> D - 1" by simp
    then have "(of_int F :: rat) \<le> of_int (D - 1)" by (simp only: of_int_le_iff)
    then have "(m - of_int \<lfloor>m\<rfloor>) * of_int D \<le> of_int D - 1" by (simp add: fr)
    then have b: "m - of_int \<lfloor>m\<rfloor> \<le> 1 - 1 / of_int D"
      using D by (simp add: field_simps)
    show ?thesis
    proof (cases "- 53 \<le> k")
      case True
      then have "nat (- k) \<le> 53" by simp
      then have "D \<le> 2 ^ 53" unfolding D_def by (intro power_increasing) simp_all
      then have "(of_int D :: rat) \<le> 2 ^ 53" by (metis of_int_le_iff of_int_numeral of_int_power)
      then have "1 / (2 ^ 53 :: rat) \<le> 1 / of_int D"
        using D by (intro divide_left_mono) simp_all
      with b show ?thesis by linarith
    next
      case False
      then have "k \<le> - 54" by simp
      then have pk54: "(2::rat) powi k \<le> 2 powi (- 54)" by (rule two_powi_mono)
      have "(of_int N :: rat) * 2 powi k \<le> of_int N * 2 powi (- 54)"
        using pk54 N(1) by (intro mult_left_mono) simp_all
      also have "\<dots> \<le> of_int (2 ^ 53) * 2 powi (- 54)"
        using N(2) two_powi_pos[of "- 54"] by (intro mult_right_mono) (simp_all only: of_int_le_iff less_imp_le)
      also have "\<dots> = 1 / 2" by (simp add: power_int_minus)
      finally have "m \<le> 1 / 2" unfolding m .
      moreover have "(0::rat) \<le> of_int \<lfloor>m\<rfloor>" using assms(2) by simp
      ultimately have "m - of_int \<lfloor>m\<rfloor> \<le> 1 / 2" by linarith
      then show ?thesis by simp
    qed
  qed
qed

lemma top_of_day_1: "round_mag ((1 - 1 / 2 ^ 53) * 86400) = 86400 - 1 / 2 ^ 36"
  by (rule round_mag_eqI[where e = 16 and n = 5937362789990399]) (simp_all add: power_int_minus divide_simps)

lemma top_of_day_2: "round_mag ((86400 - 1 / 2 ^ 36) * 1000000000) = 86400000000000 - 1 / 2 ^ 6"
  by (rule round_mag_eqI[where e = 46 and n = 5529599999999999]) (simp_all add: power_int_minus divide_simps)

lemma f64_86400: "f64 86400 = Finite False 86400"
  unfolding f64_def by (simp, rule fl_eqI[where e = 16 and n = 5937362789990400]) (simp_all add: power_int_minus divide_simps)

lemma f64_1e9: "f64 1000000000 = Finite False 1000000000"
  unfolding f64_def by (simp, rule fl_eqI[where e = 29 and n = 8388608000000000]) (simp_all add: power_int_minus divide_simps)

text \<open>The nanoseconds \<^verbatim>\<open>JulianFromFloat\<close> computes from the fractional part.\<close>

lemma day_nanos:
  assumes "0 \<le> f" "f \<le> 1 - 1 / 2 ^ 53"
  defines "x \<equiv> round_mag (round_mag (f * 86400) * 1000000000)"
  shows "fmul (fmul (Finite s f) (f64 86400)) (f64 1000000000) = Finite s x"
    and "0 \<le> \<lfloor>x\<rfloor>" and "\<lfloor>x\<rfloor> < 86400000000000"
proof -
  define x1 where "x1 = round_mag (f * 86400)"
  have "f * 86400 \<le> (1 - 1 / 2 ^ 53) * 86400"
    using assms(2) by (intro mult_right_mono) simp_all
  then have "x1 \<le> round_mag ((1 - 1 / 2 ^ 53) * 86400)"
    unfolding x1_def using assms(1) by (intro round_mag_mono) simp_all
  also have "\<dots> = 86400 - 1 / 2 ^ 36" by (rule top_of_day_1)
  finally have x1: "x1 \<le> 86400 - 1 / 2 ^ 36" .
  have x1n: "0 \<le> x1" unfolding x1_def using assms(1) by (intro round_mag_nonneg) simp
  have "x1 * 1000000000 \<le> (86400 - 1 / 2 ^ 36) * 1000000000"
    using x1 by (intro mult_right_mono) simp_all
  then have "x \<le> round_mag ((86400 - 1 / 2 ^ 36) * 1000000000)"
    unfolding x_def x1_def[symmetric] using x1n by (intro round_mag_mono) simp_all
  also have "\<dots> = 86400000000000 - 1 / 2 ^ 6" by (rule top_of_day_2)
  finally have x: "x \<le> 86400000000000 - 1 / 2 ^ 6" .
  have xn: "0 \<le> x" unfolding x_def x1_def[symmetric] using x1n by (intro round_mag_nonneg) simp
  have "x1 < 2 ^ 1024" using x1 by (rule order.strict_trans1) simp
  then have 1: "fmul (Finite s f) (f64 86400) = Finite s x1"
    by (simp add: f64_86400 x1_def fl_Finite)
  have "x < 2 ^ 1024" using x by (rule order.strict_trans1) simp
  then show "fmul (fmul (Finite s f) (f64 86400)) (f64 1000000000) = Finite s x"
    by (simp add: 1 f64_1e9 x_def x1_def fl_Finite)
  show "0 \<le> \<lfloor>x\<rfloor>" using xn by simp
  have "x < 86400000000000" using x by (rule order.strict_trans1) simp
  then show "\<lfloor>x\<rfloor> < 86400000000000" by (simp add: floor_less_iff)
qed

lemma JulianFromFloat_time:
  assumes "is_float64 (Finite s m)"
  shows "\<exists>k. 0 \<le> k \<and> k < 86400000000000
           \<and> time (JulianFromFloat P (Finite s m)) = word_of_int (if s then - k else k)"
proof -
  note r = is_float64_representable[OF assms]
  define f where "f = m - of_int \<lfloor>m\<rfloor>"
  have f: "0 \<le> f" "f \<le> 1 - 1 / 2 ^ 53"
    using frac_bound[of m] r by (simp_all add: f_def)
  define x where "x = round_mag (round_mag (f * 86400) * 1000000000)"
  note n = day_nanos[OF f, folded x_def]
  define k where "k = \<lfloor>x\<rfloor>"
  have k: "0 \<le> k" "k < 86400000000000" using n(2,3) by (simp_all only: k_def)
  have "int64_of_float64 P (Finite s x) = word_of_int (if s then - k else k)"
    using k by (simp add: k_def[symmetric] Let_def)
  then have "time (JulianFromFloat P (Finite s m)) = word_of_int (if s then - k else k)"
    by (simp add: JulianFromFloat_def f_def[symmetric] n(1))
  with k show ?thesis by blast
qed

section \<open>The range of the mean anomaly\<close>

text \<open>The remainder of a division by \<open>360 * 10^9\<close> is strictly inside \<open>\<plusminus> 360 * 10^9\<close>.\<close>

lemma rem64_360_bounds:
  "- 360000000000 < sint (rem64 a 360000000000) \<and> sint (rem64 a 360000000000) < 360000000000"
proof -
  have b: "- 360000000000 < sint a smod 360000000000 \<and> sint a smod 360000000000 < 360000000000"
    using smod_floor(3)[of 360000000000 "sint a"] by simp
  then have "sint (word_of_int (sint a smod 360000000000) :: int64) = sint a smod 360000000000"
    by (intro sint_wi) simp_all
  with b show ?thesis by (simp add: rem64_def)
qed

lemma representable_int: "0 \<le> n \<Longrightarrow> n \<le> 2 ^ 53 \<Longrightarrow> representable (of_int n)"
  unfolding representable_def by (rule exI[of _ n], rule exI[of _ 0]) simp

lemma round_mag_0: "round_mag 0 = 0"
  by (simp add: round_mag_def)

lemma f64_of_int:
  assumes "\<bar>n\<bar> \<le> 2 ^ 53"
  shows "f64 (of_int n) = Finite (n < 0) (of_int \<bar>n\<bar>)"
proof -
  have "round_mag (of_int \<bar>n\<bar>) = of_int \<bar>n\<bar>"
    using assms by (intro round_mag_id representable_int) simp_all
  moreover have "(of_int \<bar>n\<bar> :: rat) < 2 ^ 1024"
  proof -
    have "(of_int \<bar>n\<bar> :: rat) \<le> of_int (2 ^ 53)" using assms by (simp only: of_int_le_iff)
    also have "\<dots> < 2 ^ 1024" by simp
    finally show ?thesis .
  qed
  ultimately have "fl (n < 0) (of_int \<bar>n\<bar>) = Finite (n < 0) (of_int \<bar>n\<bar>)"
    by (simp add: fl_def)
  then show ?thesis by (simp add: f64_def)
qed

lemma round_mag_upper:
  assumes "0 \<le> m" "m \<le> of_int n" "n \<le> 2 ^ 53"
  shows "round_mag m \<le> of_int n"
proof -
  have "(0::rat) \<le> of_int n" using assms(1,2) by linarith
  then have "0 \<le> n" by (simp only: of_int_0_le_iff)
  then have "representable (of_int n)" using assms(3) by (rule representable_int)
  with assms(1,2) show ?thesis by (rule round_mag_le)
qed

lemma maRate_val:
  "fdiv (float64_of_int64 maCoef1Nano) (f64 (10 ^ 18)) = Finite False (74469851644463 / 75557863725914323419136)"
proof -
  have 1: "float64_of_int64 maCoef1Nano = Finite False 985600280"
    using f64_of_int[of 985600280] by (simp add: float64_of_int64_def maCoef1Nano_def)
  have 2: "f64 1000000000000000000 = Finite False 1000000000000000000"
    unfolding f64_def
    by (simp, rule fl_eqI[where e = 59 and n = 7812500000000000]) (simp_all add: power_int_minus divide_simps)
  have 3: "fl False (24640007 / 25000000000000000) = Finite False (74469851644463 / 75557863725914323419136)"
    by (rule fl_eqI[where e = "- 30" and n = 4766070505245632]) (simp_all add: power_int_minus divide_simps)
  show ?thesis by (simp add: 1 2 3)
qed

lemma fl_bounded: "round_mag m \<le> c \<Longrightarrow> c < 2 ^ 1024 \<Longrightarrow> fl s m = Finite s (round_mag m)"
  by (simp add: fl_def)

lemma rate_day: "round_mag (1000000000 * (74469851644463 / 75557863725914323419136)) \<le> 1"
proof -
  have "round_mag (1000000000 * (74469851644463 / 75557863725914323419136)) \<le> of_int 1"
    by (rule round_mag_upper) simp_all
  then show ?thesis by simp
qed

lemma rad_361: "round_mag (5030569068109113 / 288230376151711744 * 361) = 7093888412450741 / 1125899906842624"
  by (rule round_mag_eqI[where e = 2 and n = 7093888412450741]) (simp_all add: power_int_minus divide_simps)

lemma rad_360: "round_mag (5030569068109113 / 288230376151711744 * 360) = 884279719003555 / 140737488355328"
  by (rule round_mag_eqI[where e = 2 and n = 7074237752028440]) (simp_all add: power_int_minus divide_simps)

lemma solarMeanAnomaly_range:
  assumes "timeOfDay_in_range d"
  shows "\<exists>s x. solarMeanAnomaly d = Finite s x \<and> 0 \<le> sval s x
               \<and> sval s x \<le> 7093888412450741 / 1125899906842624"
proof -
  let ?R = "5030569068109113 / 288230376151711744 :: rat"
  let ?W = "884279719003555 / 140737488355328 :: rat"
  let ?U = "7093888412450741 / 1125899906842624 :: rat"
  let ?C = "74469851644463 / 75557863725914323419136 :: rat"
  define I where "I = sint (solarMeanAnomaly_i d)"
  define T where "T = sint (time d)"
  have I: "- 360000000000 < I" "I < 360000000000"
    using rem64_360_bounds[of "maCoef0Nano + julianDayNumber d * maCoef1Nano"]
    by (simp_all add: I_def solarMeanAnomaly_i_def)
  have T: "0 \<le> T" "T < 86400000000000"
    using assms by (simp_all add: T_def timeOfDay_in_range_def word_sle_eq word_sless_alt)
  have fi: "float64_of_int64 (solarMeanAnomaly_i d) = Finite (I < 0) (of_int \<bar>I\<bar>)"
    unfolding float64_of_int64_def I_def[symmetric] using I by (intro f64_of_int) simp
  have ft: "float64_of_int64 (time d) = Finite False (of_int T)"
    unfolding float64_of_int64_def T_def[symmetric] using f64_of_int[of T] T by simp
  (* the whole days, in degrees *)
  define A where "A = round_mag (of_int \<bar>I\<bar> / 1000000000)"
  have "\<bar>I\<bar> \<le> 360000000000" using I by simp
  then have "(of_int \<bar>I\<bar> :: rat) \<le> of_int 360000000000" by (simp only: of_int_le_iff)
  then have "(of_int \<bar>I\<bar> :: rat) / 1000000000 \<le> of_int 360" by simp
  then have A: "0 \<le> A" "A \<le> 360"
    using round_mag_upper[of "of_int \<bar>I\<bar> / 1000000000" 360] round_mag_nonneg[of "of_int \<bar>I\<bar> / 1000000000"]
    by (simp_all add: A_def)
  have a: "fdiv (float64_of_int64 (solarMeanAnomaly_i d)) (f64 1000000000) = Finite (I < 0) A"
    using fl_bounded[OF A(2)[unfolded A_def], of "I < 0"] by (simp add: fi f64_1e9 A_def)
  (* the time of day, in degrees *)
  define B where "B = round_mag (of_int T / 86400)"
  have "T \<le> 86400000000000" using T by simp
  then have "(of_int T :: rat) \<le> of_int 86400000000000" by (simp only: of_int_le_iff)
  then have "(of_int T :: rat) / 86400 \<le> of_int 1000000000" by simp
  moreover have "(0::rat) \<le> of_int T / 86400" using T by simp
  ultimately have B: "0 \<le> B" "B \<le> 1000000000"
    using round_mag_upper[of "of_int T / 86400" 1000000000] round_mag_nonneg[of "of_int T / 86400"]
    by (simp_all add: B_def)
  have b: "fdiv (float64_of_int64 (time d)) (f64 86400) = Finite False B"
    using fl_bounded[OF B(2)[unfolded B_def], of False] by (simp add: ft f64_86400 B_def)
  define BC where "BC = round_mag (B * ?C)"
  have "B * ?C \<le> 1000000000 * ?C" using B by (intro mult_right_mono) simp_all
  then have "BC \<le> round_mag (1000000000 * ?C)"
    unfolding BC_def using B by (intro round_mag_mono) simp_all
  with rate_day have BC: "0 \<le> BC" "BC \<le> 1"
    using round_mag_nonneg[of "B * ?C"] B by (simp_all add: BC_def)
  have bc: "fmul (Finite False B) (Finite False ?C) = Finite False BC"
    using fl_bounded[OF BC(2)[unfolded BC_def], of False] by (simp add: BC_def)
  (* their sum *)
  define v where "v = sval (I < 0) A + BC"
  have vv: "sval (I < 0) A + sval False BC = v" by (simp add: v_def sval_def)
  have v: "- 360 \<le> v" "v \<le> 361" using A BC by (simp_all add: v_def sval_def)
  have vneg: "\<bar>v\<bar> \<le> 360" if "v < 0" using that v by simp
  define V where "V = round_mag \<bar>v\<bar>"
  have V: "0 \<le> V" "V \<le> 361" "v < 0 \<Longrightarrow> V \<le> 360"
    using round_mag_upper[of "\<bar>v\<bar>" 361] round_mag_upper[of "\<bar>v\<bar>" 360] round_mag_nonneg[of "\<bar>v\<bar>"] v vneg
    by (simp_all add: V_def)
  have sum: "fadd (Finite (I < 0) A) (Finite False BC) = Finite (v < 0) V"
  proof (cases "v = 0")
    case True
    then show ?thesis by (simp add: vv V_def round_mag_0)
  next
    case False
    have "fl (v < 0) \<bar>v\<bar> = Finite (v < 0) V"
      unfolding V_def using V(2)[unfolded V_def] by (rule fl_bounded) simp
    with False show ?thesis by (simp add: vv)
  qed
  (* in radians *)
  define Mg where "Mg = round_mag (?R * V)"
  have "?R * V \<le> ?R * 361" using V by (intro mult_left_mono) simp_all
  then have "Mg \<le> round_mag (?R * 361)"
    unfolding Mg_def using V by (intro round_mag_mono) simp_all
  also have "\<dots> = ?U" by (rule rad_361)
  finally have MgU: "Mg \<le> ?U" .
  have "0 \<le> ?R * V" using V by simp
  then have "0 \<le> Mg" unfolding Mg_def by (rule round_mag_nonneg)
  note Mg = this MgU
  have Mneg: "Mg \<le> ?W" if "v < 0"
  proof -
    have "?R * V \<le> ?R * 360" using V(3)[OF that] by (intro mult_left_mono) simp_all
    then have "Mg \<le> round_mag (?R * 360)"
      unfolding Mg_def using V by (intro round_mag_mono) simp_all
    also have "\<dots> = ?W" by (rule rad_360)
    finally show ?thesis .
  qed
  have ma: "fmul rad (Finite (v < 0) V) = Finite (v < 0) Mg"
    using fl_bounded[OF Mg(2)[unfolded Mg_def], of "v < 0"] by (simp add: rad_val Mg_def)
  have eq: "solarMeanAnomaly d =
              (if flt (Finite (v < 0) Mg) (f64 0) then fadd (Finite (v < 0) Mg) twoPi
               else Finite (v < 0) Mg)"
    by (simp only: solarMeanAnomaly_def Let_def a b maRate_val bc sum ma)
  show ?thesis
  proof (cases "v < 0 \<and> 0 < Mg")
    case True
    then have W: "0 \<le> ?W - Mg" using Mneg by simp
    define X where "X = round_mag (?W - Mg)"
    have "?W - Mg \<le> ?W" using Mg by simp
    then have "X \<le> round_mag ?W" unfolding X_def using W by (intro round_mag_mono)
    moreover have "round_mag ?W = ?W"
    proof -
      have "representable (round_mag (?R * 360))" by (rule round_mag_representable) simp
      then have "representable ?W" by (simp only: rad_360)
      then show ?thesis by (intro round_mag_id) simp_all
    qed
    ultimately have X: "0 \<le> X" "X \<le> ?W" using round_mag_nonneg[OF W] by (simp_all add: X_def)
    have "fadd (Finite True Mg) (Finite False ?W) = Finite False X"
    proof (cases "?W - Mg = 0")
      case True
      then have "X = 0" by (simp only: X_def round_mag_0)
      moreover have "fadd (Finite True Mg) (Finite False ?W) = Finite False 0"
        using True by (simp add: sval_def)
      ultimately show ?thesis by simp
    next
      case False
      have "fl False (?W - Mg) = Finite False X"
        unfolding X_def using X(2)[unfolded X_def] by (rule fl_bounded) simp
      with False W show ?thesis by (simp add: sval_def)
    qed
    with True have "solarMeanAnomaly d = Finite False X"
      by (simp add: eq f64_0 sval_def twoPi_val)
    with X show ?thesis by (intro exI[of _ False] exI[of _ X]) (simp add: sval_def)
  next
    case False
    then have "solarMeanAnomaly d = Finite (v < 0) Mg"
      using Mg(1) by (auto simp: eq f64_0 sval_def)
    moreover have "0 \<le> sval (v < 0) Mg" "sval (v < 0) Mg \<le> ?U"
      using False Mg by (auto simp: sval_def)
    ultimately show ?thesis by blast
  qed
qed

lemma rad_361_val: "fmul rad (f64 361) = Finite False (7093888412450741 / 1125899906842624)"
proof -
  have 1: "f64 361 = Finite False 361"
    using f64_of_int[of 361] by simp
  have 2: "fl False (1816035433587389793 / 288230376151711744)
             = Finite False (7093888412450741 / 1125899906842624)"
    by (rule fl_eqI[where e = 2 and n = 7093888412450741]) (simp_all add: power_int_minus divide_simps)
  show ?thesis by (simp add: rad_val 1 2)
qed

text \<open>
  For a time of day in its range the mean anomaly is a number between \<open>0\<close> and
  \<^verbatim>\<open>rad * 361\<close>: the whole days give less than \<open>360\<close> degrees and the time of day less
  than \<open>1\<close> degree.
\<close>

lemma solarMeanAnomaly_bounds:
  assumes "timeOfDay_in_range d"
  shows "fle (f64 0) (solarMeanAnomaly d) \<and> fle (solarMeanAnomaly d) (fmul rad (f64 361))"
proof -
  from solarMeanAnomaly_range[OF assms] obtain s x where
    "solarMeanAnomaly d = Finite s x" "0 \<le> sval s x"
    "sval s x \<le> 7093888412450741 / 1125899906842624"
    by blast
  then show ?thesis
    by (simp add: rad_361_val f64_0 fle_def fge_def sval_def not_less split: if_splits)
qed

lemma half_float64: "is_float64 (Finite False (1 / 2))"
proof -
  have "round_mag (1 / 2) = 1 / 2"
    by (rule round_mag_eqI[where e = "- 1" and n = 4503599627370496]) (simp_all add: power_int_minus divide_simps)
  then show ?thesis by (simp add: is_float64_def)
qed

section \<open>Claims about the reduced angles\<close>

text \<open>
  Claim C2, as stated: the angles returned by \<^verbatim>\<open>solarMeanAnomaly\<close> and \<^verbatim>\<open>siderealTime\<close>
  lie in \<open>[0, 2\<pi>)\<close>.  It fails on the code.  On the second day after J2000, at
  \<open>46385646796800\<close> ns of the day (\<open>86400 * 2 ^ 29\<close>, so that the product with the rate is
  exact), the whole days reduce to \<open>359.50030056\<close> degrees, the time of day adds
  \<open>0.529\<close> degrees, and the sum is above \<open>360\<close> degrees: no branch of the function
  takes \<open>2\<pi>\<close> off.  The sidereal time at longitude \<open>0\<close> on day \<open>0\<close> at the same time of
  day is \<open>280.16 + 193.8\<close> degrees.  The two values are \<open>6.2837\<close> and \<open>8.2722\<close>, and
  \<^verbatim>\<open>2 * math.Pi\<close> is \<open>884279719003555 / 2 ^ 47 = 6.2832\<close>.  The lower side fails too:
  \<open>110\<close> days before J2000 the remainder of the truncated division is \<open>- 188.26\<close>
  degrees, and with \<open>lw = \<pi>\<close> (the longitude \<open>- 180\<close>) the sidereal time is
  \<open>- 3.2857 - \<pi> + 2\<pi> = - 0.1441\<close>: \<open>2\<pi>\<close> is added once.
\<close>

theorem C2_counterexample:
  "\<not> angle_normalized (solarMeanAnomaly \<lparr>julianDayNumber = 2, time = 46385646796800\<rparr>)
   \<and> \<not> angle_normalized (siderealTime \<lparr>julianDayNumber = 0, time = 46385646796800\<rparr> (f64 0))
   \<and> flt (siderealTime \<lparr>julianDayNumber = - 110, time = 0\<rparr> math_Pi) (f64 0)"
  unfolding angle_normalized_def solarMeanAnomaly_val siderealTime_val siderealTime_west_val
  by (simp add: twoPi_val f64_0 sval_def)

text \<open>
  Claim C2, amended.  What the two functions reduce is the angle of the whole days: for
  every Julian date, also where the product with the day number wraps around, the
  \<^verbatim>\<open>int64\<close> remainder \<open>i\<close> that enters the floating-point sum lies strictly between
  \<open>- 360 * 10^9\<close> and \<open>360 * 10^9\<close>, that is, strictly between \<open>- 360\<close> and \<open>360\<close> degrees.
  For a Julian date with its time of day in \<open>[0, 86400 * 10^9)\<close> the mean anomaly is a
  number (not a NaN) in the closed interval from \<open>0\<close> to \<^verbatim>\<open>rad * 361\<close>, which is
  \<open>6.3006\<close>: above \<open>2\<pi>\<close> by one degree.
\<close>

theorem C2_reduced_angles:
  "- 360000000000 < sint (solarMeanAnomaly_i d) \<and> sint (solarMeanAnomaly_i d) < 360000000000
   \<and> - 360000000000 < sint (siderealTime_i d) \<and> sint (siderealTime_i d) < 360000000000
   \<and> (timeOfDay_in_range d \<longrightarrow>
        fle (f64 0) (solarMeanAnomaly d) \<and> fle (solarMeanAnomaly d) (fmul rad (f64 361)))"
  using rem64_360_bounds[of "maCoef0Nano + julianDayNumber d * maCoef1Nano"]
    rem64_360_bounds[of "stCoef0Nano + julianDayNumber d * stCoef1Nano"]
    solarMeanAnomaly_bounds[of d]
  by (simp add: solarMeanAnomaly_i_def siderealTime_i_def)

theorem C2_reduced_angles_witness:
  "timeOfDay_in_range \<lparr>julianDayNumber = 2, time = 46385646796800\<rparr>
   \<and> fle (f64 0) (solarMeanAnomaly \<lparr>julianDayNumber = 2, time = 46385646796800\<rparr>)
   \<and> fle (solarMeanAnomaly \<lparr>julianDayNumber = 2, time = 46385646796800\<rparr>) (fmul rad (f64 361))"
proof -
  have "timeOfDay_in_range \<lparr>julianDayNumber = 2, time = 46385646796800\<rparr>"
    by (simp add: timeOfDay_in_range_def word_sle_eq word_sless_alt)
  with C2_reduced_angles[of "\<lparr>julianDayNumber = 2, time = 46385646796800\<rparr>"]
  show ?thesis by blast
qed

section \<open>Claims about the time of day\<close>

text \<open>
  Claim C3, as stated: every Julian date made by \<^verbatim>\<open>NewJulian\<close> or by
  \<^verbatim>\<open>JulianFromFloat\<close> has its time of day in \<open>[0, 86400 * 10^9)\<close>.  It fails for
  \<^verbatim>\<open>JulianFromFloat\<close>: \<^verbatim>\<open>math.Modf\<close> gives both parts the sign of its argument, so
  \<^verbatim>\<open>JulianFromFloat(-0.5)\<close> is day \<open>0\<close> with the time of day \<open>- 43200 * 10^9\<close>, on every
  platform.  \<^verbatim>\<open>GetTimes\<close> itself passes negative day counts, for the dates before
  J2000.
\<close>

theorem C3_counterexample:
  "\<forall>P. JulianFromFloat P (f64 (- (1 / 2))) = \<lparr>julianDayNumber = 0, time = - 43200000000000\<rparr>
       \<and> \<not> timeOfDay_in_range (JulianFromFloat P (f64 (- (1 / 2))))"
  by (simp add: JulianFromFloat_val timeOfDay_in_range_def word_sle_eq word_sless_alt)

text \<open>
  Claim C3, amended: every Julian date made by \<^verbatim>\<open>NewJulian\<close> from an instant has its
  time of day in \<open>[0, 86400 * 10^9)\<close>, and so has every Julian date made by
  \<^verbatim>\<open>JulianFromFloat\<close> from a number that is not negative.  For the negative of such a
  number \<^verbatim>\<open>JulianFromFloat\<close> does not normalise: the time of day is in
  \<open>(- 86400 * 10^9, 0]\<close>.  (For a NaN or an infinity the time of day is what the
  platform converts a NaN to.)
\<close>

theorem C3_time_of_day_ranges:
  assumes "valid_instant t" and "is_float64 (Finite False m)"
  shows "(\<exists>j. NewJulian t = Some j \<and> timeOfDay_in_range j)
         \<and> timeOfDay_in_range (JulianFromFloat P (Finite False m))
         \<and> - 86400000000000 <s time (JulianFromFloat P (Finite True m))
         \<and> time (JulianFromFloat P (Finite True m)) \<le>s 0"
proof -
  have 1: "\<exists>j. NewJulian t = Some j \<and> timeOfDay_in_range j"
  proof -
    define T0 where "T0 = (sint (Unix t) mod 86400) * 1000000000 + sint (Nanosecond t)"
    note nj = NewJulian_int[OF assms(1), folded T0_def]
    show ?thesis
    proof (cases "T0 < 43200000000000")
      case True
      have "sint (word_of_int (T0 + 43200000000000) :: int64) = T0 + 43200000000000"
        using nj(1,2) by (intro sint_wi) simp_all
      with True nj show ?thesis
        by (simp add: timeOfDay_in_range_def word_sle_eq word_sless_alt)
    next
      case False
      have "sint (word_of_int (T0 - 43200000000000) :: int64) = T0 - 43200000000000"
        using nj(1,2) False by (intro sint_wi) simp_all
      with False nj show ?thesis
        by (simp add: timeOfDay_in_range_def word_sle_eq word_sless_alt)
    qed
  qed
  have f: "is_float64 (Finite True m)" using assms(2) by (simp add: is_float64_def)
  from JulianFromFloat_time[OF assms(2), of P] obtain k where
    k: "0 \<le> k" "k < 86400000000000"
      "time (JulianFromFloat P (Finite False m)) = word_of_int k"
    by auto
  have sk: "sint (word_of_int k :: int64) = k" using k(1,2) by (intro sint_wi) simp_all
  have 2: "timeOfDay_in_range (JulianFromFloat P (Finite False m))"
    unfolding timeOfDay_in_range_def word_sle_eq word_sless_alt k(3) sk using k(1,2) by simp
  from JulianFromFloat_time[OF f, of P] obtain l where
    l: "0 \<le> l" "l < 86400000000000"
      "time (JulianFromFloat P (Finite True m)) = word_of_int (- l)"
    by auto
  have sl: "sint (word_of_int (- l) :: int64) = - l" using l(1,2) by (intro sint_wi) simp_all
  have 3: "- 86400000000000 <s time (JulianFromFloat P (Finite True m))
           \<and> time (JulianFromFloat P (Finite True m)) \<le>s 0"
    unfolding word_sle_eq word_sless_alt l(3) sl using l(1,2) by simp
  from 1 2 3 show ?thesis by blast
qed

theorem C3_time_of_day_ranges_witness:
  "\<forall>P. valid_instant \<lparr>Unix = 1080820800, Nanosecond = 0\<rparr>
       \<and> is_float64 (Finite False (1 / 2))
       \<and> (\<exists>j. NewJulian \<lparr>Unix = 1080820800, Nanosecond = 0\<rparr> = Some j \<and> timeOfDay_in_range j)
       \<and> timeOfDay_in_range (JulianFromFloat P (Finite False (1 / 2)))
       \<and> - 86400000000000 <s time (JulianFromFloat P (Finite True (1 / 2)))
       \<and> time (JulianFromFloat P (Finite True (1 / 2))) \<le>s 0"
proof
  fix P
  have v: "valid_instant \<lparr>Unix = 1080820800, Nanosecond = 0\<rparr>"
    by (simp add: valid_instant_def word_sle_eq word_sless_alt)
  have h: "is_float64 (Finite False (1 / 2))" by (rule half_float64)
  from C3_time_of_day_ranges[OF v h, of P] v h
  show "valid_instant \<lparr>Unix = 1080820800, Nanosecond = 0\<rparr>
       \<and> is_float64 (Finite False (1 / 2))
       \<and> (\<exists>j. NewJulian \<lparr>Unix = 1080820800, Nanosecond = 0\<rparr> = Some j \<and> timeOfDay_in_range j)
       \<and> timeOfDay_in_range (JulianFromFloat P (Finite False (1 / 2)))
       \<and> - 86400000000000 <s time (JulianFromFloat P (Finite True (1 / 2)))
       \<and> time (JulianFromFloat P (Finite True (1 / 2))) \<le>s 0"
    by blast
qed

section \<open>The Julian cycle\<close>

text \<open>
  Claim C4 says that \<^verbatim>\<open>round\<close> gives the nearest integer for every argument, the
  negative ones included.  The code takes \<^verbatim>\<open>math.Ceil\<close> only when the fractional part of
  \<^verbatim>\<open>math.Modf\<close> is at least \<open>0.5\<close>; for a negative argument that part is negative or
  zero, so the code always takes \<^verbatim>\<open>math.Floor\<close>: \<^verbatim>\<open>round(-2.25, .5, 0)\<close> is \<open>-3\<close>.  At
  1999-12-29T12:00:00Z, three days before J2000, and longitude \<open>0\<close>, the argument of
  \<^verbatim>\<open>julianCycle\<close> is \<open>-3.0009\<close> and the cycle is \<open>-4\<close>, where the nearest integer is
  \<open>-3\<close>.  Both hold on every platform.
\<close>

theorem C4_round_floors_negative:
  "toDays \<lparr>Unix = 946468800, Nanosecond = 0\<rparr> = Some \<lparr>julianDayNumber = - 3, time = 0\<rparr>
   \<and> julianCycle P \<lparr>julianDayNumber = - 3, time = 0\<rparr> (f64 0) = Finite True 4
   \<and> round_go P (Finite True (9 / 4)) (f64 (1 / 2)) 0 = Finite True 3"
proof -
  have "toDays \<lparr>Unix = 946468800, Nanosecond = 0\<rparr> = Some \<lparr>julianDayNumber = - 3, time = 0\<rparr>"
    by (simp add: toDays_def NewJulian_def integerDivide_daySec removeHalfDay_def halfDayNano_def
          j1970_def j2000_def word_sless_alt)
  then show ?thesis
    by (simp add: julianCycle_val round_go_val)
qed

section \<open>Claims about the result of \<^verbatim>\<open>GetTimes\<close>\<close>

text \<open>
  Claim C7, amended.  For every platform, calculator, instant and location
  \<^verbatim>\<open>GetTimes\<close> returns a map and leaves the calculator and the heap as they were; the keys of the map
  are \<open>solarNoon\<close>, \<open>nadir\<close> and the rise and set names of the configured definitions that
  are not empty (an empty name writes nothing).  The entry \<open>solarNoon\<close> is
  \<^verbatim>\<open>JulianFromFloat(jNoon).Time()\<close> and the entry \<open>nadir\<close> is
  \<^verbatim>\<open>JulianFromFloat(jNoon - 0.5).Time()\<close> when no configured definition uses that name.
  The entry under a set name is the set time of the last definition that writes the name,
  and likewise for a rise name (within one definition the set name is written after the
  rise name).
\<close>

theorem C7_getTimes_entries:
  "\<exists>d res. toDays date = Some d \<and> GetTimes P H s date lat lng = Some (res, s, H)
     \<and> dom res = {''solarNoon'', ''nadir''} \<union> written (elems H (sc_times s))
     \<and> (''solarNoon'' \<notin> written (elems H (sc_times s)) \<longrightarrow>
          res ''solarNoon'' = Some (Time (JulianFromFloat P (sd_jNoon (solarDayOf P d lat lng)))))
     \<and> (''nadir'' \<notin> written (elems H (sc_times s)) \<longrightarrow>
          res ''nadir'' = Some (Time (JulianFromFloat P
                                  (fsub (sd_jNoon (solarDayOf P d lat lng)) (f64 (1 / 2))))))
     \<and> (\<forall>xs t ys. elems H (sc_times s) = xs @ t # ys \<and> setName t \<noteq> []
            \<and> (\<forall>u\<in>set ys. riseName u \<noteq> setName t \<and> setName u \<noteq> setName t) \<longrightarrow>
          res (setName t) = Some (Time (JulianFromFloat P (jSetOf P (solarDayOf P d lat lng) t))))
     \<and> (\<forall>xs t ys. elems H (sc_times s) = xs @ t # ys \<and> riseName t \<noteq> [] \<and> setName t \<noteq> riseName t
            \<and> (\<forall>u\<in>set ys. riseName u \<noteq> riseName t \<and> setName u \<noteq> riseName t) \<longrightarrow>
          res (riseName t) = Some (Time (JulianFromFloat P (jRiseOf P (solarDayOf P d lat lng) t))))"
proof -
  obtain d where d: "toDays date = Some d" using toDays_total by blast
  define c where "c = solarDayOf P d lat lng"
  define res0 where "res0 = Map.empty
      (''solarNoon'' \<mapsto> Time (JulianFromFloat P (sd_jNoon c)),
       ''nadir'' \<mapsto> Time (JulianFromFloat P (fsub (sd_jNoon c) (f64 (1 / 2)))))"
  define res where "res = foldl (emitTime P c) res0 (elems H (sc_times s))"
  have G: "GetTimes P H s date lat lng = Some (res, s, H)"
    by (simp add: GetTimes_eq[OF d] res_def res0_def c_def)
  have D: "dom res = {''solarNoon'', ''nadir''} \<union> written (elems H (sc_times s))"
    by (auto simp: res_def dom_foldl_emitTime res0_def)
  have N1: "res ''solarNoon'' = Some (Time (JulianFromFloat P (sd_jNoon c)))"
    if "''solarNoon'' \<notin> written (elems H (sc_times s))"
    using foldl_emitTime_other[OF not_written[OF _ that], of P c res0]
    by (simp add: res_def res0_def)
  have N2: "res ''nadir'' = Some (Time (JulianFromFloat P (fsub (sd_jNoon c) (f64 (1 / 2)))))"
    if "''nadir'' \<notin> written (elems H (sc_times s))"
    using foldl_emitTime_other[OF not_written[OF _ that], of P c res0]
    by (simp add: res_def res0_def)
  have S: "res (setName t) = Some (Time (JulianFromFloat P (jSetOf P c t)))"
    if "elems H (sc_times s) = xs @ t # ys" "setName t \<noteq> []"
       "\<forall>u\<in>set ys. riseName u \<noteq> setName t \<and> setName u \<noteq> setName t" for xs t ys
    unfolding res_def that(1) foldl_emitTime_last[OF that(3)] by (rule emitTime_set[OF that(2)])
  have R: "res (riseName t) = Some (Time (JulianFromFloat P (jRiseOf P c t)))"
    if "elems H (sc_times s) = xs @ t # ys" "riseName t \<noteq> []" "setName t \<noteq> riseName t"
       "\<forall>u\<in>set ys. riseName u \<noteq> riseName t \<and> setName u \<noteq> riseName t" for xs t ys
    unfolding res_def that(1) foldl_emitTime_last[OF that(4)] by (rule emitTime_rise[OF that(2,3)])
  show ?thesis
  proof (intro exI conjI allI impI)
    show "toDays date = Some d" by fact
    show "GetTimes P H s date lat lng = Some (res, s, H)" by fact
    show "dom res = {''solarNoon'', ''nadir''} \<union> written (elems H (sc_times s))" by fact
    show "res ''solarNoon'' = Some (Time (JulianFromFloat P (sd_jNoon (solarDayOf P d lat lng))))"
      if "''solarNoon'' \<notin> written (elems H (sc_times s))"
      using N1[OF that] by (simp add: c_def)
    show "res ''nadir'' = Some (Time (JulianFromFloat P
                                  (fsub (sd_jNoon (solarDayOf P d lat lng)) (f64 (1 / 2)))))"
      if "''nadir'' \<notin> written (elems H (sc_times s))"
      using N2[OF that] by (simp add: c_def)
    show "res (setName t) = Some (Time (JulianFromFloat P (jSetOf P (solarDayOf P d lat lng) t)))"
      if "elems H (sc_times s) = xs @ t # ys \<and> setName t \<noteq> []
            \<and> (\<forall>u\<in>set ys. riseName u \<noteq> setName t \<and> setName u \<noteq> setName t)" for xs t ys
      using S[of xs t ys] that by (simp add: c_def)
    show "res (riseName t) = Some (Time (JulianFromFloat P (jRiseOf P (solarDayOf P d lat lng) t)))"
      if "elems H (sc_times s) = xs @ t # ys \<and> riseName t \<noteq> [] \<and> setName t \<noteq> riseName t
            \<and> (\<forall>u\<in>set ys. riseName u \<noteq> riseName t \<and> setName u \<noteq> riseName t)" for xs t ys
      using R[of xs t ys] that by (simp add: c_def)
  qed
qed

text \<open>
  With the calculator of \<^verbatim>\<open>NewSunCalc\<close> and its six definitions, on every platform and at every location:
  the names \<open>solarNoon\<close> and \<open>nadir\<close> are not configured, and \<open>goldenHour\<close> is the set name
  of the last definition.
\<close>

theorem C7_getTimes_entries_witness:
  "\<forall>P lat lng. \<exists>d res. toDays \<lparr>Unix = 1406660605, Nanosecond = 0\<rparr> = Some d
     \<and> GetTimes P heap1 calc0 \<lparr>Unix = 1406660605, Nanosecond = 0\<rparr> lat lng = Some (res, calc0, heap1)
     \<and> res ''solarNoon'' = Some (Time (JulianFromFloat P (sd_jNoon (solarDayOf P d lat lng))))
     \<and> res ''nadir'' = Some (Time (JulianFromFloat P
                                (fsub (sd_jNoon (solarDayOf P d lat lng)) (f64 (1 / 2)))))
     \<and> res ''goldenHour'' = Some (Time (JulianFromFloat P (jSetOf P (solarDayOf P d lat lng)
           \<lparr>angle = f64 6, riseName = ''goldenHourEnd'', setName = ''goldenHour''\<rparr>)))"
proof (intro allI)
  fix P lat lng
  let ?t = "\<lparr>angle = f64 6, riseName = ''goldenHourEnd'', setName = ''goldenHour''\<rparr>"
  have w: "''solarNoon'' \<notin> written (elems heap1 (sc_times calc0))" "''nadir'' \<notin> written (elems heap1 (sc_times calc0))"
    by (simp_all add: written_def calc0_times NewSunCalc_times_def)
  from C7_getTimes_entries[of "\<lparr>Unix = 1406660605, Nanosecond = 0\<rparr>" P heap1 calc0 lat lng]
  obtain d res where *: "toDays \<lparr>Unix = 1406660605, Nanosecond = 0\<rparr> = Some d"
    "GetTimes P heap1 calc0 \<lparr>Unix = 1406660605, Nanosecond = 0\<rparr> lat lng = Some (res, calc0, heap1)"
    "''solarNoon'' \<notin> written (elems heap1 (sc_times calc0)) \<longrightarrow>
          res ''solarNoon'' = Some (Time (JulianFromFloat P (sd_jNoon (solarDayOf P d lat lng))))"
    "''nadir'' \<notin> written (elems heap1 (sc_times calc0)) \<longrightarrow>
          res ''nadir'' = Some (Time (JulianFromFloat P
                                  (fsub (sd_jNoon (solarDayOf P d lat lng)) (f64 (1 / 2)))))"
    "\<forall>xs t ys. elems heap1 (sc_times calc0) = xs @ t # ys \<and> setName t \<noteq> []
            \<and> (\<forall>u\<in>set ys. riseName u \<noteq> setName t \<and> setName u \<noteq> setName t) \<longrightarrow>
          res (setName t) = Some (Time (JulianFromFloat P (jSetOf P (solarDayOf P d lat lng) t)))"
    by (elim exE conjE) (rule that)
  have "elems heap1 (sc_times calc0) = butlast (elems heap1 (sc_times calc0)) @ ?t # [] \<and> setName ?t \<noteq> []
            \<and> (\<forall>u\<in>set []. riseName u \<noteq> setName ?t \<and> setName u \<noteq> setName ?t)"
    by (simp add: calc0_times NewSunCalc_times_def)
  with *(5) have "res (setName ?t) = Some (Time (JulianFromFloat P (jSetOf P (solarDayOf P d lat lng) ?t)))"
    by (elim allE impE)
  with * w show "\<exists>d res. toDays \<lparr>Unix = 1406660605, Nanosecond = 0\<rparr> = Some d
     \<and> GetTimes P heap1 calc0 \<lparr>Unix = 1406660605, Nanosecond = 0\<rparr> lat lng = Some (res, calc0, heap1)
     \<and> res ''solarNoon'' = Some (Time (JulianFromFloat P (sd_jNoon (solarDayOf P d lat lng))))
     \<and> res ''nadir'' = Some (Time (JulianFromFloat P
                                (fsub (sd_jNoon (solarDayOf P d lat lng)) (f64 (1 / 2)))))
     \<and> res ''goldenHour'' = Some (Time (JulianFromFloat P (jSetOf P (solarDayOf P d lat lng) ?t)))"
    by auto
qed

lemma toDays_t0: "toDays \<lparr>Unix = 1406660605, Nanosecond = 0\<rparr> = Some \<lparr>julianDayNumber = 5323, time = 25405000000000\<rparr>"
  by (simp add: toDays_def NewJulian_def integerDivide_daySec removeHalfDay_def halfDayNano_def
        j1970_def j2000_def word_sless_alt)

lemma flat_lw:
  "fmul rad (fneg (f64 0)) =
   Finite True 0"
  by (simp add: rad_val f64_def fsub_def sval_def fl_zero fl_one Let_def
        rnd_c1)

lemma flat_phi:
  "fmul rad (f64 0) =
   Finite False 0"
  by (simp add: rad_val f64_def fsub_def sval_def fl_zero fl_one Let_def
        rnd_c1)

lemma rnd_d1: "fl False 5323 = Finite False 5323"
  by (rule fl_eqI[where e = "12" and n = 5852700394651648]) (simp_all add: power_int_minus divide_simps)

lemma rnd_d2: "fl False 25405000000000 = Finite False 25405000000000"
  by (rule fl_eqI[where e = "44" and n = 6503680000000000]) (simp_all add: power_int_minus divide_simps)

lemma rnd_d3: "fl False (5081 / 17280) = Finite False (5296942061729049 / 18014398509481984)"
  by (rule fl_eqI[where e = "- 2" and n = 5296942061729049]) (simp_all add: power_int_minus divide_simps)

lemma rnd_d4: "fl False (95895940208034329881 / 18014398509481984) = Finite False (5853023694338033 / 1099511627776)"
  by (rule fl_eqI[where e = "12" and n = 5853023694338033]) (simp_all add: power_int_minus divide_simps)

lemma rnd_d5: "fl False (24549356542739372579383 / 4611686018427387904) = Finite False (182906959524299 / 34359738368)"
  by (rule fl_eqI[where e = "12" and n = 5853022704777568]) (simp_all add: power_int_minus divide_simps)

lemma rnd_d6: "fl False (182906959524299 / 34359738368) = Finite False (182906959524299 / 34359738368)"
  by (rule fl_eqI[where e = "12" and n = 5853022704777568]) (simp_all add: power_int_minus divide_simps)

lemma flat_n:
  "julianCycle (const_platform (Finite False 0) (Finite False 1) (Finite False (3 / 2))) \<lparr>julianDayNumber = 5323, time = 25405000000000\<rparr> (Finite True 0) =
   Finite False 5323"
  by (simp add: julianCycle_def round_go_def const_platform_def float64_of_int64_def fge_def j0_val twoPi_val floor_rat_numeral ceiling_rat_numeral f64_def fsub_def sval_def fl_zero fl_one Let_def
        rnd_d1 rnd_d2 rnd_n2 rnd_d3 rnd_d4 rnd_c4 rnd_d5 rnd_c2 rnd_d6 rnd_n5 rnd_n6 rnd_n7)

lemma rnd_d7: "fl False (4150517416584649 / 4611686018427387904) = Finite False (4150517416584649 / 4611686018427387904)"
  by (rule fl_eqI[where e = "- 11" and n = 8301034833169298]) (simp_all add: power_int_minus divide_simps)

lemma rnd_d8: "fl False (24548008826606402397641 / 4611686018427387904) = Finite False (5852701384212113 / 1099511627776)"
  by (rule fl_eqI[where e = "12" and n = 5852701384212113]) (simp_all add: power_int_minus divide_simps)

lemma flat_ds:
  "approxTransit (f64 0) (Finite True 0) (Finite False 5323) =
   Finite False (5852701384212113 / 1099511627776)"
  by (simp add: approxTransit_def j0_val twoPi_val f64_def fsub_def sval_def fl_zero fl_one Let_def
        rnd_c4 rnd_c2 rnd_d7 rnd_d8)

lemma rnd_d9: "fl False (667953313875 / 8589934592) = Finite False (667953313875 / 8589934592)"
  by (rule fl_eqI[where e = "6" and n = 5471873547264000]) (simp_all add: power_int_minus divide_simps)

lemma rnd_d10: "fl False (1304596316162109375 / 16777216) = Finite False (318504960000515 / 4096)"
  by (rule fl_eqI[where e = "36" and n = 5096079360008240]) (simp_all add: power_int_minus divide_simps)

lemma flat_jd:
  "JulianFromFloat (const_platform (Finite False 0) (Finite False 1) (Finite False (3 / 2))) (Finite False (5852701384212113 / 1099511627776)) =
   \<lparr>julianDayNumber = 5323, time = 77760000000\<rparr>"
  by (simp add: JulianFromFloat_def floor_rat_numeral floor_rat_one_numeral f64_def fsub_def sval_def fl_zero fl_one Let_def
        rnd_m5 rnd_d9 rnd_m2 rnd_d10)

lemma rnd_d11: "fl False 203879390440 = Finite False 203879390440"
  by (rule fl_eqI[where e = "37" and n = 6680719865937920]) (simp_all add: power_int_minus divide_simps)

lemma rnd_d12: "fl False (5096984761 / 25000000) = Finite False (3586684167242609 / 17592186044416)"
  by (rule fl_eqI[where e = "7" and n = 7173368334485218]) (simp_all add: power_int_minus divide_simps)

lemma rnd_d13: "fl False 77760000000 = Finite False 77760000000"
  by (rule fl_eqI[where e = "36" and n = 5096079360000000]) (simp_all add: power_int_minus divide_simps)

lemma rnd_d14: "fl False 900000 = Finite False 900000"
  by (rule fl_eqI[where e = "19" and n = 7730941132800000]) (simp_all add: power_int_minus divide_simps)

lemma rnd_d15: "fl False (2094464577500521875 / 2361183241434822606848) = Finite False (4090751127930707 / 4611686018427387904)"
  by (rule fl_eqI[where e = "- 11" and n = 8181502255861414]) (simp_all add: power_int_minus divide_simps)

lemma rnd_d16: "fl False (940231825088774424403 / 4611686018427387904) = Finite False (3586699772219751 / 17592186044416)"
  by (rule fl_eqI[where e = "7" and n = 7173399544439502]) (simp_all add: power_int_minus divide_simps)

lemma rnd_d17: "fl False (18043140930722680651508281690863 / 5070602400912917605986812821504) = Finite False (8012764199137959 / 2251799813685248)"
  by (rule fl_eqI[where e = "1" and n = 8012764199137959]) (simp_all add: power_int_minus divide_simps)

lemma flat_m:
  "solarMeanAnomaly \<lparr>julianDayNumber = 5323, time = 77760000000\<rparr> =
   Finite False (8012764199137959 / 2251799813685248)"
  by (simp add: solarMeanAnomaly_def solarMeanAnomaly_i_def maCoef0Nano_def maCoef1Nano_def rem64_def signed_modulo_int_def float64_of_int64_def rad_val twoPi_val f64_def fsub_def sval_def fl_zero fl_one Let_def
        rnd_c1 rnd_d11 rnd_m2 rnd_d12 rnd_d13 rnd_m5 rnd_d14 rnd_m7 rnd_m8 rnd_m9 rnd_d15
        rnd_d16 rnd_d17)

lemma rnd_d18: "fl False (4787 / 2500) = Finite False (4311746283244513 / 2251799813685248)"
  by (rule fl_eqI[where e = "0" and n = 8623492566489026]) (simp_all add: power_int_minus divide_simps)

lemma rnd_d19: "fl False (1 / 50) = Finite False (5764607523034235 / 288230376151711744)"
  by (rule fl_eqI[where e = "- 6" and n = 5764607523034235]) (simp_all add: power_int_minus divide_simps)

lemma rnd_d20: "fl False 2 = Finite False 2"
  by (rule fl_eqI[where e = "1" and n = 4503599627370496]) (simp_all add: power_int_minus divide_simps)

lemma rnd_d21: "fl False (8012764199137959 / 1125899906842624) = Finite False (8012764199137959 / 1125899906842624)"
  by (rule fl_eqI[where e = "2" and n = 8012764199137959]) (simp_all add: power_int_minus divide_simps)

lemma rnd_d22: "fl False (3 / 10000) = Finite False (5534023222112865 / 18446744073709551616)"
  by (rule fl_eqI[where e = "- 12" and n = 5534023222112865]) (simp_all add: power_int_minus divide_simps)

lemma rnd_d23: "fl False 3 = Finite False 3"
  by (rule fl_eqI[where e = "1" and n = 6755399441055744]) (simp_all add: power_int_minus divide_simps)

lemma rnd_d24: "fl False (24038292597413877 / 2251799813685248) = Finite False (6009573149353469 / 562949953421312)"
  by (rule fl_eqI[where e = "3" and n = 6009573149353469]) (simp_all add: power_int_minus divide_simps)

lemma rnd_d25: "fl False (26948895941758605378856401206109903690931738824779595242905172187479 / 15000000000000000000000000000000000000000000000000000000000000000000) = Finite False (4045567924045011 / 2251799813685248)"
  by (rule fl_eqI[where e = "0" and n = 8091135848090022]) (simp_all add: power_int_minus divide_simps)

lemma rnd_d26: "fl False (8012764199137959 / 2251799813685248) = Finite False (8012764199137959 / 2251799813685248)"
  by (rule fl_eqI[where e = "1" and n = 8012764199137959]) (simp_all add: power_int_minus divide_simps)

lemma rnd_d27: "fl False (6029166061591485 / 1125899906842624) = Finite False (6029166061591485 / 1125899906842624)"
  by (rule fl_eqI[where e = "2" and n = 6029166061591485]) (simp_all add: power_int_minus divide_simps)

lemma rnd_d28: "fl False (9566284937605705 / 1125899906842624) = Finite False (1195785617200713 / 140737488355328)"
  by (rule fl_eqI[where e = "3" and n = 4783142468802852]) (simp_all add: power_int_minus divide_simps)

lemma flat_l:
  "eclipticLongitude (const_platform (Finite False 0) (Finite False 1) (Finite False (3 / 2))) (Finite False (8012764199137959 / 2251799813685248)) =
   Finite False (1195785617200713 / 140737488355328)"
  by (simp add: eclipticLongitude_def const_platform_def rad_val math_Pi_val Pi_lit_def f64_def fsub_def sval_def fl_zero fl_one Let_def
        rnd_c1 rnd_d18 rnd_d19 rnd_d20 rnd_d21 rnd_d22 rnd_d23 rnd_d24 rnd_d25 rnd_d26
        rnd_d27 rnd_c3 rnd_d28)

lemma rnd_d29: "fl False (73637989322348676571592822111056563754716391570532667911906408706223 / 180000000000000000000000000000000000000000000000000000000000000000000) = Finite False (230302792550307 / 562949953421312)"
  by (rule fl_eqI[where e = "- 2" and n = 7369689361609824]) (simp_all add: power_int_minus divide_simps)

lemma flat_dec:
  "declination (const_platform (Finite False 0) (Finite False 1) (Finite False (3 / 2))) (Finite False (1195785617200713 / 140737488355328)) (f64 0) =
   Finite False 0"
  by (simp add: declination_def const_platform_def obliquity_def Pi_lit_def f64_def fsub_def sval_def fl_zero fl_one Let_def
        rnd_d29)

lemma rnd_d30: "fl False 2451545 = Finite False 2451545"
  by (rule fl_eqI[where e = "21" and n = 5264652799836160]) (simp_all add: power_int_minus divide_simps)

lemma rnd_d31: "fl False (2701354934900326033 / 1099511627776) = Finite False (5276083857227199 / 2147483648)"
  by (rule fl_eqI[where e = "21" and n = 5276083857227199]) (simp_all add: power_int_minus divide_simps)

lemma rnd_d32: "fl False (53 / 10000) = Finite False (6110483974416289 / 1152921504606846976)"
  by (rule fl_eqI[where e = "- 8" and n = 6110483974416289]) (simp_all add: power_int_minus divide_simps)

lemma rnd_d33: "fl False (5276083857227199 / 2147483648) = Finite False (5276083857227199 / 2147483648)"
  by (rule fl_eqI[where e = "21" and n = 5276083857227199]) (simp_all add: power_int_minus divide_simps)

lemma rnd_d34: "fl False (69 / 10000) = Finite False (1988789595446811 / 288230376151711744)"
  by (rule fl_eqI[where e = "- 8" and n = 7955158381787244]) (simp_all add: power_int_minus divide_simps)

lemma rnd_d35: "fl False (1195785617200713 / 70368744177664) = Finite False (1195785617200713 / 70368744177664)"
  by (rule fl_eqI[where e = "4" and n = 4783142468802852]) (simp_all add: power_int_minus divide_simps)

lemma flat_jNoon:
  "solarTransitJ (const_platform (Finite False 0) (Finite False 1) (Finite False (3 / 2))) (Finite False (5852701384212113 / 1099511627776)) (Finite False (8012764199137959 / 2251799813685248)) (Finite False (1195785617200713 / 140737488355328)) =
   Finite False (5276083857227199 / 2147483648)"
  by (simp add: solarTransitJ_def const_platform_def f64_def fsub_def sval_def fl_zero fl_one Let_def
        rnd_d30 rnd_d31 rnd_d32 rnd_d33 rnd_d34 rnd_d20 rnd_d35)

lemma solarDayOf_flat:
  "solarDayOf (const_platform (Finite False 0) (Finite False 1) (Finite False (3 / 2)))
     \<lparr>julianDayNumber = 5323, time = 25405000000000\<rparr> (f64 0) (f64 0) =
   \<lparr>sd_lw = Finite True 0, sd_phi = Finite False 0, sd_n = Finite False 5323,
     sd_m = Finite False (8012764199137959 / 2251799813685248),
     sd_l = Finite False (1195785617200713 / 140737488355328),
     sd_dec = Finite False 0,
     sd_jNoon = Finite False (5276083857227199 / 2147483648)\<rparr>"
  by (simp add: solarDayOf_def Let_def flat_lw flat_phi flat_n flat_ds flat_jd flat_m flat_l
        flat_dec flat_jNoon)

lemma flat_w:
  "hourAngle (const_platform (Finite False 0) (Finite False 1) (Finite False (3 / 2))) (fmul (f64 0) rad) (Finite False 0) (Finite False 0) =
   Finite False (3 / 2)"
  by (simp add: hourAngle_def hourAngle_arg_def const_platform_def rad_val f64_def fsub_def sval_def fl_zero fl_one Let_def
        rnd_c1 rnd_n7)

lemma rnd_e1: "fl False (3 / 2) = Finite False (3 / 2)"
  by (rule fl_eqI[where e = "0" and n = 6755399441055744]) (simp_all add: power_int_minus divide_simps)

lemma rnd_e2: "fl False (211106232532992 / 884279719003555) = Finite False (2150310427208497 / 9007199254740992)"
  by (rule fl_eqI[where e = "- 3" and n = 8601241708833988]) (simp_all add: power_int_minus divide_simps)

lemma rnd_e3: "fl False (1105109456147335113 / 4611686018427387904) = Finite False (539604226634441 / 2251799813685248)"
  by (rule fl_eqI[where e = "- 3" and n = 8633667626151056]) (simp_all add: power_int_minus divide_simps)

lemma rnd_e4: "fl False (11986870012473209545 / 2251799813685248) = Finite False (2926481936638967 / 549755813888)"
  by (rule fl_eqI[where e = "12" and n = 5852963873277934]) (simp_all add: power_int_minus divide_simps)

lemma flat_a:
  "approxTransit (Finite False (3 / 2)) (Finite True 0) (Finite False 5323) =
   Finite False (2926481936638967 / 549755813888)"
  by (simp add: approxTransit_def j0_val twoPi_val f64_def fsub_def sval_def fl_zero fl_one Let_def
        rnd_c4 rnd_e1 rnd_c2 rnd_e2 rnd_e3 rnd_e4)

lemma rnd_e5: "fl False (1350677598694695927 / 549755813888) = Finite False (1319021092475289 / 536870912)"
  by (rule fl_eqI[where e = "21" and n = 5276084369901156]) (simp_all add: power_int_minus divide_simps)

lemma rnd_e6: "fl False (1319021092475289 / 536870912) = Finite False (1319021092475289 / 536870912)"
  by (rule fl_eqI[where e = "21" and n = 5276084369901156]) (simp_all add: power_int_minus divide_simps)

lemma flat_jSet:
  "solarTransitJ (const_platform (Finite False 0) (Finite False 1) (Finite False (3 / 2))) (Finite False (2926481936638967 / 549755813888)) (Finite False (8012764199137959 / 2251799813685248)) (Finite False (1195785617200713 / 140737488355328)) =
   Finite False (1319021092475289 / 536870912)"
  by (simp add: solarTransitJ_def const_platform_def f64_def fsub_def sval_def fl_zero fl_one Let_def
        rnd_d30 rnd_e5 rnd_d32 rnd_e6 rnd_d34 rnd_d20 rnd_d35)

lemma rnd_e7: "fl False (512673957 / 2147483648) = Finite False (512673957 / 2147483648)"
  by (rule fl_eqI[where e = "- 3" and n = 8601241714163712]) (simp_all add: power_int_minus divide_simps)

lemma rnd_e8: "fl False (2638041672276621 / 1073741824) = Finite False (2638041672276621 / 1073741824)"
  by (rule fl_eqI[where e = "21" and n = 5276083344553242]) (simp_all add: power_int_minus divide_simps)

lemma flat_jRise:
  "fsub (Finite False (5276083857227199 / 2147483648)) (fsub (Finite False (1319021092475289 / 536870912)) (Finite False (5276083857227199 / 2147483648))) =
   Finite False (2638041672276621 / 1073741824)"
  by (simp add:  f64_def fsub_def sval_def fl_zero fl_one Let_def
        rnd_e7 rnd_e8)

lemma jRiseOf_flat:
  "jRiseOf (const_platform (Finite False 0) (Finite False 1) (Finite False (3 / 2)))
     \<lparr>sd_lw = Finite True 0, sd_phi = Finite False 0, sd_n = Finite False 5323,
     sd_m = Finite False (8012764199137959 / 2251799813685248),
     sd_l = Finite False (1195785617200713 / 140737488355328),
     sd_dec = Finite False 0,
     sd_jNoon = Finite False (5276083857227199 / 2147483648)\<rparr>
     \<lparr>angle = f64 0, riseName = ''solarNoon'', setName = []\<rparr> = Finite False (2638041672276621 / 1073741824)"
  by (simp add: jRiseOf_def jSetOf_def getSetJ_def Let_def flat_w flat_a flat_jSet flat_jRise)

lemma rnd_f1: "fl False (552400568775 / 8388608) = Finite False (552400568775 / 8388608)"
  by (rule fl_eqI[where e = "16" and n = 4525265459404800]) (simp_all add: power_int_minus divide_simps)

lemma rnd_f2: "fl False (1078907360888671875 / 16384) = Finite False (8428963756942749 / 128)"
  by (rule fl_eqI[where e = "45" and n = 8428963756942749]) (simp_all add: power_int_minus divide_simps)

lemma flat_jdRise:
  "JulianFromFloat (const_platform (Finite False 0) (Finite False 1) (Finite False (3 / 2))) (Finite False (2638041672276621 / 1073741824)) =
   \<lparr>julianDayNumber = 2456867, time = 65851279351115\<rparr>"
  by (simp add: JulianFromFloat_def floor_rat_numeral floor_rat_one_numeral f64_def fsub_def sval_def fl_zero fl_one Let_def
        rnd_m5 rnd_f1 rnd_m2 rnd_f2)

lemma rnd_f3: "fl False (1304596125 / 16777216) = Finite False (1304596125 / 16777216)"
  by (rule fl_eqI[where e = "6" and n = 5471872745472000]) (simp_all add: power_int_minus divide_simps)

lemma rnd_f4: "fl False (2548039306640625 / 32768) = Finite False (2548039306640625 / 32768)"
  by (rule fl_eqI[where e = "36" and n = 5096078613281250]) (simp_all add: power_int_minus divide_simps)

lemma flat_jdNoon:
  "JulianFromFloat (const_platform (Finite False 0) (Finite False 1) (Finite False (3 / 2))) (Finite False (5276083857227199 / 2147483648)) =
   \<lparr>julianDayNumber = 2456868, time = 77759988605\<rparr>"
  by (simp add: JulianFromFloat_def floor_rat_numeral floor_rat_one_numeral f64_def fsub_def sval_def fl_zero fl_one Let_def
        rnd_m5 rnd_f3 rnd_m2 rnd_f4)

lemma Time_rise_flat: "Time \<lparr>julianDayNumber = 2456867, time = 65851279351115\<rparr> = \<lparr>Unix = 1406614651, Nanosecond = 279351115\<rparr>"
  by (simp add: Time_def time_Unix_def quo64_def signed_divide_int_def j1970_def daySec_def halfDaySec_def word_sless_alt word_sle_eq Let_def)

lemma Time_noon_flat: "Time \<lparr>julianDayNumber = 2456868, time = 77759988605\<rparr> = \<lparr>Unix = 1406635277, Nanosecond = 759988605\<rparr>"
  by (simp add: Time_def time_Unix_def quo64_def signed_divide_int_def j1970_def daySec_def halfDaySec_def word_sless_alt word_sle_eq Let_def)

text \<open>
  Claim C7, as stated: the entry \<open>solarNoon\<close> is \<^verbatim>\<open>JulianFromFloat(jNoon).Time()\<close>
  regardless of the configured definitions.  It fails when a definition uses the name:
  after \<^verbatim>\<open>AddTime(0, "solarNoon", "")\<close> the loop assigns the rise time of that definition
  to the key \<open>solarNoon\<close>, over the solar noon written before the loop.  The run is at
  2014-07-29T19:03:25Z, latitude and longitude \<open>0\<close>, on the platform whose sine is \<open>0\<close>,
  cosine \<open>1\<close> and arc cosine \<open>1.5\<close>: the entry is at 1406614651 s, the solar noon
  at 1406635277 s.
\<close>

theorem C7_counterexample:
  "(case AddTime double_cap heap1 calc0 (f64 0) ''solarNoon'' [] of
      (s, H) \<Rightarrow>
        map_option (\<lambda>r. fst r ''solarNoon'')
          (GetTimes (const_platform (Finite False 0) (Finite False 1) (Finite False (3 / 2)))
             H s \<lparr>Unix = 1406660605, Nanosecond = 0\<rparr> (f64 0) (f64 0)))
     = Some (Some \<lparr>Unix = 1406614651, Nanosecond = 279351115\<rparr>)
   \<and> map_option
        (\<lambda>d. Time (JulianFromFloat (const_platform (Finite False 0) (Finite False 1) (Finite False (3 / 2)))
               (sd_jNoon (solarDayOf (const_platform (Finite False 0) (Finite False 1) (Finite False (3 / 2))) d (f64 0) (f64 0)))))
        (toDays \<lparr>Unix = 1406660605, Nanosecond = 0\<rparr>)
     = Some \<lparr>Unix = 1406635277, Nanosecond = 759988605\<rparr>"
proof -
  let ?P = "(const_platform (Finite False 0) (Finite False 1) (Finite False (3 / 2)))"
  let ?t = "\<lparr>angle = f64 0, riseName = ''solarNoon'', setName = []\<rparr>"
  obtain s H where a: "AddTime double_cap heap1 calc0 (f64 0) ''solarNoon'' [] = (s, H)"
    by (cases "AddTime double_cap heap1 calc0 (f64 0) ''solarNoon'' []")
  have e: "elems H (sc_times s) = NewSunCalc_times @ ?t # []"
    using AddTime_elems(1)[OF calc0_wf a] by (simp add: calc0_times)
  have "foldl (emitTime ?P c) res (NewSunCalc_times @ ?t # []) ''solarNoon''
          = Some (Time (JulianFromFloat ?P (jRiseOf ?P c ?t)))" for c res
    using foldl_emitTime_last[of "[]" "''solarNoon''" ?P c res NewSunCalc_times ?t]
      emitTime_rise[of ?t ?P c]
    by simp
  then show ?thesis
    unfolding a
    by (simp add: GetTimes_eq[OF toDays_t0] toDays_t0 e solarDayOf_flat jRiseOf_flat
          flat_jdRise flat_jdNoon Time_rise_flat Time_noon_flat)
qed

section \<open>Domain violations\<close>

lemma GetPosition_total: "\<exists>pos. GetPosition P H s date lat lng = Some (pos, s, H)"
  using toDays_total[of date]
  by (auto simp: GetPosition_def Let_def split: prod.splits)

lemma GetMoonPosition_total: "\<exists>mp. GetMoonPosition P date lat lng = Some mp"
  using toDays_total[of date]
  by (auto simp: GetMoonPosition_def Let_def split: prod.splits)

lemma GetMoonIllumination_total: "\<exists>mi. GetMoonIllumination P date = Some mi"
  using toDays_total[of date]
  by (auto simp: GetMoonIllumination_def Let_def split: prod.splits)

lemma emitTime_NaN:
  assumes "jSetOf P c t = NaN" "k \<noteq> []" "k = riseName t \<or> k = setName t"
  shows "emitTime P c res t k = Some (Time (JulianFromFloat P NaN))"
  using assms by (auto simp: emitTime_def jRiseOf_def Let_def)

text \<open>
  Claim C6.  No operation fails: on every platform, for every heap, calculator, instant,
  latitude and longitude (every \<^verbatim>\<open>float64\<close>, the infinities and \<open>NaN\<close> included), each of
  \<^verbatim>\<open>GetTimes\<close>, \<^verbatim>\<open>GetPosition\<close>, \<^verbatim>\<open>GetMoonPosition\<close> and \<^verbatim>\<open>GetMoonIllumination\<close> returns.
  In \<^verbatim>\<open>GetTimes\<close>, for every configured definition whose \<^verbatim>\<open>math.Acos\<close> argument is below
  \<open>-1\<close> or above \<open>1\<close>, the set time and the rise time are \<open>NaN\<close>, the non-empty names of
  the definition are keys of the result, and the entry is
  \<^verbatim>\<open>JulianFromFloat(NaN).Time()\<close> unless a later definition writes the same name: nothing is
  left out, replaced by another value, or reported.
\<close>

theorem C6_domain_violation_emitted:
  "\<exists>d res pos mp mi. toDays date = Some d
     \<and> GetTimes P H s date lat lng = Some (res, s, H)
     \<and> GetPosition P H s date lat lng = Some (pos, s, H)
     \<and> GetMoonPosition P date lat lng = Some mp
     \<and> GetMoonIllumination P date = Some mi
     \<and> (\<forall>t\<in>set (elems H (sc_times s)). acos_out_of_domain (threshold_arg P (solarDayOf P d lat lng) t) \<longrightarrow>
            jSetOf P (solarDayOf P d lat lng) t = NaN \<and> jRiseOf P (solarDayOf P d lat lng) t = NaN
            \<and> (riseName t \<noteq> [] \<longrightarrow> riseName t \<in> dom res)
            \<and> (setName t \<noteq> [] \<longrightarrow> setName t \<in> dom res))
     \<and> (\<forall>xs t ys k. elems H (sc_times s) = xs @ t # ys
            \<and> acos_out_of_domain (threshold_arg P (solarDayOf P d lat lng) t)
            \<and> k \<noteq> [] \<and> (k = riseName t \<or> k = setName t)
            \<and> (\<forall>u\<in>set ys. riseName u \<noteq> k \<and> setName u \<noteq> k) \<longrightarrow>
          res k = Some (Time (JulianFromFloat P NaN)))"
proof -
  obtain d where d: "toDays date = Some d" using toDays_total by blast
  define c where "c = solarDayOf P d lat lng"
  define res0 where "res0 = Map.empty
      (''solarNoon'' \<mapsto> Time (JulianFromFloat P (sd_jNoon c)),
       ''nadir'' \<mapsto> Time (JulianFromFloat P (fsub (sd_jNoon c) (f64 (1 / 2)))))"
  define res where "res = foldl (emitTime P c) res0 (elems H (sc_times s))"
  obtain pos mp mi where o: "GetPosition P H s date lat lng = Some (pos, s, H)"
    "GetMoonPosition P date lat lng = Some mp" "GetMoonIllumination P date = Some mi"
    using GetPosition_total GetMoonPosition_total GetMoonIllumination_total by metis
  have G: "GetTimes P H s date lat lng = Some (res, s, H)"
    by (simp add: GetTimes_eq[OF d] res_def res0_def c_def)
  have D: "dom res = {''solarNoon'', ''nadir''} \<union> written (elems H (sc_times s))"
    by (auto simp: res_def dom_foldl_emitTime res0_def)
  have S: "jSetOf P c t = NaN" if "acos_out_of_domain (threshold_arg P c t)" for t
    using getSetJ_out_of_domain[OF that[unfolded threshold_arg_def]] by (simp add: jSetOf_def)
  have A: "jSetOf P c t = NaN \<and> jRiseOf P c t = NaN
            \<and> (riseName t \<noteq> [] \<longrightarrow> riseName t \<in> dom res)
            \<and> (setName t \<noteq> [] \<longrightarrow> setName t \<in> dom res)"
    if "t \<in> set (elems H (sc_times s))" "acos_out_of_domain (threshold_arg P c t)" for t
    using S[OF that(2)] that(1) by (auto simp: D written_def jRiseOf_def)
  have B: "res k = Some (Time (JulianFromFloat P NaN))"
    if "elems H (sc_times s) = xs @ t # ys \<and> acos_out_of_domain (threshold_arg P c t)
          \<and> k \<noteq> [] \<and> (k = riseName t \<or> k = setName t)
          \<and> (\<forall>u\<in>set ys. riseName u \<noteq> k \<and> setName u \<noteq> k)" for xs t ys k
  proof -
    from that have l: "\<forall>u\<in>set ys. riseName u \<noteq> k \<and> setName u \<noteq> k" by blast
    from that have e: "elems H (sc_times s) = xs @ t # ys" by blast
    show ?thesis
      unfolding res_def e foldl_emitTime_last[OF l]
      using that S by (intro emitTime_NaN) auto
  qed
  show ?thesis
  proof (intro exI conjI ballI allI impI)
    show "toDays date = Some d" by fact
    show "GetTimes P H s date lat lng = Some (res, s, H)" by fact
    show "GetPosition P H s date lat lng = Some (pos, s, H)" by fact
    show "GetMoonPosition P date lat lng = Some mp" by fact
    show "GetMoonIllumination P date = Some mi" by fact
    show "res k = Some (Time (JulianFromFloat P NaN))"
      if "elems H (sc_times s) = xs @ t # ys \<and> acos_out_of_domain (threshold_arg P (solarDayOf P d lat lng) t)
          \<and> k \<noteq> [] \<and> (k = riseName t \<or> k = setName t)
          \<and> (\<forall>u\<in>set ys. riseName u \<noteq> k \<and> setName u \<noteq> k)" for xs t ys k
      using B[of xs t ys k] that by (simp add: c_def)
  qed (use A in \<open>auto simp: c_def\<close>)
qed

section \<open>The definition list\<close>

lemma append_slice_header:
  assumes "append_slice g H sl x = (sl', H')"
  shows "len sl' = len sl + 1"
    and "len sl < cap sl \<Longrightarrow> base sl' = base sl \<and> cap sl' = cap sl"
    and "\<not> len sl < cap sl \<Longrightarrow>
           base sl' = fresh H \<and> cap sl' = max (len sl + 1) (g (cap sl) (len sl + 1))"
  using assms by (auto simp: append_slice_def Let_def split: if_splits)

lemma AddTime_header:
  assumes "AddTime g H s a rn sn = (s', H')"
  shows "len (sc_times s') = len (sc_times s) + 1"
    and "len (sc_times s) < cap (sc_times s) \<Longrightarrow>
           base (sc_times s') = base (sc_times s) \<and> cap (sc_times s') = cap (sc_times s)"
    and "\<not> len (sc_times s) < cap (sc_times s) \<Longrightarrow>
           base (sc_times s') = fresh H
           \<and> cap (sc_times s') = max (len (sc_times s) + 1)
                                   (g (cap (sc_times s)) (len (sc_times s) + 1))"
proof -
  obtain sl where a: "append_slice g H (sc_times s) \<lparr>angle = a, riseName = rn, setName = sn\<rparr> = (sl, H')"
    and s': "s' = s\<lparr>sc_times := sl\<rparr>"
    using assms by (auto simp: AddTime_def split: prod.splits)
  from append_slice_header[OF a]
  show "len (sc_times s') = len (sc_times s) + 1"
    and "len (sc_times s) < cap (sc_times s) \<Longrightarrow>
           base (sc_times s') = base (sc_times s) \<and> cap (sc_times s') = cap (sc_times s)"
    and "\<not> len (sc_times s) < cap (sc_times s) \<Longrightarrow>
           base (sc_times s') = fresh H
           \<and> cap (sc_times s') = max (len (sc_times s) + 1)
                                   (g (cap (sc_times s)) (len (sc_times s) + 1))"
    by (simp_all add: s')
qed

lemma calc0_header: "len (sc_times calc0) = 6 \<and> cap (sc_times calc0) = 6"
  by (simp add: calc0_def NewSunCalc_def slice_lit_def NewSunCalc_times_def)

lemma GetTimes_dom:
  "\<exists>res. GetTimes P H s date lat lng = Some (res, s, H)
         \<and> dom res = {''solarNoon'', ''nadir''} \<union> written (elems H (sc_times s))"
proof -
  obtain d where d: "toDays date = Some d" using toDays_total by blast
  show ?thesis
    unfolding GetTimes_eq[OF d] by (auto simp: dom_foldl_emitTime)
qed

text \<open>
  Claim C10, as stated: the only operation that changes the definition list of a
  calculator is its \<^verbatim>\<open>AddTime\<close>, which leaves every definition configured before
  unchanged, so that a later \<^verbatim>\<open>GetTimes\<close> still emits their names.  It fails when a
  calculator is copied, because the copy shares the backing array of the slice.  The
  run, with a runtime that doubles the capacity:

    \<^item> \<^verbatim>\<open>s1 := NewSunCalc()\<close> has length \<open>6\<close> and capacity \<open>6\<close>;
      \<^verbatim>\<open>s1.AddTime(1, "a", "b")\<close> allocates an array of capacity \<open>12\<close>, length \<open>7\<close>;
    \<^item> \<^verbatim>\<open>s2 := s1\<close> copies the address, the length \<open>7\<close> and the capacity;
    \<^item> \<^verbatim>\<open>s1.AddTime(2, "c", "d")\<close> writes the index \<open>7\<close> of the array, and \<^verbatim>\<open>s1\<close> has
      the two definitions after the six;
    \<^item> \<^verbatim>\<open>s2.AddTime(3, "e", "f")\<close> writes the index \<open>7\<close> of the same array.

  After it the eighth definition of \<^verbatim>\<open>s1\<close> is \<open>(3, e, f)\<close>, and \<^verbatim>\<open>s1.GetTimes\<close> has no
  key \<open>c\<close> and no key \<open>d\<close>, on every platform, at every instant and location.  (In the
  statement \<open>s1\<close> is the calculator after the first call, which is also the copy, and
  \<open>s1'\<close> is the calculator after the second.)
\<close>

theorem C10_counterexample:
  "\<forall>P date lat lng.
     (case AddTime double_cap heap1 calc0 (f64 1) ''a'' ''b'' of (s1, H1) \<Rightarrow>
      case AddTime double_cap H1 s1 (f64 2) ''c'' ''d'' of (s1', H2) \<Rightarrow>
      case AddTime double_cap H2 s1 (f64 3) ''e'' ''f'' of (s2', H3) \<Rightarrow>
        elems H2 (sc_times s1') =
          NewSunCalc_times @ [\<lparr>angle = f64 1, riseName = ''a'', setName = ''b''\<rparr>,
                              \<lparr>angle = f64 2, riseName = ''c'', setName = ''d''\<rparr>]
        \<and> elems H3 (sc_times s1') =
          NewSunCalc_times @ [\<lparr>angle = f64 1, riseName = ''a'', setName = ''b''\<rparr>,
                              \<lparr>angle = f64 3, riseName = ''e'', setName = ''f''\<rparr>]
        \<and> (\<exists>res. GetTimes P H3 s1' date lat lng = Some (res, s1', H3)
                  \<and> ''c'' \<notin> dom res \<and> ''d'' \<notin> dom res))"
proof (intro allI)
  fix P date lat lng
  let ?ab = "\<lparr>angle = f64 1, riseName = ''a'', setName = ''b''\<rparr>"
  let ?cd = "\<lparr>angle = f64 2, riseName = ''c'', setName = ''d''\<rparr>"
  let ?ef = "\<lparr>angle = f64 3, riseName = ''e'', setName = ''f''\<rparr>"
  obtain s1 H1 where a1: "AddTime double_cap heap1 calc0 (f64 1) ''a'' ''b'' = (s1, H1)"
    by (cases "AddTime double_cap heap1 calc0 (f64 1) ''a'' ''b''")
  obtain s1' H2 where a2: "AddTime double_cap H1 s1 (f64 2) ''c'' ''d'' = (s1', H2)"
    by (cases "AddTime double_cap H1 s1 (f64 2) ''c'' ''d''")
  obtain s2' H3 where a3: "AddTime double_cap H2 s1 (f64 3) ''e'' ''f'' = (s2', H3)"
    by (cases "AddTime double_cap H2 s1 (f64 3) ''e'' ''f''")
  (* after the first call *)
  have e1: "elems H1 (sc_times s1) = NewSunCalc_times @ [?ab]"
    and w1: "wf_slice H1 (sc_times s1)"
    using AddTime_elems[OF calc0_wf a1] by (simp_all add: calc0_times)
  have h1: "len (sc_times s1) = 7" "cap (sc_times s1) = 12"
    using AddTime_header(1,3)[OF a1] by (simp_all add: calc0_header double_cap_def)
  (* after the second call *)
  have e2: "elems H2 (sc_times s1') = NewSunCalc_times @ [?ab, ?cd]"
    and w2': "wf_slice H2 (sc_times s1')"
    using AddTime_elems[OF w1 a2] by (simp_all add: e1)
  have w2: "wf_slice H2 (sc_times s1)"
    using AddTime_other(2)[OF w1 w1 a2] .
  have h2: "len (sc_times s1') = 8" "base (sc_times s1') = base (sc_times s1)"
    using AddTime_header(1,2)[OF a2] by (simp_all add: h1)
  (* after the third call, on the copy *)
  have "elems H3 (sc_times s1') = (NewSunCalc_times @ [?ab, ?cd])[7 := ?ef]"
    using AddTime_other(1)[OF w2 w2' a3] by (simp add: h1 h2 e2)
  also have "\<dots> = NewSunCalc_times @ [?ab, ?ef]"
    by (simp add: NewSunCalc_times_def)
  finally have e3: "elems H3 (sc_times s1') = NewSunCalc_times @ [?ab, ?ef]" .
  obtain res where g: "GetTimes P H3 s1' date lat lng = Some (res, s1', H3)"
    and d: "dom res = {''solarNoon'', ''nadir''} \<union> written (elems H3 (sc_times s1'))"
    using GetTimes_dom[of P H3 s1' date lat lng] by blast
  have "''c'' \<notin> dom res" "''d'' \<notin> dom res"
    by (simp_all add: d e3 written_def NewSunCalc_times_def)
  with g e2 e3 show "case AddTime double_cap heap1 calc0 (f64 1) ''a'' ''b'' of (s1, H1) \<Rightarrow>
      case AddTime double_cap H1 s1 (f64 2) ''c'' ''d'' of (s1', H2) \<Rightarrow>
      case AddTime double_cap H2 s1 (f64 3) ''e'' ''f'' of (s2', H3) \<Rightarrow>
        elems H2 (sc_times s1') = NewSunCalc_times @ [?ab, ?cd]
        \<and> elems H3 (sc_times s1') = NewSunCalc_times @ [?ab, ?ef]
        \<and> (\<exists>res. GetTimes P H3 s1' date lat lng = Some (res, s1', H3)
                  \<and> ''c'' \<notin> dom res \<and> ''d'' \<notin> dom res)"
    by (simp add: a1 a2 a3)
qed

text \<open>
  Claim C10, amended.  \<^verbatim>\<open>GetTimes\<close> and \<^verbatim>\<open>GetPosition\<close> leave the heap and the calculator
  as they were, so they change the definition list of no calculator.  \<^verbatim>\<open>AddTime\<close> on a
  calculator \<open>s\<close> appends one definition at the end of the list of \<open>s\<close>: the definitions
  configured before are the first elements of the new list, unchanged and in their
  order, and \<^verbatim>\<open>GetTimes\<close> on \<open>s\<close> then has a key for every non-empty name configured
  before.  For any other calculator value \<open>s2\<close> of the heap, the call leaves its list
  as it was unless \<open>s2\<close> is on the same array as \<open>s\<close>, \<open>s\<close> has capacity left, and \<open>s2\<close>
  is longer than \<open>s\<close>: then the definition of \<open>s2\<close> at the index \<open>len s\<close> is replaced
  by the new one.
\<close>

theorem C10_frame_in_heap:
  assumes "wf_slice H (sc_times s)" and "wf_slice H (sc_times s2)"
  shows "(\<exists>res. GetTimes P H s date lat lng = Some (res, s, H))
   \<and> (\<exists>pos. GetPosition P H s date lat lng = Some (pos, s, H))
   \<and> (case AddTime g H s a rn sn of
        (s', H') \<Rightarrow>
          elems H' (sc_times s') = elems H (sc_times s) @ [\<lparr>angle = a, riseName = rn, setName = sn\<rparr>]
          \<and> take (length (elems H (sc_times s))) (elems H' (sc_times s')) = elems H (sc_times s)
          \<and> wf_slice H' (sc_times s') \<and> wf_slice H' (sc_times s2)
          \<and> elems H' (sc_times s2) =
               (if base (sc_times s2) = base (sc_times s) \<and> len (sc_times s) < cap (sc_times s)
                   \<and> len (sc_times s) < len (sc_times s2)
                then (elems H (sc_times s2))[len (sc_times s) := \<lparr>angle = a, riseName = rn, setName = sn\<rparr>]
                else elems H (sc_times s2))
          \<and> (\<exists>res. GetTimes P H' s' date lat lng = Some (res, s', H')
                    \<and> written (elems H (sc_times s)) \<subseteq> dom res))"
proof -
  let ?x = "\<lparr>angle = a, riseName = rn, setName = sn\<rparr>"
  obtain s' H' where a: "AddTime g H s a rn sn = (s', H')"
    by (cases "AddTime g H s a rn sn")
  note e = AddTime_elems[OF assms(1) a]
  note o = AddTime_other[OF assms a]
  have 1: "\<exists>res. GetTimes P H s date lat lng = Some (res, s, H)"
    using GetTimes_dom[of P H s date lat lng] by blast
  have 2: "\<exists>pos. GetPosition P H s date lat lng = Some (pos, s, H)"
    by (rule GetPosition_total)
  have 3: "take (length (elems H (sc_times s))) (elems H' (sc_times s')) = elems H (sc_times s)"
    by (simp add: e(1))
  obtain res where g: "GetTimes P H' s' date lat lng = Some (res, s', H')"
    and d: "dom res = {''solarNoon'', ''nadir''} \<union> written (elems H' (sc_times s'))"
    using GetTimes_dom[of P H' s' date lat lng] by blast
  have "written (elems H (sc_times s)) \<subseteq> dom res"
    by (auto simp: d e(1) written_def)
  with g have 4: "\<exists>res. GetTimes P H' s' date lat lng = Some (res, s', H')
                    \<and> written (elems H (sc_times s)) \<subseteq> dom res"
    by blast
  from 1 2 3 4 e o show ?thesis
    unfolding a by simp
qed

text \<open>
  A run of it: the calculator of \<^verbatim>\<open>NewSunCalc\<close> and a copy of it.  The slice is full, so
  \<^verbatim>\<open>AddTime\<close> moves the calculator to a new array and the copy keeps its six definitions.
\<close>

theorem C10_frame_in_heap_witness:
  "wf_slice heap1 (sc_times calc0)
   \<and> (case AddTime double_cap heap1 calc0 (f64 1) ''a'' ''b'' of
        (s', H') \<Rightarrow>
          elems H' (sc_times s') = NewSunCalc_times @ [\<lparr>angle = f64 1, riseName = ''a'', setName = ''b''\<rparr>]
          \<and> wf_slice H' (sc_times s')
          \<and> elems H' (sc_times calc0) = NewSunCalc_times)"
proof -
  obtain s' H' where a: "AddTime double_cap heap1 calc0 (f64 1) ''a'' ''b'' = (s', H')"
    by (cases "AddTime double_cap heap1 calc0 (f64 1) ''a'' ''b''")
  from C10_frame_in_heap[OF calc0_wf calc0_wf, where g = double_cap and a = "f64 1"
      and rn = "''a''" and sn = "''b''"]
  have "elems H' (sc_times s') = NewSunCalc_times @ [\<lparr>angle = f64 1, riseName = ''a'', setName = ''b''\<rparr>]
          \<and> wf_slice H' (sc_times s')
          \<and> elems H' (sc_times calc0) = NewSunCalc_times"
    unfolding a by (simp add: calc0_times calc0_header)
  with calc0_wf show ?thesis unfolding a by simp
qed

section \<open>The phase of the moon\<close>

text \<open>
  Claim C8.  For every instant, on every platform, \<^verbatim>\<open>GetMoonIllumination\<close> returns the
  phase \<open>0.5 + 0.5 * inc * sign(angle) / \<pi>\<close> of the specification, with the \<open>inc\<close> and the
  \<open>angle\<close> it computed, and returns that angle; the sign is \<open>+1\<close> at both zeros (and at
  \<open>NaN\<close>).
\<close>

theorem C8_phase_formula:
  "(\<exists>d. toDays date = Some d
        \<and> GetMoonIllumination P date =
            Some (fdiv (fadd (f64 1) (math_Cos P (fst (snd (moonAngles P d))))) (f64 2),
                  phase_spec (fst (snd (moonAngles P d))) (snd (snd (moonAngles P d))),
                  snd (snd (moonAngles P d))))
   \<and> sign_spec (Finite False 0) = f64 1 \<and> sign_spec (Finite True 0) = f64 1
   \<and> sign_spec NaN = f64 1"
proof -
  obtain d where d: "toDays date = Some d" using toDays_total by blast
  have "GetMoonIllumination P date =
            Some (fdiv (fadd (f64 1) (math_Cos P (fst (snd (moonAngles P d))))) (f64 2),
                  phase_spec (fst (snd (moonAngles P d))) (snd (snd (moonAngles P d))),
                  snd (snd (moonAngles P d)))"
    by (simp add: GetMoonIllumination_def d phase_spec_def sign_spec_def Let_def split: prod.splits)
  with d show ?thesis
    by (simp add: sign_spec_def f64_0 sval_def)
qed

lemma rnd_g1: "fl False (5030569068109113 / 288230376151711744) = Finite False (5030569068109113 / 288230376151711744)"
  by (rule fl_eqI[where e = "- 6" and n = 5030569068109113]) (simp_all add: power_int_minus divide_simps)

lemma steep_phi:
  "fmul rad (f64 1) =
   Finite False (5030569068109113 / 288230376151711744)"
  by (simp add: rad_val f64_def fsub_def sval_def fl_zero fl_one Let_def
        rnd_c1 rnd_n7 rnd_g1)

lemma steep_n:
  "julianCycle (const_platform (Finite False (1 / 2)) (Finite False (1 / 4)) (Finite False (3 / 2))) \<lparr>julianDayNumber = 5323, time = 25405000000000\<rparr> (Finite True 0) =
   Finite False 5323"
  by (simp add: julianCycle_def round_go_def const_platform_def float64_of_int64_def fge_def j0_val twoPi_val floor_rat_numeral ceiling_rat_numeral f64_def fsub_def sval_def fl_zero fl_one Let_def
        rnd_d1 rnd_d2 rnd_n2 rnd_d3 rnd_d4 rnd_c4 rnd_d5 rnd_c2 rnd_d6 rnd_n5 rnd_n6 rnd_n7)

lemma steep_jd:
  "JulianFromFloat (const_platform (Finite False (1 / 2)) (Finite False (1 / 4)) (Finite False (3 / 2))) (Finite False (5852701384212113 / 1099511627776)) =
   \<lparr>julianDayNumber = 5323, time = 77760000000\<rparr>"
  by (simp add: JulianFromFloat_def floor_rat_numeral floor_rat_one_numeral f64_def fsub_def sval_def fl_zero fl_one Let_def
        rnd_c4 rnd_c2 rnd_d7 rnd_d8 rnd_m5 rnd_d9 rnd_m2 rnd_d10)

lemma rnd_g2: "fl False (4311746283244513 / 4503599627370496) = Finite False (4311746283244513 / 4503599627370496)"
  by (rule fl_eqI[where e = "- 1" and n = 8623492566489026]) (simp_all add: power_int_minus divide_simps)

lemma rnd_g3: "fl False (5764607523034235 / 576460752303423488) = Finite False (5764607523034235 / 576460752303423488)"
  by (rule fl_eqI[where e = "- 7" and n = 5764607523034235]) (simp_all add: power_int_minus divide_simps)

lemma rnd_g4: "fl False (557668131778331899 / 576460752303423488) = Finite False (2178391139759109 / 2251799813685248)"
  by (rule fl_eqI[where e = "- 1" and n = 8713564559036436]) (simp_all add: power_int_minus divide_simps)

lemma rnd_g5: "fl False (5534023222112865 / 36893488147419103232) = Finite False (5534023222112865 / 36893488147419103232)"
  by (rule fl_eqI[where e = "- 13" and n = 5534023222112865]) (simp_all add: power_int_minus divide_simps)

lemma rnd_g6: "fl False (35696294457035354721 / 36893488147419103232) = Finite False (8714915638924647 / 9007199254740992)"
  by (rule fl_eqI[where e = "- 1" and n = 8714915638924647]) (simp_all add: power_int_minus divide_simps)

lemma rnd_g7: "fl False (43840985044354696571128981008111 / 2596148429267413814265248164610048) = Finite False (1216831775462243 / 72057594037927936)"
  by (rule fl_eqI[where e = "- 6" and n = 4867327101848972]) (simp_all add: power_int_minus divide_simps)

lemma rnd_g8: "fl False (257625286147876931 / 72057594037927936) = Finite False (4025395096060577 / 1125899906842624)"
  by (rule fl_eqI[where e = "1" and n = 8050790192121154]) (simp_all add: power_int_minus divide_simps)

lemma rnd_g9: "fl False (12096358116166165 / 2251799813685248) = Finite False (3024089529041541 / 562949953421312)"
  by (rule fl_eqI[where e = "2" and n = 6048179058083082]) (simp_all add: power_int_minus divide_simps)

lemma rnd_g10: "fl False (4792648967048651 / 562949953421312) = Finite False (4792648967048651 / 562949953421312)"
  by (rule fl_eqI[where e = "3" and n = 4792648967048651]) (simp_all add: power_int_minus divide_simps)

lemma steep_l:
  "eclipticLongitude (const_platform (Finite False (1 / 2)) (Finite False (1 / 4)) (Finite False (3 / 2))) (Finite False (8012764199137959 / 2251799813685248)) =
   Finite False (4792648967048651 / 562949953421312)"
  by (simp add: eclipticLongitude_def const_platform_def rad_val math_Pi_val Pi_lit_def f64_def fsub_def sval_def fl_zero fl_one Let_def
        rnd_c1 rnd_d11 rnd_m2 rnd_d12 rnd_d13 rnd_m5 rnd_d14 rnd_m7 rnd_m8 rnd_m9 rnd_d15
        rnd_d16 rnd_d17 rnd_d18 rnd_g2 rnd_d19 rnd_d20 rnd_d21 rnd_g3 rnd_g4 rnd_d22
        rnd_d23 rnd_d24 rnd_g5 rnd_g6 rnd_g7 rnd_d25 rnd_g8 rnd_g9 rnd_c3 rnd_g10)

lemma rnd_g11: "fl False (1 / 8) = Finite False (1 / 8)"
  by (rule fl_eqI[where e = "- 3" and n = 4503599627370496]) (simp_all add: power_int_minus divide_simps)

lemma rnd_g12: "fl False (1 / 16) = Finite False (1 / 16)"
  by (rule fl_eqI[where e = "- 4" and n = 4503599627370496]) (simp_all add: power_int_minus divide_simps)

lemma steep_dec:
  "declination (const_platform (Finite False (1 / 2)) (Finite False (1 / 4)) (Finite False (3 / 2))) (Finite False (4792648967048651 / 562949953421312)) (f64 0) =
   Finite False 0"
  by (simp add: declination_def const_platform_def obliquity_def Pi_lit_def f64_def fsub_def sval_def fl_zero fl_one Let_def
        rnd_d29 rnd_g11 rnd_g12)

lemma rnd_g13: "fl False (6110483974416289 / 2305843009213693952) = Finite False (6110483974416289 / 2305843009213693952)"
  by (rule fl_eqI[where e = "- 9" and n = 6110483974416289]) (simp_all add: power_int_minus divide_simps)

lemma rnd_g14: "fl False (5665151910546572211087265 / 2305843009213693952) = Finite False (5276083862918031 / 2147483648)"
  by (rule fl_eqI[where e = "21" and n = 5276083862918031]) (simp_all add: power_int_minus divide_simps)

lemma rnd_g15: "fl False (4792648967048651 / 281474976710656) = Finite False (4792648967048651 / 281474976710656)"
  by (rule fl_eqI[where e = "4" and n = 4792648967048651]) (simp_all add: power_int_minus divide_simps)

lemma rnd_g16: "fl False (1988789595446811 / 576460752303423488) = Finite False (1988789595446811 / 576460752303423488)"
  by (rule fl_eqI[where e = "- 9" and n = 7955158381787244]) (simp_all add: power_int_minus divide_simps)

lemma rnd_g17: "fl False (1416287975647853546660325 / 576460752303423488) = Finite False (1319020963877303 / 536870912)"
  by (rule fl_eqI[where e = "21" and n = 5276083855509212]) (simp_all add: power_int_minus divide_simps)

lemma steep_jNoon:
  "solarTransitJ (const_platform (Finite False (1 / 2)) (Finite False (1 / 4)) (Finite False (3 / 2))) (Finite False (5852701384212113 / 1099511627776)) (Finite False (8012764199137959 / 2251799813685248)) (Finite False (4792648967048651 / 562949953421312)) =
   Finite False (1319020963877303 / 536870912)"
  by (simp add: solarTransitJ_def const_platform_def f64_def fsub_def sval_def fl_zero fl_one Let_def
        rnd_d30 rnd_d31 rnd_d32 rnd_g13 rnd_g14 rnd_d34 rnd_d20 rnd_g15 rnd_g16 rnd_g17)

lemma solarDayOf_steep:
  "solarDayOf (const_platform (Finite False (1 / 2)) (Finite False (1 / 4)) (Finite False (3 / 2)))
     \<lparr>julianDayNumber = 5323, time = 25405000000000\<rparr> (f64 1) (f64 0) =
   \<lparr>sd_lw = Finite True 0, sd_phi = Finite False (5030569068109113 / 288230376151711744), sd_n = Finite False 5323,
     sd_m = Finite False (8012764199137959 / 2251799813685248),
     sd_l = Finite False (4792648967048651 / 562949953421312),
     sd_dec = Finite False 0,
     sd_jNoon = Finite False (1319020963877303 / 536870912)\<rparr>"
  by (simp add: solarDayOf_def Let_def flat_lw steep_phi steep_n flat_ds steep_jd flat_m steep_l
        steep_dec steep_jNoon)

lemma rnd_g18: "fl False 6 = Finite False 6"
  by (rule fl_eqI[where e = "2" and n = 6755399441055744]) (simp_all add: power_int_minus divide_simps)

lemma rnd_g19: "fl False (15091707204327339 / 144115188075855872) = Finite False (3772926801081835 / 36028797018963968)"
  by (rule fl_eqI[where e = "- 4" and n = 7545853602163670]) (simp_all add: power_int_minus divide_simps)

lemma rnd_g20: "fl False 8 = Finite False 8"
  by (rule fl_eqI[where e = "3" and n = 4503599627370496]) (simp_all add: power_int_minus divide_simps)

lemma steep_arg:
  "threshold_arg (const_platform (Finite False (1 / 2)) (Finite False (1 / 4)) (Finite False (3 / 2)))
     \<lparr>sd_lw = Finite True 0, sd_phi = Finite False (5030569068109113 / 288230376151711744), sd_n = Finite False 5323,
     sd_m = Finite False (8012764199137959 / 2251799813685248),
     sd_l = Finite False (4792648967048651 / 562949953421312),
     sd_dec = Finite False 0,
     sd_jNoon = Finite False (1319020963877303 / 536870912)\<rparr>
     \<lparr>angle = f64 6, riseName = ''goldenHourEnd'', setName = ''goldenHour''\<rparr> =
   Finite False 8"
  by (simp add: threshold_arg_def hourAngle_arg_def const_platform_def rad_val f64_def fsub_def sval_def fl_zero fl_one Let_def
        rnd_g18 rnd_c1 rnd_g19 rnd_n5 rnd_g12 rnd_g20)

lemma Time_NaN_steep:
  "Time (JulianFromFloat (const_platform (Finite False (1 / 2)) (Finite False (1 / 4)) (Finite False (3 / 2))) NaN) = \<lparr>Unix = - 210866760000, Nanosecond = 0\<rparr>"
  by (simp add: JulianFromFloat_def const_platform_def Time_def time_Unix_def j1970_def daySec_def
        halfDaySec_def word_sless_alt word_sle_eq)

text \<open>
  A run of the claim: on the platform whose sine is \<open>0.5\<close> and cosine \<open>0.25\<close>, at
  2014-07-29T19:03:25Z, latitude \<open>1\<close> and longitude \<open>0\<close>, the argument of \<^verbatim>\<open>math.Acos\<close> for
  the definition \<open>goldenHourEnd\<close>/\<open>goldenHour\<close> is \<open>8\<close>, and both entries are the instant
  of \<^verbatim>\<open>JulianFromFloat(NaN)\<close>, which this platform converts to day \<open>0\<close>, time \<open>0\<close>.
\<close>

theorem C6_domain_violation_emitted_witness:
  "acos_out_of_domain (threshold_arg (const_platform (Finite False (1 / 2)) (Finite False (1 / 4)) (Finite False (3 / 2)))
       (solarDayOf (const_platform (Finite False (1 / 2)) (Finite False (1 / 4)) (Finite False (3 / 2)))
          \<lparr>julianDayNumber = 5323, time = 25405000000000\<rparr> (f64 1) (f64 0))
       \<lparr>angle = f64 6, riseName = ''goldenHourEnd'', setName = ''goldenHour''\<rparr>)
   \<and> map_option (\<lambda>r. (fst r ''goldenHourEnd'', fst r ''goldenHour''))
        (GetTimes (const_platform (Finite False (1 / 2)) (Finite False (1 / 4)) (Finite False (3 / 2)))
           heap1 calc0 \<lparr>Unix = 1406660605, Nanosecond = 0\<rparr> (f64 1) (f64 0))
     = Some (Some \<lparr>Unix = - 210866760000, Nanosecond = 0\<rparr>,
             Some \<lparr>Unix = - 210866760000, Nanosecond = 0\<rparr>)"
proof -
  let ?P = "(const_platform (Finite False (1 / 2)) (Finite False (1 / 4)) (Finite False (3 / 2)))"
  let ?t = "\<lparr>angle = f64 6, riseName = ''goldenHourEnd'', setName = ''goldenHour''\<rparr>"
  let ?d = "\<lparr>julianDayNumber = 5323, time = 25405000000000\<rparr>"
  have o: "acos_out_of_domain (threshold_arg ?P (solarDayOf ?P ?d (f64 1) (f64 0)) ?t)"
    unfolding solarDayOf_steep steep_arg by (simp add: acos_out_of_domain_def f64_1 sval_def)
  from C6_domain_violation_emitted[of "\<lparr>Unix = 1406660605, Nanosecond = 0\<rparr>" ?P heap1 calc0 "f64 1" "f64 0"]
  obtain d res where *: "toDays \<lparr>Unix = 1406660605, Nanosecond = 0\<rparr> = Some d"
    "GetTimes ?P heap1 calc0 \<lparr>Unix = 1406660605, Nanosecond = 0\<rparr> (f64 1) (f64 0) = Some (res, calc0, heap1)"
    "\<forall>xs t ys k. elems heap1 (sc_times calc0) = xs @ t # ys
            \<and> acos_out_of_domain (threshold_arg ?P (solarDayOf ?P d (f64 1) (f64 0)) t)
            \<and> k \<noteq> [] \<and> (k = riseName t \<or> k = setName t)
            \<and> (\<forall>u\<in>set ys. riseName u \<noteq> k \<and> setName u \<noteq> k) \<longrightarrow>
          res k = Some (Time (JulianFromFloat ?P NaN))"
    by (elim exE conjE) (rule that)
  from *(1) have d: "d = ?d" by (simp add: toDays_t0)
  have "elems heap1 (sc_times calc0) = butlast (elems heap1 (sc_times calc0)) @ ?t # []
            \<and> acos_out_of_domain (threshold_arg ?P (solarDayOf ?P d (f64 1) (f64 0)) ?t)
            \<and> k \<noteq> [] \<and> (k = riseName ?t \<or> k = setName ?t)
            \<and> (\<forall>u\<in>set []. riseName u \<noteq> k \<and> setName u \<noteq> k)"
    if "k = ''goldenHourEnd'' \<or> k = ''goldenHour''" for k
    using that o by (auto simp: calc0_times NewSunCalc_times_def d)
  with *(3) have "res k = Some (Time (JulianFromFloat ?P NaN))"
    if "k = ''goldenHourEnd'' \<or> k = ''goldenHour''" for k
    using that by blast
  then have "res ''goldenHourEnd'' = Some (Time (JulianFromFloat ?P NaN))"
    "res ''goldenHour'' = Some (Time (JulianFromFloat ?P NaN))"
    by simp_all
  with o *(2) show ?thesis
    by (simp add: Time_NaN_steep)
qed

section \<open>The altitude of the moon\<close>

lemma rnd_h1: "fl False (314159265358979323846264338327950288419716939937510582097494459 / 200000000000000000000000000000000000000000000000000000000000000) = Finite False (884279719003555 / 562949953421312)"
  by (rule fl_eqI[where e = "0" and n = 7074237752028440]) (simp_all add: power_int_minus divide_simps)

lemma halfPi_val: "halfPi = Finite False (884279719003555 / 562949953421312)"
  by (simp add: halfPi_def f64_def Pi_lit_def rnd_n7 rnd_m5 rnd_m2 rnd_h1)

lemma c17_val:
  "f64 (Pi_lit / 180 * (17 / 1000)) = Finite False (5473259146102715 / 18446744073709551616)"
  unfolding f64_def Pi_lit_def
  by (simp, rule fl_eqI[where e = "- 12" and n = 5473259146102715]) (simp_all add: power_int_minus divide_simps)

text \<open>No infinity and no number of magnitude \<open>13/8\<close> or more is in the range of the altitude.\<close>

lemma not_in_range_Infinity: "\<not> altitude_in_range (Infinity s)"
  by (cases s) (simp_all add: altitude_in_range_def fle_def fge_def halfPi_val)

lemma not_in_range_large:
  assumes "13 / 8 \<le> V"
  shows "\<not> altitude_in_range (Finite s V)"
  using assms by (cases s) (simp_all add: altitude_in_range_def fle_def fge_def halfPi_val sval_def)

lemma in_range_bound:
  assumes "altitude_in_range (Finite s m)"
  shows "- (13 / 8) \<le> sval s m \<and> sval s m \<le> 13 / 8"
  using assms by (simp add: altitude_in_range_def fle_def fge_def halfPi_val sval_def split: if_splits)

lemma representable_13_4: "representable (13 / 4)"
  unfolding representable_def by (rule exI[of _ 13], rule exI[of _ "- 2"]) (simp add: power_int_minus)

lemma representable_13_8: "representable (13 / 8)"
  unfolding representable_def by (rule exI[of _ 13], rule exI[of _ "- 3"]) (simp add: power_int_minus)

lemma fl_large:
  assumes "0 \<le> c" "c \<le> m" "representable c"
  shows "fl s m = Infinity s \<or> (\<exists>r. fl s m = Finite s r \<and> c \<le> r)"
  using round_mag_ge[OF assms] by (simp add: fl_def Let_def)

text \<open>
  The correction for refraction is \<^verbatim>\<open>rad*0.017\<close> divided by a tangent.  Where the tangent
  is at most \<open>0.00009\<close> in magnitude the quotient is at least \<open>3.25\<close>, and its sum with an
  altitude in \<open>[-\<pi>/2, \<pi>/2]\<close> is outside that range.
\<close>

lemma refraction_out_of_range:
  assumes "altitude_in_range (Finite s m)" "0 \<le> T" "T \<le> 9 / 100000"
  shows "\<not> altitude_in_range
             (fadd (Finite s m) (fdiv (f64 (Pi_lit / 180 * (17 / 1000))) (Finite sT T)))"
proof (cases "T = 0")
  case True
  then show ?thesis unfolding c17_val by (simp add: not_in_range_Infinity)
next
  case False
  let ?c = "5473259146102715 / 18446744073709551616 :: rat"
  from False assms(2) have T: "0 < T" by simp
  have "13 / 4 * T \<le> 13 / 4 * (9 / 100000)" using assms(3) by (intro mult_left_mono) simp_all
  also have "\<dots> \<le> ?c" by simp
  finally have q: "13 / 4 \<le> ?c / T" using T by (simp add: pos_le_divide_eq)
  have d: "fdiv (f64 (Pi_lit / 180 * (17 / 1000))) (Finite sT T) = fl sT (?c / T)"
    unfolding c17_val using False by simp
  from fl_large[OF _ q representable_13_4, of sT]
  consider "fl sT (?c / T) = Infinity sT" | r where "fl sT (?c / T) = Finite sT r" "13 / 4 \<le> r"
    by auto
  then show ?thesis
  proof cases
    case 1
    have "fadd (Finite s m) (fdiv (f64 (Pi_lit / 180 * (17 / 1000))) (Finite sT T)) = Infinity sT"
      unfolding d 1 by simp
    then show ?thesis by (simp only: not_in_range_Infinity not_False_eq_True)
  next
    case 2
    define v where "v = sval s m + sval sT r"
    note b = in_range_bound[OF assms(1)]
    have v: "13 / 8 \<le> \<bar>v\<bar>" using b 2(2) by (auto simp: v_def sval_def split: if_splits)
    then have v0: "v \<noteq> 0" by auto
    have a: "fadd (Finite s m) (fdiv (f64 (Pi_lit / 180 * (17 / 1000))) (Finite sT T))
               = fl (v < 0) \<bar>v\<bar>"
      unfolding d 2(1) using v0 by (simp add: v_def[symmetric])
    from fl_large[OF _ v representable_13_8, of "v < 0"]
    consider "fl (v < 0) \<bar>v\<bar> = Infinity (v < 0)"
      | V where "fl (v < 0) \<bar>v\<bar> = Finite (v < 0) V" "13 / 8 \<le> V"
      by auto
    then show ?thesis
    proof cases
      case 1
      show ?thesis unfolding a 1 by (rule not_in_range_Infinity)
    next
      case 2
      show ?thesis unfolding a 2(1) using 2(2) by (rule not_in_range_large)
    qed
  qed
qed

lemma GetMoonPosition_altitude:
  assumes "toDays date = Some d"
  shows "\<exists>az dist. GetMoonPosition P date lat lng =
           Some (az,
                 fadd (moonAltitude P d lat lng)
                   (fdiv (f64 (Pi_lit / 180 * (17 / 1000)))
                      (math_Tan P (refractionArg (moonAltitude P d lat lng)))),
                 dist)"
  by (simp add: GetMoonPosition_def assms moonAltitude_def refractionArg_def Let_def
        split: prod.splits)

text \<open>
  The run: \<^verbatim>\<open>GetMoonPosition\<close> at 2014-07-30T05:10:36.73074354Z, latitude \<open>31.783\<close>,
  longitude \<open>35.233\<close>.
\<close>

lemma toDays_t1: "toDays \<lparr>Unix = 1406697036, Nanosecond = 730743540\<rparr> = Some \<lparr>julianDayNumber = 5323, time = 61836730743540\<rparr>"
  by (simp add: toDays_def NewJulian_def integerDivide_daySec removeHalfDay_def halfDayNano_def
        j1970_def j2000_def word_sless_alt)

lemma rnd_q1: "fl False (35233 / 1000) = Finite False (4958603927223271 / 140737488355328)"
  by (rule fl_eqI[where e = "5" and n = 4958603927223271]) (simp_all add: power_int_minus divide_simps)

lemma rnd_q2: "fl True (24944599537293758372692540768623 / 40564819207303340847894502572032) = Finite True (5538813749271511 / 9007199254740992)"
  by (rule fl_eqI[where e = "- 1" and n = 5538813749271511]) (simp_all add: power_int_minus divide_simps)

lemma run_lw:
  "fmul rad (fneg (f64 (35233 / 1000))) =
   Finite True (5538813749271511 / 9007199254740992)"
  by (simp add: rad_val f64_def fsub_def sval_def fl_zero fl_one Let_def
        rnd_q1 rnd_c1 rnd_q2)

lemma rnd_q3: "fl False (31783 / 1000) = Finite False (2236529796198695 / 70368744177664)"
  by (rule fl_eqI[where e = "4" and n = 8946119184794780]) (simp_all add: power_int_minus divide_simps)

lemma rnd_q4: "fl False (11251017612661533524618888207535 / 20282409603651670423947251286016) = Finite False (2498227760807999 / 4503599627370496)"
  by (rule fl_eqI[where e = "- 1" and n = 4996455521615998]) (simp_all add: power_int_minus divide_simps)

lemma run_phi:
  "fmul rad (f64 (31783 / 1000)) =
   Finite False (2498227760807999 / 4503599627370496)"
  by (simp add: rad_val f64_def fsub_def sval_def fl_zero fl_one Let_def
        rnd_q3 rnd_c1 rnd_q4)

lemma rnd_q5: "fl False 61836730743540 = Finite False 61836730743540"
  by (rule fl_eqI[where e = "45" and n = 7915101535173120]) (simp_all add: power_int_minus divide_simps)

lemma rnd_q6: "fl False (1030612179059 / 1440000000000) = Finite False (3223239323315005 / 4503599627370496)"
  by (rule fl_eqI[where e = "- 1" and n = 6446478646630010]) (simp_all add: power_int_minus divide_simps)

lemma rnd_q7: "fl False (23975884055816465213 / 4503599627370496) = Finite False (5853487318314567 / 1099511627776)"
  by (rule fl_eqI[where e = "12" and n = 5853487318314567]) (simp_all add: power_int_minus divide_simps)

lemma run_d:
  "fadd (float64_of_int64 (julianDayNumber \<lparr>julianDayNumber = 5323, time = 61836730743540\<rparr>))
        (fdiv (float64_of_int64 (time \<lparr>julianDayNumber = 5323, time = 61836730743540\<rparr>)) (f64 86400000000000)) =
   Finite False (5853487318314567 / 1099511627776)"
  by (simp add: float64_of_int64_def f64_def fsub_def sval_def fl_zero fl_one Let_def
        rnd_d1 rnd_q5 rnd_n2 rnd_q6 rnd_q7)

lemma rnd_q8: "fl False (54579 / 250) = Finite False (7681311376945447 / 35184372088832)"
  by (rule fl_eqI[where e = "7" and n = 7681311376945447]) (simp_all add: power_int_minus divide_simps)

lemma rnd_q9: "fl False (3294099 / 250000) = Finite False (3708825757230381 / 281474976710656)"
  by (rule fl_eqI[where e = "3" and n = 7417651514460762]) (simp_all add: power_int_minus divide_simps)

lemma rnd_q10: "fl False (21709564535786456179782847260027 / 309485009821345068724781056) = Finite False (2410245840221587 / 34359738368)"
  by (rule fl_eqI[where e = "16" and n = 4820491680443174]) (simp_all add: power_int_minus divide_simps)

lemma rnd_q11: "fl False (2475773051763850535 / 35184372088832) = Finite False (4835494241726271 / 68719476736)"
  by (rule fl_eqI[where e = "16" and n = 4835494241726271]) (simp_all add: power_int_minus divide_simps)

lemma rnd_q12: "fl False (24325287761447909098782906607623 / 19807040628566084398385987584) = Finite False (42197647739675 / 34359738368)"
  by (rule fl_eqI[where e = "10" and n = 5401298910678400]) (simp_all add: power_int_minus divide_simps)

lemma run_L:
  "fmul rad (fadd (f64 (218316 / 1000)) (fmul (f64 (13176396 / 1000000)) (Finite False (5853487318314567 / 1099511627776)))) =
   Finite False (42197647739675 / 34359738368)"
  by (simp add: rad_val f64_def fsub_def sval_def fl_zero fl_one Let_def
        rnd_c1 rnd_q8 rnd_q9 rnd_q10 rnd_q11 rnd_q12)

lemma rnd_q13: "fl False (134963 / 1000) = Finite False (4748588410225033 / 35184372088832)"
  by (rule fl_eqI[where e = "7" and n = 4748588410225033]) (simp_all add: power_int_minus divide_simps)

lemma rnd_q14: "fl False (13064993 / 1000000) = Finite False (7354937200799767 / 562949953421312)"
  by (rule fl_eqI[where e = "3" and n = 7354937200799767]) (simp_all add: power_int_minus divide_simps)

lemma rnd_q15: "fl False (43052031631881476122298886305889 / 618970019642690137449562112) = Finite False (4779735677460537 / 68719476736)"
  by (rule fl_eqI[where e = "16" and n = 4779735677460537]) (simp_all add: power_int_minus divide_simps)

lemma rnd_q16: "fl False (2451973255270019977 / 35184372088832) = Finite False (2394505132099629 / 34359738368)"
  by (rule fl_eqI[where e = "16" and n = 4789010264199258]) (simp_all add: power_int_minus divide_simps)

lemma rnd_q17: "fl False (12045723450968919180154558819077 / 9903520314283042199192993792) = Finite False (5349375809413157 / 4398046511104)"
  by (rule fl_eqI[where e = "10" and n = 5349375809413157]) (simp_all add: power_int_minus divide_simps)

lemma run_M:
  "fmul rad (fadd (f64 (134963 / 1000)) (fmul (f64 (13064993 / 1000000)) (Finite False (5853487318314567 / 1099511627776)))) =
   Finite False (5349375809413157 / 4398046511104)"
  by (simp add: rad_val f64_def fsub_def sval_def fl_zero fl_one Let_def
        rnd_c1 rnd_q13 rnd_q14 rnd_q15 rnd_q16 rnd_q17)

lemma rnd_q18: "fl False (11659 / 125) = Finite False (6563433506939077 / 70368744177664)"
  by (rule fl_eqI[where e = "6" and n = 6563433506939077]) (simp_all add: power_int_minus divide_simps)

lemma rnd_q19: "fl False (264587 / 20000) = Finite False (3723730983147117 / 281474976710656)"
  by (rule fl_eqI[where e = "3" and n = 7447461966294234]) (simp_all add: power_int_minus divide_simps)

lemma rnd_q20: "fl False (21796812086666683971937845153339 / 309485009821345068724781056) = Finite False (4839864528409051 / 68719476736)"
  by (rule fl_eqI[where e = "16" and n = 4839864528409051]) (simp_all add: power_int_minus divide_simps)

lemma rnd_q21: "fl False (4962584710597807301 / 70368744177664) = Finite False (4846274131443171 / 68719476736)"
  by (rule fl_eqI[where e = "16" and n = 4846274131443171]) (simp_all add: power_int_minus divide_simps)

lemma rnd_q22: "fl False (24379516741215373741738786717323 / 19807040628566084398385987584) = Finite False (2706670081533177 / 2199023255552)"
  by (rule fl_eqI[where e = "10" and n = 5413340163066354]) (simp_all add: power_int_minus divide_simps)

lemma run_F:
  "fmul rad (fadd (f64 (93272 / 1000)) (fmul (f64 (13229350 / 1000000)) (Finite False (5853487318314567 / 1099511627776)))) =
   Finite False (2706670081533177 / 2199023255552)"
  by (simp add: rad_val f64_def fsub_def sval_def fl_zero fl_one Let_def
        rnd_c1 rnd_q18 rnd_q19 rnd_q20 rnd_q21 rnd_q22)

lemma rnd_q23: "fl False (1975747619842620967669156423744479363871599835267004050811142652651 / 18000000000000000000000000000000000000000000000000000000000000000000) = Finite False (7909312217334553 / 72057594037927936)"
  by (rule fl_eqI[where e = "- 4" and n = 7909312217334553]) (simp_all add: power_int_minus divide_simps)

lemma rnd_q24: "fl False (42197647739675 / 34359738368) = Finite False (42197647739675 / 34359738368)"
  by (rule fl_eqI[where e = "10" and n = 5401298910678400]) (simp_all add: power_int_minus divide_simps)

lemma run_l:
  "fadd (Finite False (42197647739675 / 34359738368)) (fmul (f64 (Pi_lit / 180 * (6289 / 1000))) (math_Sin (refraction_platform (Finite True (1340692200562989 / 9007199254740992)) (Finite False (6481488244214157 / 604462909807314587353088))) (Finite False (5349375809413157 / 4398046511104)))) =
   Finite False (42197647739675 / 34359738368)"
  by (simp add: Pi_lit_def refraction_platform_def const_platform_def f64_def fsub_def sval_def fl_zero fl_one Let_def
        rnd_q23 rnd_q24)

lemma rnd_q25: "fl False (201376089095105746585455440868216134877038558499944283124493948219 / 2250000000000000000000000000000000000000000000000000000000000000000) = Finite False (6449189545315883 / 72057594037927936)"
  by (rule fl_eqI[where e = "- 4" and n = 6449189545315883]) (simp_all add: power_int_minus divide_simps)

lemma run_b:
  "fmul (f64 (Pi_lit / 180 * (5128 / 1000))) (math_Sin (refraction_platform (Finite True (1340692200562989 / 9007199254740992)) (Finite False (6481488244214157 / 604462909807314587353088))) (Finite False (2706670081533177 / 2199023255552))) =
   Finite False 0"
  by (simp add: Pi_lit_def refraction_platform_def const_platform_def f64_def fsub_def sval_def fl_zero fl_one Let_def
        rnd_q25)

lemma rnd_q26: "fl False 385001 = Finite False 385001"
  by (rule fl_eqI[where e = "18" and n = 6614266815709184]) (simp_all add: power_int_minus divide_simps)

lemma rnd_q27: "fl False 20905 = Finite False 20905"
  by (rule fl_eqI[where e = "14" and n = 5746322644664320]) (simp_all add: power_int_minus divide_simps)

lemma rnd_q28: "fl False 364096 = Finite False 364096"
  by (rule fl_eqI[where e = "18" and n = 6255121650417664]) (simp_all add: power_int_minus divide_simps)

lemma run_dt:
  "fsub (f64 385001) (fmul (f64 20905) (math_Cos (refraction_platform (Finite True (1340692200562989 / 9007199254740992)) (Finite False (6481488244214157 / 604462909807314587353088))) (Finite False (5349375809413157 / 4398046511104)))) =
   Finite False 364096"
  by (simp add: refraction_platform_def const_platform_def f64_def fsub_def sval_def fl_zero fl_one Let_def
        rnd_q26 rnd_q27 rnd_q28)

lemma run_dec:
  "declination (refraction_platform (Finite True (1340692200562989 / 9007199254740992)) (Finite False (6481488244214157 / 604462909807314587353088))) (Finite False (42197647739675 / 34359738368)) (Finite False 0) =
   Finite False 0"
  by (simp add: declination_def obliquity_def Pi_lit_def refraction_platform_def const_platform_def f64_def fsub_def sval_def fl_zero fl_one Let_def
        rnd_d29)

lemma run_ra:
  "rightAscension (refraction_platform (Finite True (1340692200562989 / 9007199254740992)) (Finite False (6481488244214157 / 604462909807314587353088))) (Finite False (42197647739675 / 34359738368)) (Finite False 0) =
   Finite False 0"
  by (simp add: rightAscension_def math_Atan2_def obliquity_def Pi_lit_def refraction_platform_def const_platform_def f64_def fsub_def sval_def fl_zero fl_one Let_def
        rnd_d29)

lemma run_moonCoords:
  "moonCoords (refraction_platform (Finite True (1340692200562989 / 9007199254740992)) (Finite False (6481488244214157 / 604462909807314587353088)))
     \<lparr>julianDayNumber = 5323, time = 61836730743540\<rparr> =
   (Finite False 0, Finite False 0, Finite False 364096)"
  by (simp only: moonCoords_def Let_def run_d run_L run_M run_F run_l run_b run_dt run_dec run_ra)

lemma rnd_q29: "fl False 126633890500 = Finite False 126633890500"
  by (rule fl_eqI[where e = "36" and n = 8299078647808000]) (simp_all add: power_int_minus divide_simps)

lemma rnd_q30: "fl False (253267781 / 2000000) = Finite False (556941740301051 / 4398046511104)"
  by (rule fl_eqI[where e = "6" and n = 8911067844816816]) (simp_all add: power_int_minus divide_simps)

lemma rnd_q31: "fl False (1030612179059 / 1440) = Finite False (6003751090383167 / 8388608)"
  by (rule fl_eqI[where e = "29" and n = 6003751090383167]) (simp_all add: power_int_minus divide_simps)

lemma rnd_q32: "fl False (10234632963102932537928467754567 / 39614081257132168796771975168) = Finite False (2272545032844893 / 8796093022208)"
  by (rule fl_eqI[where e = "8" and n = 4545090065689786]) (simp_all add: power_int_minus divide_simps)

lemma rnd_q33: "fl False (3386428513446995 / 8796093022208) = Finite False (3386428513446995 / 8796093022208)"
  by (rule fl_eqI[where e = "8" and n = 6772857026893990]) (simp_all add: power_int_minus divide_simps)

lemma rnd_q34: "fl False (17035662531109178478938401965435 / 2535301200456458802993406410752) = Finite False (7565353912712593 / 1125899906842624)"
  by (rule fl_eqI[where e = "2" and n = 7565353912712593]) (simp_all add: power_int_minus divide_simps)

lemma rnd_q35: "fl False (66061645050972255 / 9007199254740992) = Finite False (2064426407842883 / 281474976710656)"
  by (rule fl_eqI[where e = "2" and n = 8257705631371532]) (simp_all add: power_int_minus divide_simps)

lemma run_st:
  "siderealTime \<lparr>julianDayNumber = 5323, time = 61836730743540\<rparr> (Finite True (5538813749271511 / 9007199254740992)) =
   Finite False (2064426407842883 / 281474976710656)"
  by (simp add: siderealTime_def siderealTime_i_def stCoef0Nano_def stCoef1Nano_def rem64_def signed_modulo_int_def float64_of_int64_def rad_val twoPi_val f64_def fsub_def sval_def fl_zero fl_one Let_def
        rnd_c1 rnd_q29 rnd_m2 rnd_q30 rnd_q5 rnd_m5 rnd_q31 rnd_s3 rnd_m8 rnd_s4 rnd_q32
        rnd_q33 rnd_q34 rnd_q35)

lemma rnd_q36: "fl False (2064426407842883 / 281474976710656) = Finite False (2064426407842883 / 281474976710656)"
  by (rule fl_eqI[where e = "2" and n = 8257705631371532]) (simp_all add: power_int_minus divide_simps)

lemma run_H:
  "fsub (Finite False (2064426407842883 / 281474976710656)) (Finite False 0) =
   Finite False (2064426407842883 / 281474976710656)"
  by (simp add:  f64_def fsub_def sval_def fl_zero fl_one Let_def
        rnd_q36)

lemma run_h:
  "altitude (refraction_platform (Finite True (1340692200562989 / 9007199254740992)) (Finite False (6481488244214157 / 604462909807314587353088))) (Finite False (2064426407842883 / 281474976710656)) (Finite False (2498227760807999 / 4503599627370496)) (Finite False 0) =
   Finite True (1340692200562989 / 9007199254740992)"
  by (simp add: altitude_def refraction_platform_def const_platform_def f64_def fsub_def sval_def fl_zero fl_one Let_def
        rnd_n7)

lemma run_az:
  "azimuth (refraction_platform (Finite True (1340692200562989 / 9007199254740992)) (Finite False (6481488244214157 / 604462909807314587353088))) (Finite False (2064426407842883 / 281474976710656)) (Finite False (2498227760807999 / 4503599627370496)) (Finite False 0) =
   Finite False 0"
  by (simp add: azimuth_def math_Atan2_def refraction_platform_def const_platform_def f64_def fsub_def sval_def fl_zero fl_one Let_def
)

lemma run_moonAltitude:
  "moonAltitude (refraction_platform (Finite True (1340692200562989 / 9007199254740992)) (Finite False (6481488244214157 / 604462909807314587353088)))
     \<lparr>julianDayNumber = 5323, time = 61836730743540\<rparr> (f64 (31783 / 1000)) (f64 (35233 / 1000)) =
   Finite True (1340692200562989 / 9007199254740992)"
  by (simp only: moonAltitude_def Let_def run_lw run_phi run_moonCoords prod.case run_st run_H run_h)

lemma rnd_q37: "fl False (17907078125461821459237067284693166439923865576438103179557184163 / 100000000000000000000000000000000000000000000000000000000000000000) = Finite False (3225852414924969 / 18014398509481984)"
  by (rule fl_eqI[where e = "- 3" and n = 6451704829849938]) (simp_all add: power_int_minus divide_simps)

lemma rnd_q38: "fl False (5340707511102648505386493751575154903135187978937679895657405803 / 60000000000000000000000000000000000000000000000000000000000000000) = Finite False (6413975561839119 / 72057594037927936)"
  by (rule fl_eqI[where e = "- 4" and n = 6413975561839119]) (simp_all add: power_int_minus divide_simps)

lemma rnd_q39: "fl True (4311562042664793 / 72057594037927936) = Finite True (4311562042664793 / 72057594037927936)"
  by (rule fl_eqI[where e = "- 5" and n = 8623124085329586]) (simp_all add: power_int_minus divide_simps)

lemma rnd_q40: "fl True (4301136553233292 / 1437187347554931) = Finite True (1684766169435567 / 562949953421312)"
  by (rule fl_eqI[where e = "1" and n = 6739064677742268]) (simp_all add: power_int_minus divide_simps)

lemma rnd_q41: "fl True (28296950911532061 / 9007199254740992) = Finite True (7074237727883015 / 2251799813685248)"
  by (rule fl_eqI[where e = "1" and n = 7074237727883015]) (simp_all add: power_int_minus divide_simps)

lemma run_arg:
  "refractionArg (Finite True (1340692200562989 / 9007199254740992)) =
   Finite True (7074237727883015 / 2251799813685248)"
  by (simp add: refractionArg_def Pi_lit_def f64_def fsub_def sval_def fl_zero fl_one Let_def
        rnd_q37 rnd_q38 rnd_q39 rnd_q40 rnd_q41)

lemma run_tan:
  "math_Tan (refraction_platform (Finite True (1340692200562989 / 9007199254740992)) (Finite False (6481488244214157 / 604462909807314587353088))) (Finite True (7074237727883015 / 2251799813685248)) =
   Finite False (6481488244214157 / 604462909807314587353088)"
  by (simp add: refraction_platform_def const_platform_def f64_def fsub_def sval_def fl_zero fl_one Let_def
)

lemma rnd_q42: "fl False (5340707511102648505386493751575154903135187978937679895657405803 / 18000000000000000000000000000000000000000000000000000000000000000000) = Finite False (5473259146102715 / 18446744073709551616)"
  by (rule fl_eqI[where e = "- 12" and n = 5473259146102715]) (simp_all add: power_int_minus divide_simps)

lemma rnd_q43: "fl False (179347755699493765120 / 6481488244214157) = Finite False (7606082714998101 / 274877906944)"
  by (rule fl_eqI[where e = "14" and n = 7606082714998101]) (simp_all add: power_int_minus divide_simps)

lemma run_corr:
  "fdiv (f64 (Pi_lit / 180 * (17 / 1000))) (Finite False (6481488244214157 / 604462909807314587353088)) =
   Finite False (7606082714998101 / 274877906944)"
  by (simp add: Pi_lit_def f64_def fsub_def sval_def fl_zero fl_one Let_def
        rnd_q42 rnd_q43)

lemma rnd_q44: "fl False (249234777712857210579 / 9007199254740992) = Finite False (7606041800319129 / 274877906944)"
  by (rule fl_eqI[where e = "14" and n = 7606041800319129]) (simp_all add: power_int_minus divide_simps)

lemma run_alt:
  "fadd (Finite True (1340692200562989 / 9007199254740992)) (Finite False (7606082714998101 / 274877906944)) =
   Finite False (7606041800319129 / 274877906944)"
  by (simp add:  f64_def fsub_def sval_def fl_zero fl_one Let_def
        rnd_q44)

text \<open>
  Claim C5: the altitude that \<^verbatim>\<open>GetMoonPosition\<close> returns, after the correction for
  refraction, lies in \<open>[-\<pi>/2, \<pi>/2]\<close>.  The code does not deliver it.  The correction
  \<^verbatim>\<open>rad*0.017/math.Tan(h+rad*10.26/(h+rad*5.10))\<close> has no bound: where the altitude \<^verbatim>\<open>h\<close>
  is near \<open>-0.148847\<close> the argument of the tangent is near \<open>-\<pi>\<close>, the tangent is near
  \<open>0\<close>, and the quotient is as large as the tangent is small.  On every platform, at
  every instant and location: if the altitude before the correction is in
  \<open>[-\<pi>/2, \<pi>/2]\<close> (as a result of \<^verbatim>\<open>math.Asin\<close> is) and \<^verbatim>\<open>math.Tan\<close> returns a number of
  magnitude at most \<open>0.00009\<close> (zero included), then the altitude returned is outside
  \<open>[-\<pi>/2, \<pi>/2]\<close>: a number of magnitude above \<open>1.625\<close>, or an infinity.

  With the elementary functions of IEEE doubles this happens at
  2014-07-30T05:10:36.73074354Z, latitude \<open>31.783\<close>, longitude \<open>35.233\<close> (the location of
  the tests): there \<^verbatim>\<open>h\<close> is \<open>-0.14884673500003986\<close>, the argument is
  \<open>-3.1415926428670704\<close>, the tangent is \<open>1.0722722832208628e-08\<close> and the altitude returned
  is \<open>27670.61887541469\<close> radians; ten milliseconds before it is \<open>10.16\<close>, ten after
  \<open>-10.46\<close>.  The moon passes this altitude twice a day.
\<close>

theorem C5_moon_altitude_out_of_range:
  assumes "toDays date = Some d"
    and "altitude_in_range (moonAltitude P d lat lng)"
    and "math_Tan P (refractionArg (moonAltitude P d lat lng)) = Finite sT T"
    and "0 \<le> T" and "T \<le> 9 / 100000"
  shows "\<exists>az al dist. GetMoonPosition P date lat lng = Some (az, al, dist)
           \<and> \<not> altitude_in_range al"
proof -
  obtain s m where h: "moonAltitude P d lat lng = Finite s m"
  proof (cases "moonAltitude P d lat lng")
    case (Finite s m)
    then show ?thesis by (rule that)
  next
    case (Infinity x)
    with assms(2) not_in_range_Infinity show ?thesis by simp
  next
    case NaN
    with assms(2) show ?thesis by (simp add: altitude_in_range_def fle_def fge_def)
  qed
  from GetMoonPosition_altitude[OF assms(1), of P lat lng] obtain az dist where
    g: "GetMoonPosition P date lat lng =
          Some (az,
                fadd (moonAltitude P d lat lng)
                  (fdiv (f64 (Pi_lit / 180 * (17 / 1000)))
                     (math_Tan P (refractionArg (moonAltitude P d lat lng)))),
                dist)"
    by blast
  have "\<not> altitude_in_range
            (fadd (moonAltitude P d lat lng)
               (fdiv (f64 (Pi_lit / 180 * (17 / 1000)))
                  (math_Tan P (refractionArg (moonAltitude P d lat lng)))))"
    unfolding assms(3) unfolding h
    using assms(2)[unfolded h] assms(4,5) by (rule refraction_out_of_range)
  with g show ?thesis by blast
qed

text \<open>
  The run in the model, at that instant and location, on the platform whose arc sine
  and tangent are the two values of the run (and whose sine is \<open>0\<close> and cosine \<open>1\<close>): the
  last two operations of \<^verbatim>\<open>GetMoonPosition\<close> are then those of the run, and the altitude
  returned is \<open>7606041800319129 / 2 ^ 38 = 27670.61887541469\<close>.
\<close>

theorem C5_moon_altitude_out_of_range_witness:
  "toDays \<lparr>Unix = 1406697036, Nanosecond = 730743540\<rparr> = Some \<lparr>julianDayNumber = 5323, time = 61836730743540\<rparr>
   \<and> altitude_in_range
        (moonAltitude (refraction_platform (Finite True (1340692200562989 / 9007199254740992)) (Finite False (6481488244214157 / 604462909807314587353088)))
           \<lparr>julianDayNumber = 5323, time = 61836730743540\<rparr> (f64 (31783 / 1000)) (f64 (35233 / 1000)))
   \<and> math_Tan (refraction_platform (Finite True (1340692200562989 / 9007199254740992)) (Finite False (6481488244214157 / 604462909807314587353088)))
         (refractionArg (moonAltitude (refraction_platform (Finite True (1340692200562989 / 9007199254740992)) (Finite False (6481488244214157 / 604462909807314587353088)))
           \<lparr>julianDayNumber = 5323, time = 61836730743540\<rparr> (f64 (31783 / 1000)) (f64 (35233 / 1000))))
       = Finite False (6481488244214157 / 604462909807314587353088)
   \<and> map_option (\<lambda>r. fst (snd r))
         (GetMoonPosition (refraction_platform (Finite True (1340692200562989 / 9007199254740992)) (Finite False (6481488244214157 / 604462909807314587353088)))
            \<lparr>Unix = 1406697036, Nanosecond = 730743540\<rparr> (f64 (31783 / 1000)) (f64 (35233 / 1000)))
       = Some (Finite False (7606041800319129 / 274877906944))
   \<and> (\<exists>az al dist.
         GetMoonPosition (refraction_platform (Finite True (1340692200562989 / 9007199254740992)) (Finite False (6481488244214157 / 604462909807314587353088)))
            \<lparr>Unix = 1406697036, Nanosecond = 730743540\<rparr> (f64 (31783 / 1000)) (f64 (35233 / 1000)) = Some (az, al, dist)
         \<and> \<not> altitude_in_range al)"
proof -
  let ?P = "(refraction_platform (Finite True (1340692200562989 / 9007199254740992)) (Finite False (6481488244214157 / 604462909807314587353088)))"
  let ?d = "\<lparr>julianDayNumber = 5323, time = 61836730743540\<rparr>"
  let ?t = "\<lparr>Unix = 1406697036, Nanosecond = 730743540\<rparr>"
  have 1: "altitude_in_range (moonAltitude ?P ?d (f64 (31783 / 1000)) (f64 (35233 / 1000)))"
    unfolding run_moonAltitude
    by (simp add: altitude_in_range_def fle_def fge_def halfPi_val sval_def)
  have 2: "math_Tan ?P (refractionArg (moonAltitude ?P ?d (f64 (31783 / 1000)) (f64 (35233 / 1000))))
             = Finite False (6481488244214157 / 604462909807314587353088)"
    unfolding run_moonAltitude run_arg by (rule run_tan)
  from GetMoonPosition_altitude[OF toDays_t1, of ?P "f64 (31783 / 1000)" "f64 (35233 / 1000)"]
  have 3: "map_option (\<lambda>r. fst (snd r)) (GetMoonPosition ?P ?t (f64 (31783 / 1000)) (f64 (35233 / 1000)))
             = Some (Finite False (7606041800319129 / 274877906944))"
    unfolding run_moonAltitude run_arg run_tan run_corr run_alt by auto
  have 4: "\<exists>az al dist. GetMoonPosition ?P ?t (f64 (31783 / 1000)) (f64 (35233 / 1000)) = Some (az, al, dist)
             \<and> \<not> altitude_in_range al"
    using C5_moon_altitude_out_of_range[OF toDays_t1 1 2] by simp
  from toDays_t1 1 2 3 4 show ?thesis by (intro conjI)
qed

end
